theory Spec2Isabelle
  imports Complex_Main
begin

section \<open>JavaScript values\<close>

text \<open>
  The backend is JavaScript. Numbers are idealised: coordinates, accuracies and distances
  are reals, clock readings (epoch milliseconds or seconds) are integers. An optional
  property of an input object is a \<open>field\<close>: absent (\<open>undefined\<close>), \<open>null\<close>, or a value.
  \<open>truthy\<close> is JavaScript's truthiness on such a property: absent, null and the number
  0 are falsy. A function that reads the clock takes the reading \<open>now\<close> of \<open>Date.now()\<close> as
  its first argument, one reading for the whole call. A function that changes a
  module-level map takes the map and returns the new one.
\<close>

datatype 'a field = Undefined | Null | Val 'a

definition truthy :: "'a::zero field \<Rightarrow> bool" where
  "truthy f = (case f of Val v \<Rightarrow> v \<noteq> 0 | _ \<Rightarrow> False)"

datatype js_error = TypeError | ReferenceError

section \<open>Configuration (gps-validation.js)\<close>

record zone =
  loc_id :: nat
  loc_name :: string
  loc_lat :: real
  loc_lng :: real
  loc_radius :: real

definition AUTHORIZED_LOCATIONS :: "zone list" where
  "AUTHORIZED_LOCATIONS =
    [\<lparr>loc_id = 1, loc_name = ''Valle de los Ciervos'',
      loc_lat = - 37.371644652229655, loc_lng = - 59.116792790280606, loc_radius = 100\<rparr>,
     \<lparr>loc_id = 2, loc_name = ''Refugio del Valle'',
      loc_lat = - 37.37247355171709, loc_lng = - 59.11563111651744, loc_radius = 100\<rparr>,
     \<lparr>loc_id = 3, loc_name = ''Explora Tandil'',
      loc_lat = - 37.33880343035198, loc_lng = - 59.131626087683635, loc_radius = 100\<rparr>,
     \<lparr>loc_id = 4, loc_name = ''Oficina de Desarrollo (Testing)'',
      loc_lat = - 34.689821911341554, loc_lng = - 58.61410910531587, loc_radius = 100\<rparr>]"

text \<open>\<open>GPS_CONFIG\<close>\<close>

definition MAX_AGE_MINUTES :: real where "MAX_AGE_MINUTES = 2"
definition MIN_ACCURACY :: real where "MIN_ACCURACY = 50"

text \<open>\<open>ADVANCED_FRAUD_CONFIG\<close>\<close>

definition MAX_IDENTICAL_LOCATIONS :: nat where "MAX_IDENTICAL_LOCATIONS = 3"
definition MIN_GPS_VARIATION :: real where "MIN_GPS_VARIATION = 0.00001"
definition SUSPICIOUS_PRECISION_DIGITS :: nat where "SUSPICIOUS_PRECISION_DIGITS = 10"
definition MAX_SPEED_BETWEEN_LOCATIONS :: real where "MAX_SPEED_BETWEEN_LOCATIONS = 100"
definition EXPECTED_ACCURACY_RANGE :: "real \<times> real" where "EXPECTED_ACCURACY_RANGE = (5, 100)"
definition SUSPICIOUS_ACCURACY_VALUES :: "int list" where "SUSPICIOUS_ACCURACY_VALUES = [1, 2, 3]"
definition MAX_WARNINGS_PER_USER :: nat where "MAX_WARNINGS_PER_USER = 5"
definition BLOCK_DURATION_MINUTES :: int where "BLOCK_DURATION_MINUTES = 30"

section \<open>Basic validation\<close>

subsection \<open>calculateDistance\<close>

text \<open>
  \<open>Math.atan2\<close> on reals. \<open>Math.round\<close> rounds half up, as \<^const>\<open>round\<close> does.
\<close>

definition atan2 :: "real \<Rightarrow> real \<Rightarrow> real" where
  "atan2 y x =
     (if 0 < x then arctan (y / x)
      else if x < 0 \<and> 0 \<le> y then arctan (y / x) + pi
      else if x < 0 then arctan (y / x) - pi
      else if 0 < y then pi / 2
      else if y < 0 then - (pi / 2)
      else 0)"

definition calculateDistance :: "real \<Rightarrow> real \<Rightarrow> real \<Rightarrow> real \<Rightarrow> int" where
  "calculateDistance lat1 lng1 lat2 lng2 =
     (let R = 6371;
          dLat = (lat2 - lat1) * pi / 180;
          dLng = (lng2 - lng1) * pi / 180;
          a = sin (dLat / 2) * sin (dLat / 2) +
              cos (lat1 * pi / 180) * cos (lat2 * pi / 180) *
              sin (dLng / 2) * sin (dLng / 2);
          c = 2 * atan2 (sqrt a) (sqrt (1 - a));
          distance = R * c * 1000
      in round distance)"

subsection \<open>isLocationAuthorized\<close>

text \<open>
  The result object: \<open>LocationValid location distance\<close> is
  \<open>{isValid: true, location, distance}\<close>, \<open>LocationInvalid closestLocation minDistance\<close> is
  \<open>{isValid: false, distance: minDistance, closestLocation}\<close>. The message text is built
  from the same fields. The zone list is the function's parameter here; the source reads
  the constant \<open>AUTHORIZED_LOCATIONS\<close>.
\<close>

datatype authResult = LocationValid zone int | LocationInvalid zone int

text \<open>The first loop: return at the first zone whose distance is within its radius.\<close>

fun firstMatch :: "zone list \<Rightarrow> real \<Rightarrow> real \<Rightarrow> (zone \<times> int) option" where
  "firstMatch [] userLat userLng = None"
| "firstMatch (location # rest) userLat userLng =
     (let distance = calculateDistance userLat userLng (loc_lat location) (loc_lng location)
      in if real_of_int distance \<le> loc_radius location then Some (location, distance)
         else firstMatch rest userLat userLng)"

text \<open>
  The second loop, on \<open>(closestLocation, minDistance)\<close>; \<open>None\<close> is the initial
  \<open>(null, Infinity)\<close>, below which every distance lies.
\<close>

fun closestScan :: "zone list \<Rightarrow> real \<Rightarrow> real \<Rightarrow> (zone \<times> int) option \<Rightarrow> (zone \<times> int) option" where
  "closestScan [] userLat userLng acc = acc"
| "closestScan (location # rest) userLat userLng acc =
     (let distance = calculateDistance userLat userLng (loc_lat location) (loc_lng location)
      in closestScan rest userLat userLng
           (case acc of
              None \<Rightarrow> Some (location, distance)
            | Some (closestLocation, minDistance) \<Rightarrow>
                if distance < minDistance then Some (location, distance) else acc))"

text \<open>
  With no zone at all \<open>closestLocation\<close> stays \<open>null\<close> and building the message
  (\<open>closestLocation.name\<close>) throws a TypeError.
\<close>

definition isLocationAuthorized :: "zone list \<Rightarrow> real \<Rightarrow> real \<Rightarrow> js_error + authResult" where
  "isLocationAuthorized zones userLat userLng =
     (case firstMatch zones userLat userLng of
        Some (location, distance) \<Rightarrow> Inr (LocationValid location distance)
      | None \<Rightarrow>
          (case closestScan zones userLat userLng None of
             None \<Rightarrow> Inl TypeError
           | Some (closestLocation, minDistance) \<Rightarrow>
               Inr (LocationInvalid closestLocation minDistance)))"

subsection \<open>Messages\<close>

text \<open>
  The entries of \<open>reasons\<close> and \<open>warnings\<close> are message strings in the source. Each
  constructor stands for one message template and carries the values the template
  interpolates.
\<close>

datatype message =
    MissingCoordinates
  | LocationTooOld int
  | LocationRecent int
  | AccuracyInsufficient "real field"
  | AccuracyAdequate real
  | LocationAuthorized zone int
  | LocationNotAuthorized zone int
  | UserBlockedRemaining int
  | UserBlockedNow nat int
  | SuspiciousSignals nat
  | FraudRejected

subsection \<open>isLocationTimestampValid, isLocationAccuracyValid\<close>

text \<open>\<open>now\<close> is the reading of \<open>Date.now()\<close>, in milliseconds; a GPS timestamp is in seconds.\<close>

definition isLocationTimestampValid :: "int \<Rightarrow> int \<Rightarrow> bool \<times> message" where
  "isLocationTimestampValid now timestamp =
     (let locationTime = timestamp * 1000;
          ageMinutes = real_of_int (now - locationTime) / (1000 * 60)
      in if ageMinutes > MAX_AGE_MINUTES then (False, LocationTooOld (round ageMinutes))
         else (True, LocationRecent (round ageMinutes)))"

definition isLocationAccuracyValid :: "real field \<Rightarrow> bool \<times> message" where
  "isLocationAccuracyValid accuracy =
     (if \<not> truthy accuracy \<or> (case accuracy of Val a \<Rightarrow> a > MIN_ACCURACY | _ \<Rightarrow> False)
      then (False, AccuracyInsufficient accuracy)
      else (True, AccuracyAdequate (case accuracy of Val a \<Rightarrow> a | _ \<Rightarrow> 0)))"

subsection \<open>validateGPSLocation\<close>

record locationData =
  latitude :: "real field"
  longitude :: "real field"
  accuracy :: "real field"
  timestamp :: "int field"

record validationResults =
  isValid :: bool
  reasons :: "message list"
  location :: "zone option"
  distance :: "int option"
  warnings :: "message list"

record basicResults = validationResults +
  closestLocation :: "zone option"

text \<open>The number held by a field that has passed a truthiness test.\<close>

definition num :: "'a::zero field \<Rightarrow> 'a" where
  "num f = (case f of Val v \<Rightarrow> v | _ \<Rightarrow> 0)"

definition validateGPSLocation :: "int \<Rightarrow> locationData \<Rightarrow> string \<Rightarrow> js_error + basicResults" where
  "validateGPSLocation now locationData phoneNumber =
     (let userLat = latitude locationData;
          userLng = longitude locationData;
          validationResults = \<lparr>isValid = False, reasons = [], location = None, distance = None,
                                 warnings = [], closestLocation = None\<rparr>
      in
      if \<not> truthy userLat \<or> \<not> truthy userLng
      then Inr (validationResults\<lparr>reasons := [MissingCoordinates]\<rparr>)
      else
        let timestampValidation =
              (if truthy (timestamp locationData)
               then Some (isLocationTimestampValid now (num (timestamp locationData)))
               else None)
        in
        case timestampValidation of
          Some (False, msg) \<Rightarrow> Inr (validationResults\<lparr>reasons := [msg]\<rparr>)
        | _ \<Rightarrow>
          let validationResults =
                (case timestampValidation of
                   Some (_, msg) \<Rightarrow> validationResults\<lparr>warnings := [msg]\<rparr>
                 | None \<Rightarrow> validationResults);
              accuracyValidation =
                (if accuracy locationData \<noteq> Undefined
                 then Some (isLocationAccuracyValid (accuracy locationData))
                 else None)
          in
          case accuracyValidation of
            Some (False, msg) \<Rightarrow>
              Inr (validationResults\<lparr>reasons := reasons validationResults @ [msg]\<rparr>)
          | _ \<Rightarrow>
            let validationResults =
                  (case accuracyValidation of
                     Some (_, msg) \<Rightarrow>
                       validationResults\<lparr>warnings := warnings validationResults @ [msg]\<rparr>
                   | None \<Rightarrow> validationResults)
            in
            case isLocationAuthorized AUTHORIZED_LOCATIONS (num userLat) (num userLng) of
              Inl e \<Rightarrow> Inl e
            | Inr (LocationInvalid closest minDistance) \<Rightarrow>
                Inr (validationResults
                      \<lparr>reasons := reasons validationResults @
                                  [LocationNotAuthorized closest minDistance],
                       distance := Some minDistance,
                       closestLocation := Some closest\<rparr>)
            | Inr (LocationValid loc d) \<Rightarrow>
                Inr (validationResults
                      \<lparr>isValid := True,
                       location := Some loc,
                       distance := Some d,
                       reasons := reasons validationResults @ [LocationAuthorized loc d]\<rparr>))"

section \<open>Anti-fraud analysis\<close>

datatype severity = LOW | MEDIUM | HIGH

datatype flagType =
    IDENTICAL_LOCATIONS
  | LOW_GPS_VARIATION
  | IMPOSSIBLE_SPEED
  | PERFECT_COORDINATES
  | EXCESSIVE_PRECISION
  | ROUNDED_COORDINATES
  | SUSPICIOUS_ACCURACY
  | MISSING_TIMESTAMP
  | ABNORMAL_ACCURACY

text \<open>A suspicious flag; its message text is fixed by the type and is left out.\<close>

record flag =
  ftype :: flagType
  severity :: severity

record historyEntry =
  h_lat :: real
  h_lng :: real
  h_timestamp :: int

record userLog =
  log_warnings :: nat
  lastWarning :: "int option"
  isBlocked :: bool
  blockUntil :: "int option"
  incidents :: "(int \<times> flag list) list"

text \<open>The two module-level maps, keyed by the user's id.\<close>

record fraudState =
  userLocationHistory :: "string \<Rightarrow> historyEntry list option"
  suspiciousActivityLog :: "string \<Rightarrow> userLog option"

subsection \<open>analyzeLocationHistory\<close>

text \<open>
  The backwards loop of the first analysis: \<open>prevs\<close> are the entries before the last one,
  nearest first; counting stops at the first entry that differs.
\<close>

fun identicalRun :: "historyEntry \<Rightarrow> historyEntry list \<Rightarrow> nat" where
  "identicalRun lastLocation [] = 0"
| "identicalRun lastLocation (prevLocation # prevs) =
     (if h_lat lastLocation = h_lat prevLocation \<and> h_lng lastLocation = h_lng prevLocation
      then Suc (identicalRun lastLocation prevs) else 0)"

text \<open>The loop of the second analysis, over consecutive pairs of \<open>recent\<close>.\<close>

fun totalVariation :: "historyEntry list \<Rightarrow> real" where
  "totalVariation (p # q # rest) =
     (\<bar>h_lat q - h_lat p\<bar> + \<bar>h_lng q - h_lng p\<bar>) + totalVariation (q # rest)"
| "totalVariation _ = 0"

text \<open>
  \<open>speedKmH > MAX_SPEED_BETWEEN_LOCATIONS\<close>. With equal timestamps the source divides by
  zero: the speed is \<open>Infinity\<close> when the distance is positive and \<open>NaN\<close> when it is 0,
  and only the first exceeds the limit.
\<close>

definition speedAboveLimit :: "int \<Rightarrow> real \<Rightarrow> bool" where
  "speedAboveLimit meters timeDiff =
     (if timeDiff = 0 then 0 < meters
      else (real_of_int meters / 1000) / (timeDiff / 3600) > MAX_SPEED_BETWEEN_LOCATIONS)"

definition analyzeLocationHistory ::
  "int \<Rightarrow> (string \<Rightarrow> historyEntry list option) \<Rightarrow> string \<Rightarrow> real \<Rightarrow> real \<Rightarrow> int field
    \<Rightarrow> flag list \<times> (string \<Rightarrow> historyEntry list option)" where
  "analyzeLocationHistory now histories phoneNumber currentLat currentLng ts =
     (let history0 = (case histories phoneNumber of None \<Rightarrow> [] | Some h \<Rightarrow> h);
          pushed = history0 @
            [\<lparr>h_lat = currentLat, h_lng = currentLng,
              h_timestamp = (if truthy ts then num ts else now)\<rparr>];
          history = (if length pushed > 10 then tl pushed else pushed);
          flags1 =
            (if length history \<ge> 2 \<and>
                identicalRun (last history) (rev (butlast history)) \<ge> MAX_IDENTICAL_LOCATIONS
             then [\<lparr>ftype = IDENTICAL_LOCATIONS, severity = HIGH\<rparr>] else []);
          flags2 =
            (if length history \<ge> 3 \<and>
                totalVariation (drop (length history - 3) history) < MIN_GPS_VARIATION
             then [\<lparr>ftype = LOW_GPS_VARIATION, severity = MEDIUM\<rparr>] else []);
          flags3 =
            (if length history \<ge> 2 then
               (let current = last history;
                    previous = last (butlast history);
                    meters = calculateDistance (h_lat previous) (h_lng previous)
                             (h_lat current) (h_lng current);
                    timeDiff = real_of_int (h_timestamp current - h_timestamp previous) / 1000
                in if speedAboveLimit meters timeDiff \<and> meters > 1000
                   then [\<lparr>ftype = IMPOSSIBLE_SPEED, severity = HIGH\<rparr>] else [])
             else [])
      in (flags1 @ flags2 @ flags3, histories(phoneNumber \<mapsto> history)))"

subsection \<open>detectPerfectCoordinates\<close>

text \<open>
  The number of matches of the pattern \<open>/0{3,}/g\<close>: one for each maximal run of at
  least three zeros. \<open>run\<close> is the length of the run that ends at the current position.
\<close>

fun zeroRunMatches :: "string \<Rightarrow> nat \<Rightarrow> nat" where
  "zeroRunMatches [] run = (if run \<ge> 3 then 1 else 0)"
| "zeroRunMatches (c # cs) run =
     (if c = CHR ''0'' then zeroRunMatches cs (Suc run)
      else (if run \<ge> 3 then 1 else 0) + zeroRunMatches cs 0)"

text \<open>\<open>str.split('.')\<close>; \<open>cur\<close> is the piece being read.\<close>

fun splitDot :: "string \<Rightarrow> string \<Rightarrow> string list" where
  "splitDot [] cur = [cur]"
| "splitDot (c # cs) cur =
     (if c = CHR ''.'' then cur # splitDot cs [] else splitDot cs (cur @ [c]))"

text \<open>\<open>(str.split('.')[1] || '').length\<close>\<close>

definition decimals :: "string \<Rightarrow> nat" where
  "decimals str = (case splitDot str [] of _ # piece # _ \<Rightarrow> length piece | _ \<Rightarrow> 0)"

definition endsWith :: "string \<Rightarrow> string \<Rightarrow> bool" where
  "endsWith str suf =
     (length suf \<le> length str \<and> drop (length str - length suf) str = suf)"

text \<open>
  \<open>toStr\<close> is \<open>Number.prototype.toString\<close>, which belongs to the JavaScript runtime; it
  is a parameter of the analysis.
\<close>

definition detectPerfectCoordinates :: "(real \<Rightarrow> string) \<Rightarrow> real \<Rightarrow> real \<Rightarrow> flag list" where
  "detectPerfectCoordinates toStr lat lng =
     (let latStr = toStr lat;
          lngStr = toStr lng;
          latZeros = zeroRunMatches latStr 0;
          lngZeros = zeroRunMatches lngStr 0;
          latDecimals = decimals latStr;
          lngDecimals = decimals lngStr
      in
      (if latZeros > 0 \<or> lngZeros > 0
       then [\<lparr>ftype = PERFECT_COORDINATES, severity = HIGH\<rparr>] else []) @
      (if latDecimals > SUSPICIOUS_PRECISION_DIGITS \<or> lngDecimals > SUSPICIOUS_PRECISION_DIGITS
       then [\<lparr>ftype = EXCESSIVE_PRECISION, severity = MEDIUM\<rparr>] else []) @
      (if endsWith latStr ''.000000'' \<or> endsWith lngStr ''.000000''
       then [\<lparr>ftype = ROUNDED_COORDINATES, severity = HIGH\<rparr>] else []))"

subsection \<open>validateGPSMetadata\<close>

definition validateGPSMetadata :: "real field \<Rightarrow> int field \<Rightarrow> flag list" where
  "validateGPSMetadata acc ts =
     (if truthy acc \<and> \<lfloor>num acc\<rfloor> \<in> set SUSPICIOUS_ACCURACY_VALUES
      then [\<lparr>ftype = SUSPICIOUS_ACCURACY, severity = MEDIUM\<rparr>] else []) @
     (if \<not> truthy ts
      then [\<lparr>ftype = MISSING_TIMESTAMP, severity = HIGH\<rparr>] else []) @
     (if truthy acc \<and>
         (num acc < fst EXPECTED_ACCURACY_RANGE \<or> num acc > snd EXPECTED_ACCURACY_RANGE)
      then [\<lparr>ftype = ABNORMAL_ACCURACY, severity = LOW\<rparr>] else [])"

subsection \<open>manageSuspiciousUser\<close>

text \<open>
  The returned object: \<open>Blocked message\<close> is \<open>{isBlocked: true, message}\<close>,
  \<open>NotBlocked warnings\<close> is \<open>{isBlocked: false, warnings, message: null}\<close>.
\<close>

datatype userStatus = Blocked message | NotBlocked nat

text \<open>In a comparison with a number, \<open>null\<close> converts to 0.\<close>

definition nullAsZero :: "int option \<Rightarrow> int" where
  "nullAsZero v = (case v of None \<Rightarrow> 0 | Some n \<Rightarrow> n)"

definition newUserLog :: userLog where
  "newUserLog = \<lparr>log_warnings = 0, lastWarning = None, isBlocked = False,
                  blockUntil = None, incidents = []\<rparr>"

definition manageSuspiciousUser ::
  "int \<Rightarrow> (string \<Rightarrow> userLog option) \<Rightarrow> string \<Rightarrow> flag list
    \<Rightarrow> userStatus \<times> (string \<Rightarrow> userLog option)" where
  "manageSuspiciousUser now logs phoneNumber suspicious =
     (let userLog = (case logs phoneNumber of None \<Rightarrow> newUserLog | Some l \<Rightarrow> l) in
      if isBlocked userLog \<and> nullAsZero (blockUntil userLog) > now
      then
        (let remainingMinutes =
               \<lceil>real_of_int (nullAsZero (blockUntil userLog) - now) / (1000 * 60)\<rceil>
         in (Blocked (UserBlockedRemaining remainingMinutes), logs(phoneNumber \<mapsto> userLog)))
      else
        let userLog =
              (if isBlocked userLog \<and> nullAsZero (blockUntil userLog) \<le> now
               then userLog\<lparr>isBlocked := False, blockUntil := None, log_warnings := 0\<rparr>
               else userLog);
            highSeverityFlags = filter (\<lambda>f. severity f = HIGH) suspicious
        in
        if length highSeverityFlags > 0
        then
          (let pushed = incidents userLog @ [(now, suspicious)];
               userLog = userLog
                 \<lparr>log_warnings := log_warnings userLog + length highSeverityFlags,
                  lastWarning := Some now,
                  incidents := (if length pushed > 20 then tl pushed else pushed)\<rparr>
           in
           if log_warnings userLog \<ge> MAX_WARNINGS_PER_USER
           then
             (Blocked (UserBlockedNow (log_warnings userLog) BLOCK_DURATION_MINUTES),
              logs(phoneNumber \<mapsto> userLog
                \<lparr>isBlocked := True,
                 blockUntil := Some (now + BLOCK_DURATION_MINUTES * 60 * 1000)\<rparr>))
           else (NotBlocked (log_warnings userLog), logs(phoneNumber \<mapsto> userLog)))
        else (NotBlocked (log_warnings userLog), logs(phoneNumber \<mapsto> userLog)))"

subsection \<open>validateGPSLocationAdvanced\<close>

text \<open>
  The values of \<open>fraudRisk\<close>. The steps below follow the numbered steps of the source; the
  block manager is asked a second time (step 7) only when the risk is HIGH, and
  \<open>userManagement\<close> is a not-blocked answer otherwise.
\<close>

datatype riskLevel = RISK_LOW | RISK_MEDIUM | RISK_HIGH | BLOCKED

record advancedResults = validationResults +
  suspiciousFlags :: "flag list"
  fraudRisk :: riskLevel

definition validateGPSLocationAdvanced ::
  "(real \<Rightarrow> string) \<Rightarrow> int \<Rightarrow> fraudState \<Rightarrow> locationData \<Rightarrow> string
    \<Rightarrow> (js_error + advancedResults) \<times> fraudState" where
  "validateGPSLocationAdvanced toStr now st locationData phoneNumber =
     (let userLat = latitude locationData;
          userLng = longitude locationData;
          validationResults = \<lparr>isValid = False, reasons = [], location = None, distance = None,
                                 warnings = [], suspiciousFlags = [], fraudRisk = RISK_LOW\<rparr>;
          (userStatus, logs1) = manageSuspiciousUser now (suspiciousActivityLog st) phoneNumber [];
          st1 = st\<lparr>suspiciousActivityLog := logs1\<rparr>
      in
      case userStatus of
        Blocked msg \<Rightarrow>
          (Inr (validationResults\<lparr>fraudRisk := BLOCKED, reasons := [msg]\<rparr>), st1)
      | NotBlocked _ \<Rightarrow>
        if \<not> truthy userLat \<or> \<not> truthy userLng
        then (Inr (validationResults\<lparr>reasons := [MissingCoordinates]\<rparr>), st1)
        else
          let perfectCoordFlags = detectPerfectCoordinates toStr (num userLat) (num userLng);
              metadataFlags = validateGPSMetadata (accuracy locationData) (timestamp locationData);
              (historyFlags, histories2) =
                 analyzeLocationHistory now (userLocationHistory st1) phoneNumber
                   (num userLat) (num userLng) (timestamp locationData);
              st2 = st1\<lparr>userLocationHistory := histories2\<rparr>;
              flags = perfectCoordFlags @ metadataFlags @ historyFlags;
              highRiskFlags = filter (\<lambda>f. severity f = HIGH) flags;
              mediumRiskFlags = filter (\<lambda>f. severity f = MEDIUM) flags;
              risk = (if length highRiskFlags \<ge> 2 then RISK_HIGH
                      else if length highRiskFlags \<ge> 1 \<or> length mediumRiskFlags \<ge> 2
                        then RISK_MEDIUM
                      else RISK_LOW);
              validationResults = validationResults\<lparr>suspiciousFlags := flags, fraudRisk := risk\<rparr>;
              (userManagement, logs3) =
                 (if risk = RISK_HIGH
                  then manageSuspiciousUser now (suspiciousActivityLog st2) phoneNumber flags
                  else (NotBlocked 0, suspiciousActivityLog st2));
              st3 = st2\<lparr>suspiciousActivityLog := logs3\<rparr>
          in
          case userManagement of
            Blocked msg \<Rightarrow>
              (Inr (validationResults\<lparr>fraudRisk := BLOCKED, reasons := [msg]\<rparr>), st3)
          | NotBlocked _ \<Rightarrow>
            (case validateGPSLocation now locationData phoneNumber of
               Inl e \<Rightarrow> (Inl e, st3)
             | Inr originalValidation \<Rightarrow>
               (Inr (validationResults
                 \<lparr>isValid := isValid originalValidation \<and> risk \<noteq> RISK_HIGH,
                  location := location originalValidation,
                  distance := distance originalValidation,
                  reasons := reasons originalValidation @
                             (if risk = RISK_HIGH then [FraudRejected] else []),
                  warnings := warnings originalValidation @
                              (if length flags > 0 then [SuspiciousSignals (length flags)] else [])\<rparr>),
                st3)))"

section \<open>Attendance state control\<close>

text \<open>\<open>STATE_CONTROL_CONFIG\<close>\<close>

definition WORK_DAY_START :: int where "WORK_DAY_START = 6"
definition WORK_DAY_END :: int where "WORK_DAY_END = 22"
definition MAX_WORK_HOURS :: real where "MAX_WORK_HOURS = 12"
definition MISSING_EXIT_THRESHOLD :: real where "MISSING_EXIT_THRESHOLD = 2"
definition MAX_ENTRIES_PER_DAY :: nat where "MAX_ENTRIES_PER_DAY = 3"
definition MIN_TIME_BETWEEN_ACTIONS :: real where "MIN_TIME_BETWEEN_ACTIONS = 5"
definition STATE_CACHE_DURATION :: int where "STATE_CACHE_DURATION = 60"

subsection \<open>Strings\<close>

fun startsWith :: "string \<Rightarrow> string \<Rightarrow> bool" where
  "startsWith str [] = True"
| "startsWith [] (c # cs) = False"
| "startsWith (x # xs) (c # cs) = (x = c \<and> startsWith xs cs)"

text \<open>\<open>str.includes(sub)\<close>; also the SQL pattern \<open>LIKE '%sub%'\<close> on digits.\<close>

fun includesStr :: "string \<Rightarrow> string \<Rightarrow> bool" where
  "includesStr [] sub = (sub = [])"
| "includesStr (x # xs) sub = (startsWith (x # xs) sub \<or> includesStr xs sub)"

text \<open>\<open>str.replace(pat, '')\<close>: the first occurrence only.\<close>

fun removeFirst :: "string \<Rightarrow> string \<Rightarrow> string" where
  "removeFirst [] pat = []"
| "removeFirst (x # xs) pat =
     (if startsWith (x # xs) pat then drop (length pat) (x # xs) else x # removeFirst xs pat)"

definition extractPhoneNumber :: "string \<Rightarrow> string" where
  "extractPhoneNumber whatsappId = removeFirst (removeFirst whatsappId ''@c.us'') ''@s.whatsapp.net''"

definition formatPhoneForDisplay :: "string \<Rightarrow> string" where
  "formatPhoneForDisplay phone =
     (if length phone \<ge> 10 then
        (let countryCode = take 2 phone;
             areaCode = take 2 (drop 2 phone);
             number = drop 4 phone
         in ''+'' @ countryCode @ '' '' @ areaCode @ '' '' @ take 4 number @ ''-'' @ drop 4 number)
      else phone)"

subsection \<open>Sessions\<close>

datatype action = Entrada | Salida

record session =
  phoneNumber :: string
  whatsappId :: string
  displayPhone :: string
  firstContact :: int
  lastActivity :: int
  messageCount :: nat
  pendingAction :: "action option"
  pendingActionTime :: "int option"

definition getOrCreateEmployeeSession ::
  "int \<Rightarrow> (string \<Rightarrow> session option) \<Rightarrow> string \<Rightarrow> session \<times> (string \<Rightarrow> session option)" where
  "getOrCreateEmployeeSession now sessions wid =
     (let phone = extractPhoneNumber wid;
          s = (case sessions phone of
                 None \<Rightarrow>
                   \<lparr>phoneNumber = phone, whatsappId = wid,
                    displayPhone = formatPhoneForDisplay phone,
                    firstContact = now, lastActivity = now, messageCount = 0,
                    pendingAction = None, pendingActionTime = None\<rparr>
               | Some s \<Rightarrow> s\<lparr>lastActivity := now, messageCount := messageCount s + 1\<rparr>)
      in (s, sessions(phone \<mapsto> s)))"

subsection \<open>The record store\<close>

text \<open>
  A row of the table \<open>attendance_records\<close>. The store is the list of its rows in the order
  they were inserted; a connection to it gives \<open>Some rows\<close>, or \<open>None\<close> when the store is
  down. Clock readings are in epoch milliseconds and the clocks are taken in UTC:
  \<open>getHours\<close> and SQL's \<open>DATE\<close> are computed from them.
\<close>

datatype validationStatus = VALID | INVALID

record attendanceRecord =
  phone_number :: string
  action_type :: action
  rec_latitude :: "real field"
  rec_longitude :: "real field"
  location_name :: "string option"
  distance_from_point :: "int option"
  validation_status :: validationStatus
  rec_timestamp :: int
  rec_accuracy :: "real field"
  gps_timestamp :: "int option"

definition getHours :: "int \<Rightarrow> int" where
  "getHours t = (t div 3600000) mod 24"

definition DATE :: "int \<Rightarrow> int" where
  "DATE t = t div 86400000"

text \<open>
  The module of the state control (attendance-state-control.js) calls
  \<open>connectToDatabase\<close> in both of its queries, but neither defines nor imports that name:
  evaluating it throws a ReferenceError, whatever the store holds. Each query makes the
  call inside its \<open>try\<close>; its \<open>catch\<close> logs the error and returns \<open>null\<close>, or \<open>[]\<close>.
\<close>

definition connectToDatabase :: "attendanceRecord list option \<Rightarrow> js_error + attendanceRecord list option" where
  "connectToDatabase db = Inl ReferenceError"

text \<open>
  \<open>ORDER BY timestamp DESC LIMIT 1\<close>: a row with the greatest timestamp; among rows with
  equal timestamps, where SQL leaves the choice open, the one inserted last.
\<close>

definition getLastAttendanceRecord ::
  "attendanceRecord list option \<Rightarrow> string \<Rightarrow> int option \<Rightarrow> attendanceRecord option" where
  "getLastAttendanceRecord db phone date =
     (case connectToDatabase db of
        Inl error \<Rightarrow> None
      | Inr None \<Rightarrow> None
      | Inr (Some rows) \<Rightarrow>
          (let matching = filter (\<lambda>r. includesStr (phone_number r) phone \<and>
                                      (case date of None \<Rightarrow> True
                                       | Some d \<Rightarrow> DATE (rec_timestamp r) = DATE d)) rows
           in case rev (sort_key rec_timestamp matching) of
                [] \<Rightarrow> None
              | r # _ \<Rightarrow> Some r))"

definition getTodayAttendanceRecords ::
  "int \<Rightarrow> attendanceRecord list option \<Rightarrow> string \<Rightarrow> attendanceRecord list" where
  "getTodayAttendanceRecords now db phone =
     (case connectToDatabase db of
        Inl error \<Rightarrow> []
      | Inr None \<Rightarrow> []
      | Inr (Some rows) \<Rightarrow>
          sort_key rec_timestamp
            (filter (\<lambda>r. includesStr (phone_number r) phone \<and> DATE (rec_timestamp r) = DATE now) rows))"

subsection \<open>getEmployeeCurrentState\<close>

datatype attendanceStatus = OUT | IN

text \<open>
  The warnings of a state, by template: a pending action with its rounded age in minutes,
  a possibly missing exit with the time of the last entry, excessive working time with
  the rounded hours, and less than the minimum time since the last action.
\<close>

datatype stateWarning =
    PendingWarning action int
  | MissingExitWarning int
  | ExcessiveWorkWarning int
  | MinTimeWarning

text \<open>
  \<open>w.includes('minutos desde ultima accion')\<close>: of the four templates only the last
  contains that text.
\<close>

fun mentionsMinTime :: "stateWarning \<Rightarrow> bool" where
  "mentionsMinTime MinTimeWarning = True"
| "mentionsMinTime _ = False"

text \<open>
  The state object. Its \<open>session\<close> property refers to the session object itself and is
  left out; \<open>st_pendingAction\<close> is the property \<open>pendingAction\<close>, absent when \<open>None\<close>.
\<close>

record employeeState =
  st_phoneNumber :: string
  st_whatsappId :: string
  st_displayPhone :: string
  currentStatus :: attendanceStatus
  lastAction :: "action option"
  lastActionTime :: "int option"
  todayEntries :: nat
  todayExits :: nat
  workingHours :: real
  canEnter :: bool
  canExit :: bool
  st_warnings :: "stateWarning list"
  missingExit :: bool
  isWorkingHours :: bool
  cacheTime :: int
  st_pendingAction :: "action option"

definition getEmployeeCurrentState ::
  "int \<Rightarrow> attendanceRecord list option \<Rightarrow> (string \<Rightarrow> session option)
    \<Rightarrow> (string \<Rightarrow> employeeState option) \<Rightarrow> string \<Rightarrow> bool
    \<Rightarrow> employeeState \<times> (string \<Rightarrow> session option) \<times> (string \<Rightarrow> employeeState option)" where
  "getEmployeeCurrentState now db sessions states wid forceRefresh =
     (let (session, sessions1) = getOrCreateEmployeeSession now sessions wid;
          phone = phoneNumber session;
          cacheKey = ''state_'' @ phone;
          fresh = (case states cacheKey of
                     Some cached \<Rightarrow>
                       if \<not> forceRefresh \<and> cacheTime cached \<noteq> 0 \<and>
                          now - cacheTime cached < STATE_CACHE_DURATION * 60 * 1000
                       then Some cached else None
                   | None \<Rightarrow> None)
      in
      case fresh of
        Some cached \<Rightarrow> (cached, sessions1, states)
      | None \<Rightarrow>
        let lastRecord = getLastAttendanceRecord db phone None;
            todayRecords = getTodayAttendanceRecords now db phone;
            currentHour = getHours now;
            validEntries = filter (\<lambda>r. action_type r = Entrada \<and> validation_status r = VALID)
                             todayRecords;
            validExits = filter (\<lambda>r. action_type r = Salida \<and> validation_status r = VALID)
                           todayRecords;
            state = \<lparr>st_phoneNumber = phone, st_whatsappId = wid,
                     st_displayPhone = displayPhone session,
                     currentStatus = OUT, lastAction = None, lastActionTime = None,
                     todayEntries = length validEntries, todayExits = length validExits,
                     workingHours = 0, canEnter = False, canExit = False,
                     st_warnings = [], missingExit = False,
                     isWorkingHours = (currentHour \<ge> WORK_DAY_START \<and> currentHour \<le> WORK_DAY_END),
                     cacheTime = now, st_pendingAction = None\<rparr>;
            (state, session) =
              (case (pendingAction session, pendingActionTime session) of
                 (Some pending, Some pendingTime) \<Rightarrow>
                   if pendingTime = 0 then (state, session)
                   else
                     (let pendingAge = real_of_int (now - pendingTime) / (1000 * 60) in
                      if pendingAge < 10
                      then (state\<lparr>st_pendingAction := Some pending,
                                   st_warnings := st_warnings state @
                                      [PendingWarning pending (round pendingAge)]\<rparr>,
                            session)
                      else (state, session\<lparr>pendingAction := None, pendingActionTime := None\<rparr>))
               | _ \<Rightarrow> (state, session));
            state =
              (case lastRecord of
                 None \<Rightarrow> state
               | Some r \<Rightarrow>
                   if validation_status r \<noteq> VALID then state
                   else
                     (let state = state\<lparr>lastAction := Some (action_type r),
                                        lastActionTime := Some (rec_timestamp r)\<rparr>;
                          timeSinceLastAction = real_of_int (now - rec_timestamp r) / (1000 * 60);
                          state =
                            (case action_type r of
                               Entrada \<Rightarrow>
                                 (let state = state\<lparr>currentStatus := IN,
                                                    workingHours := timeSinceLastAction / 60\<rparr>;
                                      state =
                                        (if currentHour > WORK_DAY_END \<and>
                                            timeSinceLastAction > MISSING_EXIT_THRESHOLD * 60
                                         then state\<lparr>missingExit := True,
                                                 st_warnings := st_warnings state @
                                                   [MissingExitWarning (rec_timestamp r)]\<rparr>
                                         else state)
                                  in if workingHours state > MAX_WORK_HOURS
                                     then state\<lparr>st_warnings := st_warnings state @
                                            [ExcessiveWorkWarning (round (workingHours state))]\<rparr>
                                     else state)
                             | Salida \<Rightarrow> state\<lparr>currentStatus := OUT\<rparr>)
                      in if timeSinceLastAction < MIN_TIME_BETWEEN_ACTIONS
                         then state\<lparr>st_warnings := st_warnings state @ [MinTimeWarning]\<rparr>
                         else state));
            state = state
              \<lparr>canEnter := (currentStatus state = OUT \<and>
                            length validEntries < MAX_ENTRIES_PER_DAY \<and>
                            isWorkingHours state \<and> st_pendingAction state = None),
               canExit := (currentStatus state = IN \<and> st_pendingAction state = None)\<rparr>
        in (state, sessions1(phone \<mapsto> session), states(cacheKey \<mapsto> state)))"

subsection \<open>setPendingAction, clearPendingAction\<close>

definition setPendingAction ::
  "int \<Rightarrow> (string \<Rightarrow> session option) \<Rightarrow> (string \<Rightarrow> employeeState option) \<Rightarrow> string \<Rightarrow> action
    \<Rightarrow> (string \<Rightarrow> session option) \<times> (string \<Rightarrow> employeeState option)" where
  "setPendingAction now sessions states wid act =
     (let (session, sessions1) = getOrCreateEmployeeSession now sessions wid;
          session = session\<lparr>pendingAction := Some act, pendingActionTime := Some now\<rparr>;
          phone = phoneNumber session
      in (sessions1(phone \<mapsto> session), states(''state_'' @ phone := None)))"

definition clearPendingAction ::
  "int \<Rightarrow> (string \<Rightarrow> session option) \<Rightarrow> (string \<Rightarrow> employeeState option) \<Rightarrow> string
    \<Rightarrow> action option \<times> (string \<Rightarrow> session option) \<times> (string \<Rightarrow> employeeState option)" where
  "clearPendingAction now sessions states wid =
     (let (session, sessions1) = getOrCreateEmployeeSession now sessions wid;
          hadPending = pendingAction session;
          session = session\<lparr>pendingAction := None, pendingActionTime := None\<rparr>;
          phone = phoneNumber session
      in (hadPending, sessions1(phone \<mapsto> session), states(''state_'' @ phone := None)))"

subsection \<open>validateAttendanceAction\<close>

text \<open>
  The \<open>reason\<close> of a validation, by template; \<open>NoReason\<close> is the initial empty string. The
  suggestions are fixed texts chosen with the reason and are left out.
\<close>

datatype actionReason =
    NoReason
  | PendingConflict action
  | OutsideWorkingHours
  | EntryAlreadyActive int
  | DailyEntryLimit
  | MinTimeNotElapsed
  | EntradaAllowed
  | NoEntryYet
  | ExitAlreadyRegistered int
  | SalidaAllowed "real option"

record validation =
  isAllowed :: bool
  reason :: actionReason
  employeeState :: employeeState

text \<open>
  The branches of \<open>validateAttendanceAction\<close> on the requested action, which follow its
  test for a different pending action: the result is \<open>(isAllowed, reason)\<close>.
  \<open>employeeState.lastActionTime.toLocaleTimeString\<close> throws a TypeError when
  \<open>lastActionTime\<close> is \<open>null\<close>.
\<close>

definition decideAction :: "employeeState \<Rightarrow> action \<Rightarrow> js_error + bool \<times> actionReason" where
  "decideAction st requestedAction =
     (case requestedAction of
        Entrada \<Rightarrow>
          if \<not> isWorkingHours st then Inr (False, OutsideWorkingHours)
          else if currentStatus st = IN then
            (case lastActionTime st of
               None \<Rightarrow> Inl TypeError
             | Some t \<Rightarrow> Inr (False, EntryAlreadyActive t))
          else if todayEntries st \<ge> MAX_ENTRIES_PER_DAY then Inr (False, DailyEntryLimit)
          else if list_ex mentionsMinTime (st_warnings st) then Inr (False, MinTimeNotElapsed)
          else Inr (True, EntradaAllowed)
      | Salida \<Rightarrow>
          if currentStatus st = OUT then
            (if todayExits st = 0 then Inr (False, NoEntryYet)
             else (case lastActionTime st of
                     None \<Rightarrow> Inl TypeError
                   | Some t \<Rightarrow> Inr (False, ExitAlreadyRegistered t)))
          else if list_ex mentionsMinTime (st_warnings st) then Inr (False, MinTimeNotElapsed)
          else Inr (True, SalidaAllowed
                 (if workingHours st > 0 then Some (real_of_int (round (workingHours st * 10)) / 10)
                  else None)))"

definition validateAttendanceAction ::
  "int \<Rightarrow> attendanceRecord list option \<Rightarrow> (string \<Rightarrow> session option)
    \<Rightarrow> (string \<Rightarrow> employeeState option) \<Rightarrow> string \<Rightarrow> action
    \<Rightarrow> (js_error + validation) \<times> (string \<Rightarrow> session option) \<times> (string \<Rightarrow> employeeState option)" where
  "validateAttendanceAction now db sessions states wid requestedAction =
     (let (st, sessions1, states1) = getEmployeeCurrentState now db sessions states wid True;
          validation = \<lparr>isAllowed = False, reason = NoReason, employeeState = st\<rparr>;
          decided =
            (case decideAction st requestedAction of
               Inl e \<Rightarrow> (Inl e, sessions1, states1)
             | Inr (allowed, why) \<Rightarrow>
                 (Inr (validation\<lparr>isAllowed := allowed, reason := why\<rparr>), sessions1, states1))
      in
      case st_pendingAction st of
        Some pending \<Rightarrow>
          if pending \<noteq> requestedAction
          then (Inr (validation\<lparr>reason := PendingConflict pending\<rparr>), sessions1, states1)
          else decided
      | None \<Rightarrow> decided)"

subsection \<open>generateEmployeeStatusReport\<close>

text \<open>The report text is built from the state and today's rows, which stand for it here.\<close>

definition generateEmployeeStatusReport ::
  "int \<Rightarrow> attendanceRecord list option \<Rightarrow> (string \<Rightarrow> session option)
    \<Rightarrow> (string \<Rightarrow> employeeState option) \<Rightarrow> string
    \<Rightarrow> (employeeState \<times> attendanceRecord list) \<times> (string \<Rightarrow> session option)
        \<times> (string \<Rightarrow> employeeState option)" where
  "generateEmployeeStatusReport now db sessions states wid =
     (let (st, sessions1, states1) = getEmployeeCurrentState now db sessions states wid True;
          todayRecords = getTodayAttendanceRecords now db (st_phoneNumber st)
      in ((st, todayRecords), sessions1, states1))"

section \<open>The message handler (server)\<close>

text \<open>
  The state of the process: the sessions and the state cache of the state control, the
  server's own map of users waiting to send a location, the two maps of the anti-fraud
  analysis, and the rows of the record store.
\<close>

record serverState =
  employeeSessions :: "string \<Rightarrow> session option"
  employeeStates :: "string \<Rightarrow> employeeState option"
  pendingAttendanceRequests :: "string \<Rightarrow> action option"
  fraud :: fraudState
  attendance_records :: "attendanceRecord list"

definition initialState :: serverState where
  "initialState =
     \<lparr>employeeSessions = Map.empty, employeeStates = Map.empty,
      pendingAttendanceRequests = Map.empty,
      fraud = \<lparr>userLocationHistory = Map.empty, suspiciousActivityLog = Map.empty\<rparr>,
      attendance_records = []\<rparr>"

text \<open>
  An incoming message: its sender, its text after \<open>toLowerCase().trim()\<close>, and its
  location when it carries one.
\<close>

record wa_message =
  msg_from :: string
  messageBody :: string
  msg_location :: "locationData option"

text \<open>The reply, by the branch that builds its text.\<close>

datatype reply =
    AdvancedValidationResponse action advancedResults
  | NoPendingRequest
  | StateValidationMessage action validation
  | Cancelled action
  | NothingToCancel
  | Help
  | StatusReport employeeState "attendanceRecord list"
  | Locations
  | Greeting
  | PendingReminder action
  | UnknownCommand

text \<open>
  \<open>saveAttendanceRecord\<close>, of the module gps-validation.js, which has its own
  \<open>connectToDatabase\<close>. The insert is skipped when the store is down (\<open>dbUp\<close> false), and
  when building or binding the row throws, which the \<open>catch\<close> logs: \<open>location.name\<close> of a
  valid result without location, and a bind parameter that is \<open>undefined\<close>, which the
  driver's \<open>execute\<close> refuses (the latitude, the longitude or the accuracy of the reading).
\<close>

definition saveAttendanceRecord ::
  "int \<Rightarrow> bool \<Rightarrow> attendanceRecord list \<Rightarrow> string \<Rightarrow> action \<Rightarrow> locationData \<Rightarrow> advancedResults
    \<Rightarrow> attendanceRecord list" where
  "saveAttendanceRecord now dbUp rows phone act locationData validationResult =
     (let row = \<lparr>phone_number = phone, action_type = act,
                 rec_latitude = latitude locationData,
                 rec_longitude = longitude locationData,
                 location_name = None,
                 distance_from_point = distance validationResult,
                 validation_status = (if isValid validationResult then VALID else INVALID),
                 rec_timestamp = now,
                 rec_accuracy = accuracy locationData,
                 gps_timestamp = (if truthy (timestamp locationData)
                                  then Some (num (timestamp locationData) * 1000) else None)\<rparr>
      in
      if \<not> dbUp then rows
      else if latitude locationData = Undefined \<or> longitude locationData = Undefined \<or>
              accuracy locationData = Undefined then rows
      else if isValid validationResult then
        (case location validationResult of
           None \<Rightarrow> rows
         | Some z \<Rightarrow> rows @ [row\<lparr>location_name := Some (loc_name z)\<rparr>])
      else rows @ [row])"

definition handleAction ::
  "int \<Rightarrow> bool \<Rightarrow> serverState \<Rightarrow> string \<Rightarrow> action \<Rightarrow> (js_error + reply) \<times> serverState" where
  "handleAction now dbUp st sender act =
     (let db = (if dbUp then Some (attendance_records st) else None);
          (actionValidation, sessions1, states1) =
             validateAttendanceAction now db (employeeSessions st) (employeeStates st) sender act;
          st1 = st\<lparr>employeeSessions := sessions1, employeeStates := states1\<rparr>
      in
      case actionValidation of
        Inl e \<Rightarrow> (Inl e, st1)
      | Inr v \<Rightarrow>
          if \<not> isAllowed v then (Inr (StateValidationMessage act v), st1)
          else (Inr (StateValidationMessage act v),
                st1\<lparr>pendingAttendanceRequests :=
                      (pendingAttendanceRequests st1)(sender \<mapsto> act)\<rparr>))"

text \<open>
  The handler of the event \<open>message\<close>. \<open>handleAction\<close> above is the common body of its
  branches for the commands \<open>entrada\<close> and \<open>salida\<close>. An exception leaves the handler with
  the changes made so far in place. Console output, the table of message logs and the
  notifications sent to the dashboard change nothing that is read here and are left out;
  the store is up or down (\<open>dbUp\<close>) for the whole handling of one message.
\<close>

definition handleMessage ::
  "(real \<Rightarrow> string) \<Rightarrow> int \<Rightarrow> bool \<Rightarrow> serverState \<Rightarrow> wa_message
    \<Rightarrow> (js_error + reply) \<times> serverState" where
  "handleMessage toStr now dbUp st message =
     (let sender = msg_from message; body = messageBody message in
      case msg_location message of
        Some loc \<Rightarrow>
          (case pendingAttendanceRequests st sender of
             Some pending \<Rightarrow>
               (let st1 = st\<lparr>pendingAttendanceRequests :=
                               (pendingAttendanceRequests st)(sender := None)\<rparr>;
                    (validationResult, fraud1) =
                       validateGPSLocationAdvanced toStr now (fraud st1) loc sender;
                    st2 = st1\<lparr>fraud := fraud1\<rparr>
                in
                case validationResult of
                  Inl e \<Rightarrow> (Inl e, st2)
                | Inr r \<Rightarrow>
                    (Inr (AdvancedValidationResponse pending r),
                     st2\<lparr>attendance_records :=
                           saveAttendanceRecord now dbUp (attendance_records st2)
                             sender pending loc r\<rparr>))
           | None \<Rightarrow> (Inr NoPendingRequest, st))
      | None \<Rightarrow>
          if body = ''/entrada'' \<or> body = ''entrada'' then handleAction now dbUp st sender Entrada
          else if body = ''/salida'' \<or> body = ''salida'' then handleAction now dbUp st sender Salida
          else if body = ''cancelar'' \<or> body = ''/cancelar'' then
            (case pendingAttendanceRequests st sender of
               Some cancelledAction \<Rightarrow>
                 (Inr (Cancelled cancelledAction),
                  st\<lparr>pendingAttendanceRequests :=
                       (pendingAttendanceRequests st)(sender := None)\<rparr>)
             | None \<Rightarrow> (Inr NothingToCancel, st))
          else if body = ''/ayuda'' \<or> body = ''ayuda'' then (Inr Help, st)
          else if body = ''/estado'' \<or> body = ''estado'' then
            (let db = (if dbUp then Some (attendance_records st) else None);
                 ((state, todayRecords), sessions1, states1) =
                    generateEmployeeStatusReport now db (employeeSessions st)
                      (employeeStates st) sender
             in (Inr (StatusReport state todayRecords),
                 st\<lparr>employeeSessions := sessions1, employeeStates := states1\<rparr>))
          else if body = ''/ubicaciones'' \<or> body = ''ubicaciones'' then (Inr Locations, st)
          else if includesStr body ''hola'' \<or> includesStr body ''buenos dias'' \<or>
                  includesStr body ''buenas tardes''
            then (Inr Greeting, st)
          else
            (case pendingAttendanceRequests st sender of
               Some pending \<Rightarrow> (Inr (PendingReminder pending), st)
             | None \<Rightarrow> (Inr UnknownCommand, st)))"

text \<open>
  What happens to the process: a message arrives at a time, with the store up or down, or
  the five-minute sweep runs and drops the pending requests of the users its random draw
  picks.
\<close>

datatype event = Incoming int bool wa_message | Sweep "string list"

fun step :: "(real \<Rightarrow> string) \<Rightarrow> serverState \<Rightarrow> event \<Rightarrow> serverState" where
  "step toStr st (Incoming now dbUp message) = snd (handleMessage toStr now dbUp st message)"
| "step toStr st (Sweep dropped) =
     st\<lparr>pendingAttendanceRequests :=
          (\<lambda>k. if k \<in> set dropped then None else pendingAttendanceRequests st k)\<rparr>"

definition run :: "(real \<Rightarrow> string) \<Rightarrow> serverState \<Rightarrow> event list \<Rightarrow> serverState" where
  "run toStr st events = foldl (step toStr) st events"

section \<open>Vocabulary of the statements\<close>

text \<open>
  The user's log as \<open>manageSuspiciousUser\<close> reads it (a user without one gets a fresh log),
  and its test for a block that is still running.
\<close>

definition userLogOf :: "(string \<Rightarrow> userLog option) \<Rightarrow> string \<Rightarrow> userLog" where
  "userLogOf logs phone = (case logs phone of None \<Rightarrow> newUserLog | Some l \<Rightarrow> l)"

definition activelyBlocked :: "int \<Rightarrow> (string \<Rightarrow> userLog option) \<Rightarrow> string \<Rightarrow> bool" where
  "activelyBlocked now logs phone =
     (case logs phone of
        None \<Rightarrow> False
      | Some l \<Rightarrow> isBlocked l \<and> nullAsZero (blockUntil l) > now)"

text \<open>
  The warnings that count for a user who is not under a running block: a block that has
  run out is cleared together with its counter before anything is added.
\<close>

definition countedWarnings :: "(string \<Rightarrow> userLog option) \<Rightarrow> string \<Rightarrow> nat" where
  "countedWarnings logs phone =
     (if isBlocked (userLogOf logs phone) then 0 else log_warnings (userLogOf logs phone))"

text \<open>The numbers of flags of HIGH and of MEDIUM severity in a list.\<close>

definition highCount :: "flag list \<Rightarrow> nat" where
  "highCount flags = length (filter (\<lambda>f. severity f = HIGH) flags)"

definition mediumCount :: "flag list \<Rightarrow> nat" where
  "mediumCount flags = length (filter (\<lambda>f. severity f = MEDIUM) flags)"

text \<open>
  The flags the three analyzers of the advanced validation give for a reading, in the
  order in which it collects them.
\<close>

definition analyzerFlags ::
  "(real \<Rightarrow> string) \<Rightarrow> int \<Rightarrow> fraudState \<Rightarrow> locationData \<Rightarrow> string \<Rightarrow> flag list" where
  "analyzerFlags toStr now st ld phone =
     detectPerfectCoordinates toStr (num (latitude ld)) (num (longitude ld)) @
     validateGPSMetadata (accuracy ld) (timestamp ld) @
     fst (analyzeLocationHistory now (userLocationHistory st) phone
            (num (latitude ld)) (num (longitude ld)) (timestamp ld))"

text \<open>No session of the state control holds a pending action.\<close>

definition noSessionPending :: "(string \<Rightarrow> session option) \<Rightarrow> bool" where
  "noSessionPending sessions = (\<forall>phone s. sessions phone = Some s \<longrightarrow> pendingAction s = None)"

section \<open>Sample inputs\<close>

text \<open>Concrete zones, readings and stores, on which the theorems below are exercised.\<close>

definition sampleZoneA :: zone where
  "sampleZoneA = \<lparr>loc_id = 1, loc_name = ''A'', loc_lat = 10, loc_lng = 20, loc_radius = 100\<rparr>"

definition sampleZoneB :: zone where
  "sampleZoneB = \<lparr>loc_id = 2, loc_name = ''B'', loc_lat = 10, loc_lng = 20, loc_radius = 200\<rparr>"

definition sampleZoneC :: zone where
  "sampleZoneC = \<lparr>loc_id = 3, loc_name = ''C'', loc_lat = 0, loc_lng = 180, loc_radius = 100\<rparr>"

text \<open>A reading taken at the centre of the first authorized zone, with no accuracy and no timestamp.\<close>

definition sampleReadingNoAccuracy :: locationData where
  "sampleReadingNoAccuracy =
     \<lparr>latitude = Val (loc_lat (hd AUTHORIZED_LOCATIONS)),
      longitude = Val (loc_lng (hd AUTHORIZED_LOCATIONS)),
      accuracy = Undefined, timestamp = Undefined\<rparr>"

definition sampleUser :: string where
  "sampleUser = ''5491123456789@c.us''"

text \<open>
  Coordinates with short decimal expansions, and \<open>Number.prototype.toString\<close> on them.
\<close>

definition sampleLat :: real where "sampleLat = - 37.5"

definition sampleLng :: real where "sampleLng = - 59.25"

definition sampleLatZeros :: real where "sampleLatZeros = - 37.0005"

definition sampleToString :: "real \<Rightarrow> string" where
  "sampleToString x =
     (if x = sampleLat then ''-37.5''
      else if x = sampleLng then ''-59.25''
      else if x = sampleLatZeros then ''-37.0005''
      else ''0'')"

definition emptyFraudState :: fraudState where
  "emptyFraudState = \<lparr>userLocationHistory = Map.empty, suspiciousActivityLog = Map.empty\<rparr>"

text \<open>A reading stamped at second 1700000000; three minutes later it is stale.\<close>

definition sampleStaleReading :: locationData where
  "sampleStaleReading =
     \<lparr>latitude = Val sampleLat, longitude = Val sampleLng, accuracy = Val 2,
      timestamp = Val 1700000000\<rparr>"

text \<open>A user blocked until millisecond 1800000, and a user with three warnings.\<close>

definition sampleBlockedLog :: userLog where
  "sampleBlockedLog = \<lparr>log_warnings = 5, lastWarning = Some 0, isBlocked = True,
                         blockUntil = Some 1800000, incidents = []\<rparr>"

definition sampleBlockedState :: fraudState where
  "sampleBlockedState =
     \<lparr>userLocationHistory = Map.empty,
      suspiciousActivityLog = [sampleUser \<mapsto> sampleBlockedLog]\<rparr>"

definition sampleWarnedState :: fraudState where
  "sampleWarnedState =
     \<lparr>userLocationHistory = Map.empty,
      suspiciousActivityLog =
        [sampleUser \<mapsto> \<lparr>log_warnings = 3, lastWarning = Some 0, isBlocked = False,
                          blockUntil = None, incidents = []\<rparr>]\<rparr>"

definition sampleZerosReading :: locationData where
  "sampleZerosReading =
     \<lparr>latitude = Val sampleLatZeros, longitude = Val sampleLng, accuracy = Val 10,
      timestamp = Undefined\<rparr>"

definition sampleHighFlags :: "flag list" where
  "sampleHighFlags = [\<lparr>ftype = PERFECT_COORDINATES, severity = HIGH\<rparr>,
                      \<lparr>ftype = MISSING_TIMESTAMP, severity = HIGH\<rparr>]"

text \<open>
  A user whose log has no warning, and whose last three readings were taken at one and
  the same point; the same history for the user with three warnings; a reading at that
  point again, stamped at second 1700000000.
\<close>

definition sampleRepeatedEntry :: historyEntry where
  "sampleRepeatedEntry = \<lparr>h_lat = sampleLatZeros, h_lng = sampleLng, h_timestamp = 1699999000\<rparr>"

definition sampleRepeatedState :: fraudState where
  "sampleRepeatedState =
     \<lparr>userLocationHistory =
        [sampleUser \<mapsto> [sampleRepeatedEntry, sampleRepeatedEntry, sampleRepeatedEntry]],
      suspiciousActivityLog = [sampleUser \<mapsto> newUserLog]\<rparr>"

definition sampleWarnedRepeatedState :: fraudState where
  "sampleWarnedRepeatedState =
     \<lparr>userLocationHistory =
        [sampleUser \<mapsto> [sampleRepeatedEntry, sampleRepeatedEntry, sampleRepeatedEntry]],
      suspiciousActivityLog = suspiciousActivityLog sampleWarnedState\<rparr>"

definition sampleStaleRepeatedReading :: locationData where
  "sampleStaleRepeatedReading =
     \<lparr>latitude = Val sampleLatZeros, longitude = Val sampleLng, accuracy = Val 10,
      timestamp = Val 1700000000\<rparr>"

definition sampleThreeHighFlags :: "flag list" where
  "sampleThreeHighFlags = [\<lparr>ftype = PERFECT_COORDINATES, severity = HIGH\<rparr>,
                           \<lparr>ftype = MISSING_TIMESTAMP, severity = HIGH\<rparr>,
                           \<lparr>ftype = IDENTICAL_LOCATIONS, severity = HIGH\<rparr>]"

text \<open>
  A day of one user: the message \<open>entrada\<close> at 09:00; at 09:01 a location at the centre of
  the first authorized zone, 10 meters accurate and stamped at that second; the message
  \<open>salida\<close> at 17:00. \<open>sampleCentreToString\<close> is \<open>Number.prototype.toString\<close> on the two
  coordinates of that centre, and \<open>sampleValidEntrada\<close> the row the location leaves in the
  store.
\<close>

definition sampleCentreToString :: "real \<Rightarrow> string" where
  "sampleCentreToString x =
     (if x = loc_lat (hd AUTHORIZED_LOCATIONS) then ''-37.371644652229655''
      else if x = loc_lng (hd AUTHORIZED_LOCATIONS) then ''-59.116792790280606''
      else ''0'')"

definition sampleCentreReading :: locationData where
  "sampleCentreReading =
     \<lparr>latitude = Val (loc_lat (hd AUTHORIZED_LOCATIONS)),
      longitude = Val (loc_lng (hd AUTHORIZED_LOCATIONS)),
      accuracy = Val 10, timestamp = Val 32460\<rparr>"

definition sampleValidEntrada :: attendanceRecord where
  "sampleValidEntrada =
     \<lparr>phone_number = sampleUser, action_type = Entrada,
       rec_latitude = Val (loc_lat (hd AUTHORIZED_LOCATIONS)),
       rec_longitude = Val (loc_lng (hd AUTHORIZED_LOCATIONS)),
       location_name = Some (loc_name (hd AUTHORIZED_LOCATIONS)),
       distance_from_point = Some 0, validation_status = VALID,
       rec_timestamp = 32460000, rec_accuracy = Val 10, gps_timestamp = Some 32460000\<rparr>"

definition sampleLocationMessage :: wa_message where
  "sampleLocationMessage =
     \<lparr>msg_from = sampleUser, messageBody = [], msg_location = Some sampleCentreReading\<rparr>"

definition sampleSalidaMessage :: wa_message where
  "sampleSalidaMessage = \<lparr>msg_from = sampleUser, messageBody = ''salida'', msg_location = None\<rparr>"

text \<open>The sessions after \<open>setPendingAction\<close> for a \<open>salida\<close> at 09:00.\<close>

definition sampleEntradaMessage :: wa_message where
  "sampleEntradaMessage = \<lparr>msg_from = sampleUser, messageBody = ''entrada'', msg_location = None\<rparr>"

definition samplePendingSessions :: "string \<Rightarrow> session option" where
  "samplePendingSessions = fst (setPendingAction 32400000 Map.empty Map.empty sampleUser Salida)"

definition samplePendingSession :: session where
  "samplePendingSession =
     \<lparr>phoneNumber = ''5491123456789'', whatsappId = sampleUser,
      displayPhone = formatPhoneForDisplay ''5491123456789'',
      firstContact = 32400000, lastActivity = 32400000, messageCount = 0,
      pendingAction = Some Salida, pendingActionTime = Some 32400000\<rparr>"

section \<open>The geofence\<close>

lemma calculateDistance_same: "calculateDistance la lo la lo = 0"
  by (simp add: calculateDistance_def atan2_def)

lemma calculateDistance_far: "calculateDistance 0 0 0 180 > 100"
proof -
  have e: "calculateDistance 0 0 0 180 = round (6371 * (2 * (pi / 2)) * 1000)"
    by (simp add: calculateDistance_def atan2_def Let_def)
  have "(101::real) \<le> 6371 * (2 * (pi / 2)) * 1000"
    using pi_ge_two by simp
  then have "round (101::real) \<le> round (6371 * (2 * (pi / 2)) * 1000)"
    by (rule round_mono)
  then have "101 \<le> round (6371 * (2 * (pi / 2)) * 1000)"
    by simp
  with e show ?thesis by simp
qed

lemma firstMatch_at:
  "i < length zones \<Longrightarrow>
   real_of_int (calculateDistance la lo (loc_lat (zones ! i)) (loc_lng (zones ! i))) \<le> loc_radius (zones ! i) \<Longrightarrow>
   (\<forall>j<i. \<not> real_of_int (calculateDistance la lo (loc_lat (zones ! j)) (loc_lng (zones ! j))) \<le> loc_radius (zones ! j)) \<Longrightarrow>
   firstMatch zones la lo = Some (zones ! i, calculateDistance la lo (loc_lat (zones ! i)) (loc_lng (zones ! i)))"
proof (induction zones arbitrary: i)
  case Nil
  then show ?case by simp
next
  case (Cons z zs)
  show ?case
  proof (cases i)
    case 0
    with Cons.prems show ?thesis by simp
  next
    case (Suc k)
    with Cons.prems have "\<not> real_of_int (calculateDistance la lo (loc_lat z) (loc_lng z)) \<le> loc_radius z"
      by auto
    moreover have "firstMatch zs la lo = Some (zs ! k, calculateDistance la lo (loc_lat (zs ! k)) (loc_lng (zs ! k)))"
      using Cons.prems Suc by (intro Cons.IH) auto
    ultimately show ?thesis using Suc by simp
  qed
qed

lemma firstMatch_None:
  "\<forall>z\<in>set zones. \<not> real_of_int (calculateDistance la lo (loc_lat z) (loc_lng z)) \<le> loc_radius z \<Longrightarrow>
   firstMatch zones la lo = None"
  by (induction zones) auto

lemma closestScan_Some:
  "\<exists>z m'. closestScan zones la lo (Some (c, m)) = Some (z, m') \<and> m' \<le> m \<and>
      (\<forall>z'\<in>set zones. m' \<le> calculateDistance la lo (loc_lat z') (loc_lng z')) \<and>
      ((z, m') = (c, m) \<or> (z \<in> set zones \<and> m' = calculateDistance la lo (loc_lat z) (loc_lng z)))"
proof (induction zones arbitrary: c m)
  case Nil
  then show ?case by simp
next
  case (Cons x xs)
  let ?d = "calculateDistance la lo (loc_lat x) (loc_lng x)"
  show ?case
  proof (cases "?d < m")
    case True
    from Cons.IH[of x ?d] obtain z m' where
      h: "closestScan xs la lo (Some (x, ?d)) = Some (z, m')" "m' \<le> ?d"
         "\<forall>z'\<in>set xs. m' \<le> calculateDistance la lo (loc_lat z') (loc_lng z')"
         "(z, m') = (x, ?d) \<or> (z \<in> set xs \<and> m' = calculateDistance la lo (loc_lat z) (loc_lng z))"
      by blast
    with True show ?thesis by (auto simp: Let_def)
  next
    case False
    from Cons.IH[of c m] obtain z m' where
      h: "closestScan xs la lo (Some (c, m)) = Some (z, m')" "m' \<le> m"
         "\<forall>z'\<in>set xs. m' \<le> calculateDistance la lo (loc_lat z') (loc_lng z')"
         "(z, m') = (c, m) \<or> (z \<in> set xs \<and> m' = calculateDistance la lo (loc_lat z) (loc_lng z))"
      by blast
    with False show ?thesis by (auto simp: Let_def)
  qed
qed

lemma closestScan_nearest:
  assumes "zones \<noteq> []"
  shows "\<exists>z\<in>set zones. closestScan zones la lo None = Some (z, calculateDistance la lo (loc_lat z) (loc_lng z)) \<and>
      (\<forall>z'\<in>set zones. calculateDistance la lo (loc_lat z) (loc_lng z) \<le> calculateDistance la lo (loc_lat z') (loc_lng z'))"
proof -
  from assms obtain x xs where zs: "zones = x # xs" by (cases zones) auto
  let ?d = "calculateDistance la lo (loc_lat x) (loc_lng x)"
  from closestScan_Some[of xs la lo x ?d] obtain z m' where
      h: "closestScan xs la lo (Some (x, ?d)) = Some (z, m')" "m' \<le> ?d"
         "\<forall>z'\<in>set xs. m' \<le> calculateDistance la lo (loc_lat z') (loc_lng z')"
         "(z, m') = (x, ?d) \<or> (z \<in> set xs \<and> m' = calculateDistance la lo (loc_lat z) (loc_lng z))"
    by blast
  then show ?thesis unfolding zs by (auto simp: Let_def)
qed

text \<open>
  Claim C4. For every coordinate and every list of zones, \<open>isLocationAuthorized\<close> returns
  the first zone of the list whose distance from the coordinate is within that zone's own
  radius, whatever later zones cover the point as well; and when the list is not empty and
  no zone covers the point, it returns not-authorized with a zone of least distance and
  that distance.
\<close>

theorem isLocationAuthorized_first_match:
  "(\<forall>i<length zones.
      real_of_int (calculateDistance userLat userLng (loc_lat (zones ! i)) (loc_lng (zones ! i)))
        \<le> loc_radius (zones ! i) \<and>
      (\<forall>j<i. \<not> real_of_int (calculateDistance userLat userLng (loc_lat (zones ! j)) (loc_lng (zones ! j)))
        \<le> loc_radius (zones ! j)) \<longrightarrow>
      isLocationAuthorized zones userLat userLng =
        Inr (LocationValid (zones ! i)
              (calculateDistance userLat userLng (loc_lat (zones ! i)) (loc_lng (zones ! i))))) \<and>
   (zones \<noteq> [] \<and>
    (\<forall>z\<in>set zones. \<not> real_of_int (calculateDistance userLat userLng (loc_lat z) (loc_lng z))
        \<le> loc_radius z) \<longrightarrow>
    (\<exists>z\<in>set zones.
        isLocationAuthorized zones userLat userLng =
          Inr (LocationInvalid z (calculateDistance userLat userLng (loc_lat z) (loc_lng z))) \<and>
        (\<forall>z'\<in>set zones. calculateDistance userLat userLng (loc_lat z) (loc_lng z)
            \<le> calculateDistance userLat userLng (loc_lat z') (loc_lng z'))))"
proof (intro conjI allI impI)
  fix i
  assume "i < length zones"
    and "real_of_int (calculateDistance userLat userLng (loc_lat (zones ! i)) (loc_lng (zones ! i)))
        \<le> loc_radius (zones ! i) \<and>
      (\<forall>j<i. \<not> real_of_int (calculateDistance userLat userLng (loc_lat (zones ! j)) (loc_lng (zones ! j)))
        \<le> loc_radius (zones ! j))"
  then show "isLocationAuthorized zones userLat userLng =
        Inr (LocationValid (zones ! i)
              (calculateDistance userLat userLng (loc_lat (zones ! i)) (loc_lng (zones ! i))))"
    by (simp add: isLocationAuthorized_def firstMatch_at)
next
  assume a: "zones \<noteq> [] \<and>
    (\<forall>z\<in>set zones. \<not> real_of_int (calculateDistance userLat userLng (loc_lat z) (loc_lng z))
        \<le> loc_radius z)"
  then have "firstMatch zones userLat userLng = None" by (simp add: firstMatch_None)
  moreover from a closestScan_nearest[of zones userLat userLng] obtain z where
    "z \<in> set zones"
    "closestScan zones userLat userLng None = Some (z, calculateDistance userLat userLng (loc_lat z) (loc_lng z))"
    "\<forall>z'\<in>set zones. calculateDistance userLat userLng (loc_lat z) (loc_lng z)
            \<le> calculateDistance userLat userLng (loc_lat z') (loc_lng z')"
    by blast
  ultimately show "\<exists>z\<in>set zones.
        isLocationAuthorized zones userLat userLng =
          Inr (LocationInvalid z (calculateDistance userLat userLng (loc_lat z) (loc_lng z))) \<and>
        (\<forall>z'\<in>set zones. calculateDistance userLat userLng (loc_lat z) (loc_lng z)
            \<le> calculateDistance userLat userLng (loc_lat z') (loc_lng z'))"
    by (auto simp: isLocationAuthorized_def)
qed

theorem isLocationAuthorized_first_match_witness:
  "isLocationAuthorized [sampleZoneA, sampleZoneB] 10 20 = Inr (LocationValid sampleZoneA 0) \<and>
   real_of_int (calculateDistance 10 20 (loc_lat sampleZoneB) (loc_lng sampleZoneB))
     \<le> loc_radius sampleZoneB \<and>
   isLocationAuthorized [sampleZoneC] 0 0 =
     Inr (LocationInvalid sampleZoneC (calculateDistance 0 0 0 180))"
proof -
  have a: "calculateDistance 10 20 (loc_lat sampleZoneA) (loc_lng sampleZoneA) = 0"
    by (simp add: sampleZoneA_def calculateDistance_same)
  have b: "calculateDistance 10 20 (loc_lat sampleZoneB) (loc_lng sampleZoneB) = 0"
    by (simp add: sampleZoneB_def calculateDistance_same)
  have c: "\<not> real_of_int (calculateDistance 0 0 (loc_lat sampleZoneC) (loc_lng sampleZoneC))
             \<le> loc_radius sampleZoneC"
    using calculateDistance_far by (simp add: sampleZoneC_def)
  from isLocationAuthorized_first_match [of "[sampleZoneA, sampleZoneB]" 10 20]
  have "isLocationAuthorized [sampleZoneA, sampleZoneB] 10 20 = Inr (LocationValid sampleZoneA 0)"
    using a by (auto simp: sampleZoneA_def dest: spec [of _ 0])
  moreover from isLocationAuthorized_first_match [of "[sampleZoneC]" 0 0] c
  have "isLocationAuthorized [sampleZoneC] 0 0 =
     Inr (LocationInvalid sampleZoneC (calculateDistance 0 0 0 180))"
    by (auto simp: sampleZoneC_def)
  ultimately show ?thesis using b by (simp add: sampleZoneB_def)
qed

section \<open>Basic validation\<close>

lemma isLocationAuthorized_total:
  assumes "zones \<noteq> []"
  shows "\<exists>r. isLocationAuthorized zones x y = Inr r"
proof -
  from closestScan_nearest [OF assms, of x y] obtain z d where
    "closestScan zones x y None = Some (z, d)" by blast
  then show ?thesis
    by (auto simp: isLocationAuthorized_def split: option.splits)
qed

lemma AUTHORIZED_LOCATIONS_total:
  "\<exists>r. isLocationAuthorized AUTHORIZED_LOCATIONS x y = Inr r"
  by (rule isLocationAuthorized_total) (simp add: AUTHORIZED_LOCATIONS_def)

lemma isLocationAuthorized_first_zone:
  "isLocationAuthorized AUTHORIZED_LOCATIONS
     (loc_lat (hd AUTHORIZED_LOCATIONS)) (loc_lng (hd AUTHORIZED_LOCATIONS)) =
     Inr (LocationValid (hd AUTHORIZED_LOCATIONS) 0)"
  by (simp add: isLocationAuthorized_def AUTHORIZED_LOCATIONS_def calculateDistance_same)

lemma first_zone_nonzero:
  "loc_lat (hd AUTHORIZED_LOCATIONS) \<noteq> 0" "loc_lng (hd AUTHORIZED_LOCATIONS) \<noteq> 0"
  by (simp_all add: AUTHORIZED_LOCATIONS_def)

lemma timestamp_gate:
  "fst (isLocationTimestampValid now t) = (real_of_int (now - t * 1000) / (1000 * 60) \<le> 2)"
  "\<exists>m. snd (isLocationTimestampValid now t) = LocationTooOld m \<or>
       snd (isLocationTimestampValid now t) = LocationRecent m"
  by (auto simp: isLocationTimestampValid_def Let_def MAX_AGE_MINUTES_def)

lemma accuracy_gate:
  "fst (isLocationAccuracyValid a) = (truthy a \<and> num a \<le> 50)"
  "\<not> fst (isLocationAccuracyValid a) \<Longrightarrow> snd (isLocationAccuracyValid a) = AccuracyInsufficient a"
  by (auto simp: isLocationAccuracyValid_def MIN_ACCURACY_def num_def truthy_def
        split: field.splits if_splits)

lemma validateGPSLocation_total: "\<exists>r. validateGPSLocation now ld phone = Inr r"
proof -
  obtain res where res: "isLocationAuthorized AUTHORIZED_LOCATIONS
      (num (latitude ld)) (num (longitude ld)) = Inr res"
    using AUTHORIZED_LOCATIONS_total by blast
  obtain tv tm where t: "isLocationTimestampValid now (num (timestamp ld)) = (tv, tm)"
    by (cases "isLocationTimestampValid now (num (timestamp ld))") auto
  obtain av am where a: "isLocationAccuracyValid (accuracy ld) = (av, am)"
    by (cases "isLocationAccuracyValid (accuracy ld)") auto
  show ?thesis
    using res t a
    by (cases res; cases tv; cases av) (auto simp: validateGPSLocation_def Let_def)
qed

text \<open>
  Claim C6, as the code has it. The basic validation always returns a result. It rejects a
  reading for insufficient accuracy exactly when the reading reaches the accuracy gate
  (its coordinates are present and its timestamp is absent or at most 2 minutes old) with
  an accuracy that is present (not \<open>undefined\<close>) and is \<open>null\<close>, 0 or above 50 meters; that
  reason is then the only one. A reading whose accuracy is absent is therefore never
  rejected for insufficient accuracy: it skips the gate, and once it has passed the
  checks before the gate, it reaches the geofence check, which alone decides whether it
  is valid.
\<close>

theorem validateGPSLocation_absent_accuracy:
  "\<exists>r. validateGPSLocation now ld phone = Inr r \<and>
     ((\<exists>a. AccuracyInsufficient a \<in> set (reasons r)) \<longleftrightarrow>
        truthy (latitude ld) \<and> truthy (longitude ld) \<and>
        (\<not> truthy (timestamp ld) \<or>
         real_of_int (now - num (timestamp ld) * 1000) / (1000 * 60) \<le> 2) \<and>
        accuracy ld \<noteq> Undefined \<and> (\<not> truthy (accuracy ld) \<or> num (accuracy ld) > 50)) \<and>
     ((\<exists>a. AccuracyInsufficient a \<in> set (reasons r)) \<longrightarrow>
        \<not> isValid r \<and> reasons r = [AccuracyInsufficient (accuracy ld)] \<and>
        location r = None \<and> distance r = None) \<and>
     (accuracy ld = Undefined \<longrightarrow> (\<forall>a. AccuracyInsufficient a \<notin> set (reasons r))) \<and>
     (accuracy ld = Undefined \<and> truthy (latitude ld) \<and> truthy (longitude ld) \<and>
      (\<not> truthy (timestamp ld) \<or>
       real_of_int (now - num (timestamp ld) * 1000) / (1000 * 60) \<le> 2) \<longrightarrow>
        (\<exists>z d. isLocationAuthorized AUTHORIZED_LOCATIONS
                  (num (latitude ld)) (num (longitude ld)) = Inr (LocationValid z d) \<and>
                isValid r \<and> reasons r = [LocationAuthorized z d] \<or>
                isLocationAuthorized AUTHORIZED_LOCATIONS
                  (num (latitude ld)) (num (longitude ld)) = Inr (LocationInvalid z d) \<and>
                \<not> isValid r \<and> reasons r = [LocationNotAuthorized z d]))"
proof -
  obtain res where res: "isLocationAuthorized AUTHORIZED_LOCATIONS
      (num (latitude ld)) (num (longitude ld)) = Inr res"
    using AUTHORIZED_LOCATIONS_total by blast
  obtain tv tm where t: "isLocationTimestampValid now (num (timestamp ld)) = (tv, tm)"
    by (cases "isLocationTimestampValid now (num (timestamp ld))") auto
  obtain av am where a: "isLocationAccuracyValid (accuracy ld) = (av, am)"
    by (cases "isLocationAccuracyValid (accuracy ld)") auto
  from timestamp_gate [of now "num (timestamp ld)"] t
  have tv: "tv = (real_of_int (now - num (timestamp ld) * 1000) / (1000 * 60) \<le> 2)"
    and tm: "\<exists>m. tm = LocationTooOld m \<or> tm = LocationRecent m"
    by simp_all
  from accuracy_gate [of "accuracy ld"] a
  have av: "av = (truthy (accuracy ld) \<and> num (accuracy ld) \<le> 50)"
    and am: "\<not> av \<Longrightarrow> am = AccuracyInsufficient (accuracy ld)"
    by simp_all
  show ?thesis
    using res t a tv tm av am
    by (cases res) (auto simp: validateGPSLocation_def Let_def)
qed


theorem validateGPSLocation_absent_accuracy_witness:
  "(\<exists>r. validateGPSLocation 0 sampleReadingNoAccuracy sampleUser = Inr r \<and> isValid r \<and>
        reasons r = [LocationAuthorized (hd AUTHORIZED_LOCATIONS) 0]) \<and>
   (\<exists>r. validateGPSLocation 0 (sampleReadingNoAccuracy\<lparr>accuracy := Null\<rparr>) sampleUser = Inr r \<and>
        \<not> isValid r \<and> reasons r = [AccuracyInsufficient Null]) \<and>
   (\<exists>r. validateGPSLocation 0 (sampleReadingNoAccuracy\<lparr>accuracy := Val 0\<rparr>) sampleUser = Inr r \<and>
        \<not> isValid r \<and> reasons r = [AccuracyInsufficient (Val 0)]) \<and>
   (\<exists>r. validateGPSLocation 0 (sampleReadingNoAccuracy\<lparr>accuracy := Val 80\<rparr>) sampleUser = Inr r \<and>
        \<not> isValid r \<and> reasons r = [AccuracyInsufficient (Val 80)]) \<and>
   (\<exists>r. validateGPSLocation 0 (sampleReadingNoAccuracy\<lparr>accuracy := Val 50\<rparr>) sampleUser = Inr r \<and>
        AccuracyInsufficient (Val 50) \<notin> set (reasons r)) \<and>
   (\<exists>r. validateGPSLocation 0 (sampleReadingNoAccuracy\<lparr>latitude := Undefined\<rparr>) sampleUser = Inr r \<and>
        AccuracyInsufficient Undefined \<notin> set (reasons r))"
proof -
  have t: "truthy (latitude sampleReadingNoAccuracy)" "truthy (longitude sampleReadingNoAccuracy)"
    "\<not> truthy (timestamp sampleReadingNoAccuracy)"
    "num (latitude sampleReadingNoAccuracy) = loc_lat (hd AUTHORIZED_LOCATIONS)"
    "num (longitude sampleReadingNoAccuracy) = loc_lng (hd AUTHORIZED_LOCATIONS)"
    "accuracy sampleReadingNoAccuracy = Undefined"
    by (simp_all add: sampleReadingNoAccuracy_def truthy_def num_def first_zone_nonzero)
  have 1: "\<exists>r. validateGPSLocation 0 sampleReadingNoAccuracy sampleUser = Inr r \<and> isValid r \<and>
        reasons r = [LocationAuthorized (hd AUTHORIZED_LOCATIONS) 0]"
    using validateGPSLocation_absent_accuracy [of 0 sampleReadingNoAccuracy sampleUser] t
      isLocationAuthorized_first_zone
    by auto
  have 2: "\<exists>r. validateGPSLocation 0 (sampleReadingNoAccuracy\<lparr>accuracy := Null\<rparr>) sampleUser = Inr r \<and>
        \<not> isValid r \<and> reasons r = [AccuracyInsufficient Null]"
    using validateGPSLocation_absent_accuracy
      [of 0 "sampleReadingNoAccuracy\<lparr>accuracy := Null\<rparr>" sampleUser] t
    by (auto simp: truthy_def)
  have 3: "\<exists>r. validateGPSLocation 0 (sampleReadingNoAccuracy\<lparr>accuracy := Val 0\<rparr>) sampleUser = Inr r \<and>
        \<not> isValid r \<and> reasons r = [AccuracyInsufficient (Val 0)]"
    using validateGPSLocation_absent_accuracy
      [of 0 "sampleReadingNoAccuracy\<lparr>accuracy := Val 0\<rparr>" sampleUser] t
    by (auto simp: truthy_def)
  have 4: "\<exists>r. validateGPSLocation 0 (sampleReadingNoAccuracy\<lparr>accuracy := Val 80\<rparr>) sampleUser = Inr r \<and>
        \<not> isValid r \<and> reasons r = [AccuracyInsufficient (Val 80)]"
    using validateGPSLocation_absent_accuracy
      [of 0 "sampleReadingNoAccuracy\<lparr>accuracy := Val 80\<rparr>" sampleUser] t
    by (auto simp: truthy_def num_def)
  have 5: "\<exists>r. validateGPSLocation 0 (sampleReadingNoAccuracy\<lparr>accuracy := Val 50\<rparr>) sampleUser = Inr r \<and>
        AccuracyInsufficient (Val 50) \<notin> set (reasons r)"
    using validateGPSLocation_absent_accuracy
      [of 0 "sampleReadingNoAccuracy\<lparr>accuracy := Val 50\<rparr>" sampleUser] t
    by (auto simp: truthy_def num_def)
  have 6: "\<exists>r. validateGPSLocation 0 (sampleReadingNoAccuracy\<lparr>latitude := Undefined\<rparr>) sampleUser = Inr r \<and>
        AccuracyInsufficient Undefined \<notin> set (reasons r)"
    using validateGPSLocation_absent_accuracy
      [of 0 "sampleReadingNoAccuracy\<lparr>latitude := Undefined\<rparr>" sampleUser] t
    by auto
  from 1 2 3 4 5 6 show ?thesis by blast
qed

text \<open>
  The claim as the specification words it fails: a reading with no accuracy, taken at the
  centre of the first zone, reaches the geofence check and is valid.
\<close>

theorem validateGPSLocation_absent_accuracy_counterexample:
  "accuracy sampleReadingNoAccuracy = Undefined \<and>
   validateGPSLocation 0 sampleReadingNoAccuracy sampleUser =
     Inr \<lparr>isValid = True, reasons = [LocationAuthorized (hd AUTHORIZED_LOCATIONS) 0],
          location = Some (hd AUTHORIZED_LOCATIONS), distance = Some 0, warnings = [],
          closestLocation = None\<rparr>"
  by (simp add: validateGPSLocation_def sampleReadingNoAccuracy_def truthy_def num_def
        isLocationAuthorized_first_zone first_zone_nonzero)

section \<open>The block manager\<close>

text \<open>
  A call for a user who is not under a running block adds the HIGH-severity flags it is
  given to the warnings that count, and blocks the user when it has added some and the
  sum has reached the limit.
\<close>

lemma manage_not_active:
  assumes "\<not> activelyBlocked now logs phone"
  shows "\<exists>l'. manageSuspiciousUser now logs phone flags =
           ((if 0 < highCount flags \<and> 5 \<le> countedWarnings logs phone + highCount flags
             then Blocked (UserBlockedNow (countedWarnings logs phone + highCount flags) 30)
             else NotBlocked (countedWarnings logs phone + highCount flags)),
            logs(phone \<mapsto> l')) \<and>
          log_warnings l' = countedWarnings logs phone + highCount flags \<and>
          isBlocked l' = (0 < highCount flags \<and> 5 \<le> countedWarnings logs phone + highCount flags) \<and>
          (isBlocked l' \<longrightarrow> blockUntil l' = Some (now + 30 * 60 * 1000))"
  using assms
  by (auto simp: manageSuspiciousUser_def activelyBlocked_def countedWarnings_def highCount_def
        userLogOf_def Let_def MAX_WARNINGS_PER_USER_def BLOCK_DURATION_MINUTES_def newUserLog_def
        nullAsZero_def
        split: option.splits)

lemma probe_log:
  assumes "\<not> activelyBlocked now logs phone"
  shows "\<exists>l'. manageSuspiciousUser now logs phone [] =
           (NotBlocked (countedWarnings logs phone), logs(phone \<mapsto> l')) \<and>
          log_warnings l' = countedWarnings logs phone \<and> \<not> isBlocked l'"
  using manage_not_active [OF assms, of "[]"] by (auto simp: highCount_def)

text \<open>
  Claim C3. A call for a user who is not under a running block adds the number of its
  HIGH-severity flags to the user's warnings: below 5 the sum is stored and reported with
  the user not blocked, and a call without such flags leaves the warnings as they are.
  When the sum reaches 5 in a call that adds some, the user is blocked until 30 minutes
  later and the call reports BLOCKED. While that time is in the future every call reports
  BLOCKED with the remaining minutes and changes nothing. The first call at or after that
  time clears the block and resets the warning counter to 0: it proceeds as for the user
  with the block cleared and no warnings, and the call that only asks for the block
  status leaves the counter at exactly 0.
\<close>

theorem manageSuspiciousUser_block_cycle:
  "(\<not> (isBlocked (userLogOf logs phone) \<and> nullAsZero (blockUntil (userLogOf logs phone)) > now) \<and>
    0 < length (filter (\<lambda>f. severity f = HIGH) flags) \<and>
    (if isBlocked (userLogOf logs phone) then 0 else log_warnings (userLogOf logs phone)) +
      length (filter (\<lambda>f. severity f = HIGH) flags) < 5 \<longrightarrow>
      (\<exists>l'. manageSuspiciousUser now logs phone flags =
              (NotBlocked
                 ((if isBlocked (userLogOf logs phone) then 0
                   else log_warnings (userLogOf logs phone)) +
                  length (filter (\<lambda>f. severity f = HIGH) flags)),
               logs(phone \<mapsto> l')) \<and>
            log_warnings l' =
              (if isBlocked (userLogOf logs phone) then 0
               else log_warnings (userLogOf logs phone)) +
              length (filter (\<lambda>f. severity f = HIGH) flags) \<and>
            \<not> isBlocked l')) \<and>
   (\<not> (isBlocked (userLogOf logs phone) \<and> nullAsZero (blockUntil (userLogOf logs phone)) > now) \<and>
    length (filter (\<lambda>f. severity f = HIGH) flags) = 0 \<longrightarrow>
      (\<exists>l'. manageSuspiciousUser now logs phone flags =
              (NotBlocked
                 (if isBlocked (userLogOf logs phone) then 0
                  else log_warnings (userLogOf logs phone)),
               logs(phone \<mapsto> l')) \<and>
            log_warnings l' =
              (if isBlocked (userLogOf logs phone) then 0
               else log_warnings (userLogOf logs phone)) \<and>
            \<not> isBlocked l')) \<and>
   (\<not> (isBlocked (userLogOf logs phone) \<and> nullAsZero (blockUntil (userLogOf logs phone)) > now) \<and>
    0 < length (filter (\<lambda>f. severity f = HIGH) flags) \<and>
    5 \<le> (if isBlocked (userLogOf logs phone) then 0 else log_warnings (userLogOf logs phone)) +
          length (filter (\<lambda>f. severity f = HIGH) flags) \<longrightarrow>
      (\<exists>l'. manageSuspiciousUser now logs phone flags =
              (Blocked (UserBlockedNow
                 ((if isBlocked (userLogOf logs phone) then 0
                   else log_warnings (userLogOf logs phone)) +
                  length (filter (\<lambda>f. severity f = HIGH) flags)) 30),
               logs(phone \<mapsto> l')) \<and>
            log_warnings l' =
              (if isBlocked (userLogOf logs phone) then 0
               else log_warnings (userLogOf logs phone)) +
              length (filter (\<lambda>f. severity f = HIGH) flags) \<and>
            isBlocked l' \<and> blockUntil l' = Some (now + 30 * 60 * 1000))) \<and>
   (isBlocked (userLogOf logs phone) \<and> blockUntil (userLogOf logs phone) = Some until \<and>
    now < until \<longrightarrow>
      manageSuspiciousUser now logs phone flags =
        (Blocked (UserBlockedRemaining \<lceil>real_of_int (until - now) / (1000 * 60)\<rceil>), logs)) \<and>
   (isBlocked (userLogOf logs phone) \<and> blockUntil (userLogOf logs phone) = Some until \<and>
    until \<le> now \<longrightarrow>
      manageSuspiciousUser now logs phone flags =
        manageSuspiciousUser now
          (logs(phone \<mapsto> (userLogOf logs phone)
                 \<lparr>isBlocked := False, blockUntil := None, log_warnings := 0\<rparr>))
          phone flags \<and>
      manageSuspiciousUser now logs phone [] =
        (NotBlocked 0,
         logs(phone \<mapsto> (userLogOf logs phone)
                \<lparr>isBlocked := False, blockUntil := None, log_warnings := 0\<rparr>)))"
proof -
  have active: "activelyBlocked now logs phone =
      (isBlocked (userLogOf logs phone) \<and> nullAsZero (blockUntil (userLogOf logs phone)) > now)"
    by (simp add: activelyBlocked_def userLogOf_def newUserLog_def split: option.splits)
  have below: "\<not> (isBlocked (userLogOf logs phone) \<and> nullAsZero (blockUntil (userLogOf logs phone)) > now) \<and>
    0 < length (filter (\<lambda>f. severity f = HIGH) flags) \<and>
    (if isBlocked (userLogOf logs phone) then 0 else log_warnings (userLogOf logs phone)) +
      length (filter (\<lambda>f. severity f = HIGH) flags) < 5 \<longrightarrow>
      (\<exists>l'. manageSuspiciousUser now logs phone flags =
              (NotBlocked
                 ((if isBlocked (userLogOf logs phone) then 0
                   else log_warnings (userLogOf logs phone)) +
                  length (filter (\<lambda>f. severity f = HIGH) flags)),
               logs(phone \<mapsto> l')) \<and>
            log_warnings l' =
              (if isBlocked (userLogOf logs phone) then 0
               else log_warnings (userLogOf logs phone)) +
              length (filter (\<lambda>f. severity f = HIGH) flags) \<and>
            \<not> isBlocked l')"
    using manage_not_active [of now logs phone flags]
    unfolding active countedWarnings_def highCount_def by auto
  have none: "\<not> (isBlocked (userLogOf logs phone) \<and> nullAsZero (blockUntil (userLogOf logs phone)) > now) \<and>
    length (filter (\<lambda>f. severity f = HIGH) flags) = 0 \<longrightarrow>
      (\<exists>l'. manageSuspiciousUser now logs phone flags =
              (NotBlocked
                 (if isBlocked (userLogOf logs phone) then 0
                  else log_warnings (userLogOf logs phone)),
               logs(phone \<mapsto> l')) \<and>
            log_warnings l' =
              (if isBlocked (userLogOf logs phone) then 0
               else log_warnings (userLogOf logs phone)) \<and>
            \<not> isBlocked l')"
    using manage_not_active [of now logs phone flags]
    unfolding active countedWarnings_def highCount_def by auto
  have reach: "\<not> (isBlocked (userLogOf logs phone) \<and> nullAsZero (blockUntil (userLogOf logs phone)) > now) \<and>
    0 < length (filter (\<lambda>f. severity f = HIGH) flags) \<and>
    5 \<le> (if isBlocked (userLogOf logs phone) then 0 else log_warnings (userLogOf logs phone)) +
          length (filter (\<lambda>f. severity f = HIGH) flags) \<longrightarrow>
      (\<exists>l'. manageSuspiciousUser now logs phone flags =
              (Blocked (UserBlockedNow
                 ((if isBlocked (userLogOf logs phone) then 0
                   else log_warnings (userLogOf logs phone)) +
                  length (filter (\<lambda>f. severity f = HIGH) flags)) 30),
               logs(phone \<mapsto> l')) \<and>
            log_warnings l' =
              (if isBlocked (userLogOf logs phone) then 0
               else log_warnings (userLogOf logs phone)) +
              length (filter (\<lambda>f. severity f = HIGH) flags) \<and>
            isBlocked l' \<and> blockUntil l' = Some (now + 30 * 60 * 1000))"
    using manage_not_active [of now logs phone flags]
    unfolding active countedWarnings_def highCount_def by auto
  have running: "isBlocked (userLogOf logs phone) \<and> blockUntil (userLogOf logs phone) = Some until \<and>
    now < until \<longrightarrow>
      manageSuspiciousUser now logs phone flags =
        (Blocked (UserBlockedRemaining \<lceil>real_of_int (until - now) / (1000 * 60)\<rceil>), logs)"
    by (auto simp: manageSuspiciousUser_def Let_def nullAsZero_def newUserLog_def userLogOf_def
          split: option.splits)
  have expired: "isBlocked (userLogOf logs phone) \<and> blockUntil (userLogOf logs phone) = Some until \<and>
    until \<le> now \<longrightarrow>
      manageSuspiciousUser now logs phone flags =
        manageSuspiciousUser now
          (logs(phone \<mapsto> (userLogOf logs phone)
                 \<lparr>isBlocked := False, blockUntil := None, log_warnings := 0\<rparr>))
          phone flags \<and>
      manageSuspiciousUser now logs phone [] =
        (NotBlocked 0,
         logs(phone \<mapsto> (userLogOf logs phone)
                \<lparr>isBlocked := False, blockUntil := None, log_warnings := 0\<rparr>))"
    by (auto simp: manageSuspiciousUser_def Let_def nullAsZero_def newUserLog_def userLogOf_def
          split: option.splits)
  from below none reach running expired show ?thesis by (intro conjI)
qed


theorem manageSuspiciousUser_block_cycle_witness:
  "(\<exists>l1 l2.
      manageSuspiciousUser 0 Map.empty sampleUser sampleThreeHighFlags =
        (NotBlocked 3, [sampleUser \<mapsto> l1]) \<and>
      log_warnings l1 = 3 \<and> \<not> isBlocked l1 \<and>
      manageSuspiciousUser 1000 [sampleUser \<mapsto> l1] sampleUser sampleThreeHighFlags =
        (Blocked (UserBlockedNow 6 30), [sampleUser \<mapsto> l2]) \<and>
      log_warnings l2 = 6 \<and> isBlocked l2 \<and> blockUntil l2 = Some 1801000) \<and>
   (\<exists>l'. manageSuspiciousUser 0 (suspiciousActivityLog sampleWarnedState) sampleUser [] =
            (NotBlocked 3, (suspiciousActivityLog sampleWarnedState)(sampleUser \<mapsto> l')) \<and>
          log_warnings l' = 3 \<and> \<not> isBlocked l') \<and>
   (\<exists>l'. manageSuspiciousUser 0 (suspiciousActivityLog sampleWarnedState) sampleUser
            sampleHighFlags =
            (Blocked (UserBlockedNow 5 30), (suspiciousActivityLog sampleWarnedState)(sampleUser \<mapsto> l')) \<and>
          log_warnings l' = 5 \<and> isBlocked l' \<and> blockUntil l' = Some 1800000) \<and>
   manageSuspiciousUser 60000 [sampleUser \<mapsto> sampleBlockedLog] sampleUser sampleHighFlags =
     (Blocked (UserBlockedRemaining 29), [sampleUser \<mapsto> sampleBlockedLog]) \<and>
   manageSuspiciousUser 1800000 [sampleUser \<mapsto> sampleBlockedLog] sampleUser [] =
     (NotBlocked 0,
      [sampleUser \<mapsto> sampleBlockedLog\<lparr>isBlocked := False, blockUntil := None, log_warnings := 0\<rparr>])"
proof -
  have n: "userLogOf Map.empty sampleUser = newUserLog"
    by (simp add: userLogOf_def)
  have nl: "\<not> isBlocked newUserLog" "log_warnings newUserLog = 0"
    by (simp_all add: newUserLog_def)
  have w: "userLogOf (suspiciousActivityLog sampleWarnedState) sampleUser =
      \<lparr>log_warnings = 3, lastWarning = Some 0, isBlocked = False,
             blockUntil = None, incidents = []\<rparr>"
    by (simp add: sampleWarnedState_def userLogOf_def)
  have e: "\<And>l. userLogOf [sampleUser \<mapsto> l] sampleUser = l"
    by (simp add: userLogOf_def)
  have b: "isBlocked sampleBlockedLog" "blockUntil sampleBlockedLog = Some 1800000"
    by (simp_all add: sampleBlockedLog_def)
  have h: "length (filter (\<lambda>f. severity f = HIGH) sampleHighFlags) = 2"
    by (simp add: sampleHighFlags_def)
  have h3: "length (filter (\<lambda>f. severity f = HIGH) sampleThreeHighFlags) = 3"
    by (simp add: sampleThreeHighFlags_def)
  from manageSuspiciousUser_block_cycle [of Map.empty sampleUser 0 sampleThreeHighFlags]
  obtain l1 where l1: "manageSuspiciousUser 0 Map.empty sampleUser sampleThreeHighFlags =
        (NotBlocked 3, [sampleUser \<mapsto> l1])" "log_warnings l1 = 3" "\<not> isBlocked l1"
    by (auto simp: n nl h3)
  from manageSuspiciousUser_block_cycle [of "[sampleUser \<mapsto> l1]" sampleUser 1000
      sampleThreeHighFlags] l1(2,3)
  obtain l2 where l2: "manageSuspiciousUser 1000 [sampleUser \<mapsto> l1] sampleUser sampleThreeHighFlags =
        (Blocked (UserBlockedNow 6 30), [sampleUser \<mapsto> l2])"
      "log_warnings l2 = 6" "isBlocked l2" "blockUntil l2 = Some 1801000"
    by (auto simp: e h3)
  from manageSuspiciousUser_block_cycle [of "suspiciousActivityLog sampleWarnedState"
      sampleUser 0 "[]"]
  have 0: "\<exists>l'. manageSuspiciousUser 0 (suspiciousActivityLog sampleWarnedState) sampleUser [] =
            (NotBlocked 3, (suspiciousActivityLog sampleWarnedState)(sampleUser \<mapsto> l')) \<and>
          log_warnings l' = 3 \<and> \<not> isBlocked l'"
    by (simp add: w)
  from manageSuspiciousUser_block_cycle [of "suspiciousActivityLog sampleWarnedState"
      sampleUser 0 sampleHighFlags]
  have 1: "\<exists>l'. manageSuspiciousUser 0 (suspiciousActivityLog sampleWarnedState) sampleUser
            sampleHighFlags =
            (Blocked (UserBlockedNow 5 30), (suspiciousActivityLog sampleWarnedState)(sampleUser \<mapsto> l')) \<and>
          log_warnings l' = 5 \<and> isBlocked l' \<and> blockUntil l' = Some 1800000"
    by (simp add: w h)
  from manageSuspiciousUser_block_cycle [of "[sampleUser \<mapsto> sampleBlockedLog]"
      sampleUser 60000 sampleHighFlags 1800000]
  have 2: "manageSuspiciousUser 60000 [sampleUser \<mapsto> sampleBlockedLog] sampleUser sampleHighFlags =
     (Blocked (UserBlockedRemaining 29), [sampleUser \<mapsto> sampleBlockedLog])"
    by (simp add: e b)
  from manageSuspiciousUser_block_cycle [of "[sampleUser \<mapsto> sampleBlockedLog]"
      sampleUser 1800000 sampleHighFlags 1800000]
  have 3: "manageSuspiciousUser 1800000 [sampleUser \<mapsto> sampleBlockedLog] sampleUser [] =
     (NotBlocked 0,
      [sampleUser \<mapsto> sampleBlockedLog\<lparr>isBlocked := False, blockUntil := None, log_warnings := 0\<rparr>])"
    by (simp add: e b)
  from l1 l2 0 1 2 3 show ?thesis by blast
qed

section \<open>The advanced validation\<close>

lemma sample_coordinates:
  "sampleLat \<noteq> 0" "sampleLng \<noteq> 0" "sampleLatZeros \<noteq> 0"
  "sampleLng \<noteq> sampleLat" "sampleLatZeros \<noteq> sampleLat" "sampleLatZeros \<noteq> sampleLng"
  by (simp_all add: sampleLat_def sampleLng_def sampleLatZeros_def)

lemma probe_blocked:
  "activelyBlocked now logs phone \<Longrightarrow>
   manageSuspiciousUser now logs phone [] =
     (Blocked (UserBlockedRemaining
        \<lceil>real_of_int (nullAsZero (blockUntil (the (logs phone))) - now) / (1000 * 60)\<rceil>), logs)"
  by (auto simp: manageSuspiciousUser_def activelyBlocked_def Let_def split: option.splits)

lemma probe_not_blocked:
  "\<not> activelyBlocked now logs phone \<Longrightarrow>
   \<exists>w. fst (manageSuspiciousUser now logs phone []) = NotBlocked w"
  by (auto simp: manageSuspiciousUser_def activelyBlocked_def Let_def newUserLog_def split: option.splits)

lemma advanced_blocked:
  assumes "manageSuspiciousUser now (suspiciousActivityLog st) phone [] = (Blocked msg, logs1)"
  shows "validateGPSLocationAdvanced toStr now st ld phone =
     (Inr \<lparr>isValid = False, reasons = [msg], location = None, distance = None, warnings = [],
           suspiciousFlags = [], fraudRisk = BLOCKED\<rparr>,
      st\<lparr>suspiciousActivityLog := logs1\<rparr>)"
  using assms by (simp add: validateGPSLocationAdvanced_def Let_def)

lemma advanced_missing:
  assumes "manageSuspiciousUser now (suspiciousActivityLog st) phone [] = (NotBlocked w, logs1)"
    and "\<not> truthy (latitude ld) \<or> \<not> truthy (longitude ld)"
  shows "validateGPSLocationAdvanced toStr now st ld phone =
     (Inr \<lparr>isValid = False, reasons = [MissingCoordinates], location = None, distance = None,
           warnings = [], suspiciousFlags = [], fraudRisk = RISK_LOW\<rparr>,
      st\<lparr>suspiciousActivityLog := logs1\<rparr>)"
  using assms by (auto simp add: validateGPSLocationAdvanced_def Let_def)

lemma sampleBlocked_active: "activelyBlocked 60000 (suspiciousActivityLog sampleBlockedState) sampleUser"
  by (simp add: activelyBlocked_def sampleBlockedState_def sampleBlockedLog_def nullAsZero_def)

lemma sampleBlocked_probe:
  "manageSuspiciousUser 60000 (suspiciousActivityLog sampleBlockedState) sampleUser [] =
     (Blocked (UserBlockedRemaining 29), suspiciousActivityLog sampleBlockedState)"
  by (simp add: probe_blocked [OF sampleBlocked_active])
     (simp add: sampleBlockedState_def sampleBlockedLog_def nullAsZero_def)

lemma basic_stale:
  assumes "truthy (latitude ld)" "truthy (longitude ld)" "timestamp ld = Val t" "t \<noteq> 0"
    "real_of_int (now - t * 1000) / (1000 * 60) > 2"
  shows "validateGPSLocation now ld phone =
     Inr \<lparr>isValid = False,
          reasons = [LocationTooOld (round (real_of_int (now - t * 1000) / (1000 * 60)))],
          location = None, distance = None, warnings = [], closestLocation = None\<rparr>"
  using assms
  by (simp add: validateGPSLocation_def isLocationTimestampValid_def Let_def truthy_def num_def
        MAX_AGE_MINUTES_def)

lemma history_appended:
  "\<exists>h. snd (analyzeLocationHistory now hs phone la lo ts) phone = Some h \<and> h \<noteq> [] \<and>
       last h = \<lparr>h_lat = la, h_lng = lo, h_timestamp = (if truthy ts then num ts else now)\<rparr>"
proof -
  let ?e = "\<lparr>h_lat = la, h_lng = lo, h_timestamp = (if truthy ts then num ts else now)\<rparr>"
  let ?p = "(case hs phone of None \<Rightarrow> [] | Some h \<Rightarrow> h) @ [?e]"
  have "10 < length ?p \<Longrightarrow> tl ?p \<noteq> [] \<and> last (tl ?p) = ?e"
    by (cases "case hs phone of None \<Rightarrow> [] | Some h \<Rightarrow> h") (auto simp: last_tl)
  then show ?thesis
    by (auto simp: analyzeLocationHistory_def Let_def)
qed

lemma sample_detect: "detectPerfectCoordinates sampleToString sampleLat sampleLng = []"
  by (simp add: detectPerfectCoordinates_def sampleToString_def decimals_def endsWith_def
        SUSPICIOUS_PRECISION_DIGITS_def sample_coordinates)

lemma sample_metadata:
  "validateGPSMetadata (Val 2) (Val 1700000000) =
     [\<lparr>ftype = SUSPICIOUS_ACCURACY, severity = MEDIUM\<rparr>, \<lparr>ftype = ABNORMAL_ACCURACY, severity = LOW\<rparr>]"
  by (simp add: validateGPSMetadata_def truthy_def num_def SUSPICIOUS_ACCURACY_VALUES_def
        EXPECTED_ACCURACY_RANGE_def)

lemma sample_analyze:
  "analyzeLocationHistory now Map.empty sampleUser sampleLat sampleLng (Val 1700000000) =
     ([], [sampleUser \<mapsto> [\<lparr>h_lat = sampleLat, h_lng = sampleLng, h_timestamp = 1700000000\<rparr>]])"
  by (simp add: analyzeLocationHistory_def truthy_def num_def)

lemma sample_zeros_detect:
  "detectPerfectCoordinates sampleToString sampleLatZeros sampleLng =
     [\<lparr>ftype = PERFECT_COORDINATES, severity = HIGH\<rparr>]"
  by (simp add: detectPerfectCoordinates_def sampleToString_def decimals_def endsWith_def
        SUSPICIOUS_PRECISION_DIGITS_def sample_coordinates)

lemma sample_zeros_metadata:
  "validateGPSMetadata (Val 10) Undefined = [\<lparr>ftype = MISSING_TIMESTAMP, severity = HIGH\<rparr>]"
  by (simp add: validateGPSMetadata_def truthy_def num_def SUSPICIOUS_ACCURACY_VALUES_def
        EXPECTED_ACCURACY_RANGE_def)

lemma sample_zeros_analyze:
  "analyzeLocationHistory 60000 Map.empty sampleUser sampleLatZeros sampleLng Undefined =
     ([], [sampleUser \<mapsto> [\<lparr>h_lat = sampleLatZeros, h_lng = sampleLng, h_timestamp = 60000\<rparr>]])"
  by (simp add: analyzeLocationHistory_def truthy_def num_def)

lemma sample_warned_evaluation:
  "fst (validateGPSLocationAdvanced sampleToString 60000 sampleWarnedState sampleZerosReading
         sampleUser) =
     Inr \<lparr>isValid = False, reasons = [UserBlockedNow 5 30], location = None, distance = None,
          warnings = [],
          suspiciousFlags = [\<lparr>ftype = PERFECT_COORDINATES, severity = HIGH\<rparr>,
                             \<lparr>ftype = MISSING_TIMESTAMP, severity = HIGH\<rparr>],
          fraudRisk = BLOCKED\<rparr>"
proof -
  have "truthy (latitude sampleZerosReading)" "truthy (longitude sampleZerosReading)"
    "num (latitude sampleZerosReading) = sampleLatZeros" "num (longitude sampleZerosReading) = sampleLng"
    "accuracy sampleZerosReading = Val 10" "timestamp sampleZerosReading = Undefined"
    by (simp_all add: sampleZerosReading_def truthy_def num_def sample_coordinates)
  moreover have "manageSuspiciousUser 60000 (suspiciousActivityLog sampleWarnedState) sampleUser [] =
      (NotBlocked 3, suspiciousActivityLog sampleWarnedState)"
    by (simp add: manageSuspiciousUser_def sampleWarnedState_def)
  moreover have "\<exists>l. manageSuspiciousUser 60000 (suspiciousActivityLog sampleWarnedState) sampleUser
       [\<lparr>ftype = PERFECT_COORDINATES, severity = HIGH\<rparr>,
        \<lparr>ftype = MISSING_TIMESTAMP, severity = HIGH\<rparr>] = (Blocked (UserBlockedNow 5 30), l)"
    by (simp add: manageSuspiciousUser_def sampleWarnedState_def MAX_WARNINGS_PER_USER_def
          BLOCK_DURATION_MINUTES_def Let_def)
  ultimately show ?thesis
    by (auto simp add: validateGPSLocationAdvanced_def sample_zeros_detect
          sample_zeros_metadata sample_zeros_analyze sampleWarnedState_def)
qed

text \<open>
  The advanced validation step by step, with the flags of the three analyzers as one list,
  and what it leaves and returns for a user who is not under a running block and whose
  reading has both coordinates.
\<close>

lemma advanced_steps:
  "validateGPSLocationAdvanced toStr now st ld phone =
     (case manageSuspiciousUser now (suspiciousActivityLog st) phone [] of
        (Blocked msg, logs1) \<Rightarrow>
          (Inr \<lparr>isValid = False, reasons = [msg], location = None, distance = None,
                warnings = [], suspiciousFlags = [], fraudRisk = BLOCKED\<rparr>,
           st\<lparr>suspiciousActivityLog := logs1\<rparr>)
      | (NotBlocked w, logs1) \<Rightarrow>
          if \<not> truthy (latitude ld) \<or> \<not> truthy (longitude ld)
          then (Inr \<lparr>isValid = False, reasons = [MissingCoordinates], location = None,
                     distance = None, warnings = [], suspiciousFlags = [],
                     fraudRisk = RISK_LOW\<rparr>,
                st\<lparr>suspiciousActivityLog := logs1\<rparr>)
          else
            let flags = analyzerFlags toStr now st ld phone;
                hs = snd (analyzeLocationHistory now (userLocationHistory st) phone
                            (num (latitude ld)) (num (longitude ld)) (timestamp ld));
                risk = (if 2 \<le> highCount flags then RISK_HIGH
                        else if 1 \<le> highCount flags \<or> 2 \<le> mediumCount flags then RISK_MEDIUM
                        else RISK_LOW);
                (userManagement, logs3) =
                   (if 2 \<le> highCount flags
                    then manageSuspiciousUser now logs1 phone flags
                    else (NotBlocked 0, logs1));
                st3 = st\<lparr>userLocationHistory := hs, suspiciousActivityLog := logs3\<rparr>
            in case userManagement of
                 Blocked msg \<Rightarrow>
                   (Inr \<lparr>isValid = False, reasons = [msg], location = None, distance = None,
                         warnings = [], suspiciousFlags = flags, fraudRisk = BLOCKED\<rparr>, st3)
               | NotBlocked _ \<Rightarrow>
                   (case validateGPSLocation now ld phone of
                      Inl e \<Rightarrow> (Inl e, st3)
                    | Inr b \<Rightarrow>
                        (Inr \<lparr>isValid = (isValid b \<and> highCount flags < 2),
                              reasons = reasons b @
                                (if 2 \<le> highCount flags then [FraudRejected] else []),
                              location = location b, distance = distance b,
                              warnings = warnings b @
                                (if flags = [] then [] else [SuspiciousSignals (length flags)]),
                              suspiciousFlags = flags, fraudRisk = risk\<rparr>, st3)))"
proof -
  obtain us logs1 where p: "manageSuspiciousUser now (suspiciousActivityLog st) phone [] = (us, logs1)"
    by (cases "manageSuspiciousUser now (suspiciousActivityLog st) phone []") auto
  obtain hf hs where a: "analyzeLocationHistory now (userLocationHistory st) phone
                      (num (latitude ld)) (num (longitude ld)) (timestamp ld) = (hf, hs)"
    by (cases "analyzeLocationHistory now (userLocationHistory st) phone
                      (num (latitude ld)) (num (longitude ld)) (timestamp ld)") auto
  let ?flags = "detectPerfectCoordinates toStr (num (latitude ld)) (num (longitude ld)) @
               validateGPSMetadata (accuracy ld) (timestamp ld) @ hf"
  obtain um logs3 where m: "manageSuspiciousUser now logs1 phone ?flags = (um, logs3)"
    by (cases "manageSuspiciousUser now logs1 phone ?flags") auto
  obtain b where b: "validateGPSLocation now ld phone = b" by simp
  show ?thesis
    using p a m b
    by (cases us; cases um; cases b)
       (auto simp: validateGPSLocationAdvanced_def analyzerFlags_def highCount_def
          mediumCount_def Let_def)
qed


lemma advanced_analysis:
  assumes nb: "\<not> activelyBlocked now (suspiciousActivityLog st) phone"
    and coords: "truthy (latitude ld)" "truthy (longitude ld)"
    and flags: "flags = analyzerFlags toStr now st ld phone"
    and base: "base = countedWarnings (suspiciousActivityLog st) phone"
    and basic: "validateGPSLocation now ld phone = Inr b"
  shows "userLocationHistory (snd (validateGPSLocationAdvanced toStr now st ld phone)) =
           snd (analyzeLocationHistory now (userLocationHistory st) phone
                  (num (latitude ld)) (num (longitude ld)) (timestamp ld))"
    and "\<exists>l'. suspiciousActivityLog (snd (validateGPSLocationAdvanced toStr now st ld phone)) =
                (suspiciousActivityLog st)(phone \<mapsto> l') \<and>
              log_warnings l' = base + (if 2 \<le> highCount flags then highCount flags else 0) \<and>
              isBlocked l' = (2 \<le> highCount flags \<and> 5 \<le> base + highCount flags) \<and>
              (isBlocked l' \<longrightarrow> blockUntil l' = Some (now + 30 * 60 * 1000))"
    and "fst (validateGPSLocationAdvanced toStr now st ld phone) =
           Inr (if 2 \<le> highCount flags \<and> 5 \<le> base + highCount flags
                then \<lparr>isValid = False, reasons = [UserBlockedNow (base + highCount flags) 30],
                      location = None, distance = None, warnings = [],
                      suspiciousFlags = flags, fraudRisk = BLOCKED\<rparr>
                else \<lparr>isValid = (isValid b \<and> highCount flags < 2),
                      reasons = reasons b @ (if 2 \<le> highCount flags then [FraudRejected] else []),
                      location = location b, distance = distance b,
                      warnings = warnings b @
                        (if flags = [] then [] else [SuspiciousSignals (length flags)]),
                      suspiciousFlags = flags,
                      fraudRisk = (if 2 \<le> highCount flags then RISK_HIGH
                                   else if 1 \<le> highCount flags \<or> 2 \<le> mediumCount flags
                                     then RISK_MEDIUM
                                   else RISK_LOW)\<rparr>)"
proof -
  let ?logs = "suspiciousActivityLog st"
  from probe_log [OF nb] obtain l1 where
    p: "manageSuspiciousUser now ?logs phone [] = (NotBlocked base, ?logs(phone \<mapsto> l1))"
    and l1: "log_warnings l1 = base" "\<not> isBlocked l1"
    unfolding base by blast
  let ?logs1 = "?logs(phone \<mapsto> l1)"
  have nb1: "\<not> activelyBlocked now ?logs1 phone"
    using l1 by (simp add: activelyBlocked_def)
  have c1: "countedWarnings ?logs1 phone = base"
    using l1 by (simp add: countedWarnings_def userLogOf_def)
  from manage_not_active [OF nb1, of flags] obtain l3 where
    m: "manageSuspiciousUser now ?logs1 phone flags =
           ((if 0 < highCount flags \<and> 5 \<le> base + highCount flags
             then Blocked (UserBlockedNow (base + highCount flags) 30)
             else NotBlocked (base + highCount flags)),
            ?logs(phone \<mapsto> l3))"
    and l3: "log_warnings l3 = base + highCount flags"
      "isBlocked l3 = (0 < highCount flags \<and> 5 \<le> base + highCount flags)"
      "isBlocked l3 \<longrightarrow> blockUntil l3 = Some (now + 30 * 60 * 1000)"
    unfolding c1 by auto
  note s = advanced_steps [of toStr now st ld phone, unfolded p, folded flags]
  show "userLocationHistory (snd (validateGPSLocationAdvanced toStr now st ld phone)) =
           snd (analyzeLocationHistory now (userLocationHistory st) phone
                  (num (latitude ld)) (num (longitude ld)) (timestamp ld))"
    using coords by (simp add: s m basic Let_def)
  show "\<exists>l'. suspiciousActivityLog (snd (validateGPSLocationAdvanced toStr now st ld phone)) =
                (suspiciousActivityLog st)(phone \<mapsto> l') \<and>
              log_warnings l' = base + (if 2 \<le> highCount flags then highCount flags else 0) \<and>
              isBlocked l' = (2 \<le> highCount flags \<and> 5 \<le> base + highCount flags) \<and>
              (isBlocked l' \<longrightarrow> blockUntil l' = Some (now + 30 * 60 * 1000))"
    using coords l1 l3 by (auto simp: s m basic Let_def)
  show "fst (validateGPSLocationAdvanced toStr now st ld phone) =
           Inr (if 2 \<le> highCount flags \<and> 5 \<le> base + highCount flags
                then \<lparr>isValid = False, reasons = [UserBlockedNow (base + highCount flags) 30],
                      location = None, distance = None, warnings = [],
                      suspiciousFlags = flags, fraudRisk = BLOCKED\<rparr>
                else \<lparr>isValid = (isValid b \<and> highCount flags < 2),
                      reasons = reasons b @ (if 2 \<le> highCount flags then [FraudRejected] else []),
                      location = location b, distance = distance b,
                      warnings = warnings b @
                        (if flags = [] then [] else [SuspiciousSignals (length flags)]),
                      suspiciousFlags = flags,
                      fraudRisk = (if 2 \<le> highCount flags then RISK_HIGH
                                   else if 1 \<le> highCount flags \<or> 2 \<le> mediumCount flags
                                     then RISK_MEDIUM
                                   else RISK_LOW)\<rparr>)"
    using coords by (auto simp: s m basic Let_def)
qed

lemma sample_stale_flags:
  "analyzerFlags sampleToString now emptyFraudState sampleStaleReading sampleUser =
     [\<lparr>ftype = SUSPICIOUS_ACCURACY, severity = MEDIUM\<rparr>, \<lparr>ftype = ABNORMAL_ACCURACY, severity = LOW\<rparr>]"
  by (simp add: analyzerFlags_def sampleStaleReading_def emptyFraudState_def num_def
        sample_detect sample_metadata sample_analyze)

lemma sample_zeros_flags:
  "analyzerFlags sampleToString 60000 sampleWarnedState sampleZerosReading sampleUser =
     [\<lparr>ftype = PERFECT_COORDINATES, severity = HIGH\<rparr>, \<lparr>ftype = MISSING_TIMESTAMP, severity = HIGH\<rparr>]"
  by (simp add: analyzerFlags_def sampleZerosReading_def sampleWarnedState_def num_def
        sample_zeros_detect sample_zeros_metadata sample_zeros_analyze)

lemma sample_repeated_metadata: "validateGPSMetadata (Val 10) (Val 1700000000) = []"
  by (simp add: validateGPSMetadata_def truthy_def num_def SUSPICIOUS_ACCURACY_VALUES_def
        EXPECTED_ACCURACY_RANGE_def)

lemma sample_repeated_analyze:
  "analyzeLocationHistory now
     [sampleUser \<mapsto> [sampleRepeatedEntry, sampleRepeatedEntry, sampleRepeatedEntry]]
     sampleUser sampleLatZeros sampleLng (Val 1700000000) =
     ([\<lparr>ftype = IDENTICAL_LOCATIONS, severity = HIGH\<rparr>,
       \<lparr>ftype = LOW_GPS_VARIATION, severity = MEDIUM\<rparr>],
      [sampleUser \<mapsto> [sampleRepeatedEntry, sampleRepeatedEntry, sampleRepeatedEntry,
                        \<lparr>h_lat = sampleLatZeros, h_lng = sampleLng, h_timestamp = 1700000000\<rparr>]])"
  by (simp add: analyzeLocationHistory_def truthy_def num_def sampleRepeatedEntry_def
        MAX_IDENTICAL_LOCATIONS_def MIN_GPS_VARIATION_def calculateDistance_same
        speedAboveLimit_def Let_def)

lemma sample_repeated_flags:
  "analyzerFlags sampleToString now sampleRepeatedState sampleStaleRepeatedReading sampleUser =
     [\<lparr>ftype = PERFECT_COORDINATES, severity = HIGH\<rparr>,
      \<lparr>ftype = IDENTICAL_LOCATIONS, severity = HIGH\<rparr>,
      \<lparr>ftype = LOW_GPS_VARIATION, severity = MEDIUM\<rparr>]"
  "analyzerFlags sampleToString now sampleWarnedRepeatedState sampleStaleRepeatedReading sampleUser =
     [\<lparr>ftype = PERFECT_COORDINATES, severity = HIGH\<rparr>,
      \<lparr>ftype = IDENTICAL_LOCATIONS, severity = HIGH\<rparr>,
      \<lparr>ftype = LOW_GPS_VARIATION, severity = MEDIUM\<rparr>]"
  by (simp_all add: analyzerFlags_def sampleStaleRepeatedReading_def sampleRepeatedState_def
        sampleWarnedRepeatedState_def num_def
        sample_zeros_detect sample_repeated_metadata sample_repeated_analyze)

lemma sample_counted:
  "countedWarnings (suspiciousActivityLog emptyFraudState) sampleUser = 0"
  "countedWarnings (suspiciousActivityLog sampleRepeatedState) sampleUser = 0"
  "countedWarnings (suspiciousActivityLog sampleWarnedState) sampleUser = 3"
  "countedWarnings (suspiciousActivityLog sampleWarnedRepeatedState) sampleUser = 3"
  by (simp_all add: countedWarnings_def userLogOf_def emptyFraudState_def sampleRepeatedState_def
        sampleWarnedState_def sampleWarnedRepeatedState_def newUserLog_def)

lemma sample_not_blocked:
  "\<not> activelyBlocked now (suspiciousActivityLog emptyFraudState) sampleUser"
  "\<not> activelyBlocked now (suspiciousActivityLog sampleRepeatedState) sampleUser"
  "\<not> activelyBlocked now (suspiciousActivityLog sampleWarnedState) sampleUser"
  "\<not> activelyBlocked now (suspiciousActivityLog sampleWarnedRepeatedState) sampleUser"
  by (simp_all add: activelyBlocked_def emptyFraudState_def sampleRepeatedState_def
        sampleWarnedState_def sampleWarnedRepeatedState_def newUserLog_def)

lemma sample_counts:
  "highCount [\<lparr>ftype = PERFECT_COORDINATES, severity = HIGH\<rparr>,
              \<lparr>ftype = IDENTICAL_LOCATIONS, severity = HIGH\<rparr>,
              \<lparr>ftype = LOW_GPS_VARIATION, severity = MEDIUM\<rparr>] = 2"
  "mediumCount [\<lparr>ftype = PERFECT_COORDINATES, severity = HIGH\<rparr>,
              \<lparr>ftype = IDENTICAL_LOCATIONS, severity = HIGH\<rparr>,
              \<lparr>ftype = LOW_GPS_VARIATION, severity = MEDIUM\<rparr>] = 1"
  "highCount [\<lparr>ftype = SUSPICIOUS_ACCURACY, severity = MEDIUM\<rparr>,
              \<lparr>ftype = ABNORMAL_ACCURACY, severity = LOW\<rparr>] = 0"
  "mediumCount [\<lparr>ftype = SUSPICIOUS_ACCURACY, severity = MEDIUM\<rparr>,
              \<lparr>ftype = ABNORMAL_ACCURACY, severity = LOW\<rparr>] = 1"
  "highCount [\<lparr>ftype = PERFECT_COORDINATES, severity = HIGH\<rparr>,
              \<lparr>ftype = MISSING_TIMESTAMP, severity = HIGH\<rparr>] = 2"
  by (simp_all add: highCount_def mediumCount_def)

lemma sample_repeated_reading:
  "truthy (latitude sampleStaleRepeatedReading)" "truthy (longitude sampleStaleRepeatedReading)"
  "timestamp sampleStaleRepeatedReading = Val 1700000000"
  "num (latitude sampleStaleRepeatedReading) = sampleLatZeros"
  "num (longitude sampleStaleRepeatedReading) = sampleLng"
  by (simp_all add: sampleStaleRepeatedReading_def truthy_def num_def sample_coordinates)

lemma sample_stale_reading:
  "truthy (latitude sampleStaleReading)" "truthy (longitude sampleStaleReading)"
  "timestamp sampleStaleReading = Val 1700000000"
  "num (latitude sampleStaleReading) = sampleLat"
  "num (longitude sampleStaleReading) = sampleLng"
  by (simp_all add: sampleStaleReading_def truthy_def num_def sample_coordinates)

lemma sample_stale_age:
  "(1700000000::int) \<noteq> 0" "real_of_int (1700000180000 - 1700000000 * 1000) / (1000 * 60) > 2"
  "round (real_of_int (1700000180000 - 1700000000 * 1000) / (1000 * 60)) = 3"
  by simp_all

lemma sample_single_flags:
  "analyzerFlags sampleToString now emptyFraudState sampleStaleRepeatedReading sampleUser =
     [\<lparr>ftype = PERFECT_COORDINATES, severity = HIGH\<rparr>]"
  by (simp add: analyzerFlags_def sampleStaleRepeatedReading_def emptyFraudState_def num_def
        sample_zeros_detect sample_repeated_metadata analyzeLocationHistory_def truthy_def)

lemma sample_single_counts:
  "highCount [\<lparr>ftype = PERFECT_COORDINATES, severity = HIGH\<rparr>] = 1"
  "mediumCount [\<lparr>ftype = PERFECT_COORDINATES, severity = HIGH\<rparr>] = 0"
  "highCount [] = 0" "mediumCount [] = 0"
  by (simp_all add: highCount_def mediumCount_def)

lemma sample_zeros_reading:
  "truthy (latitude sampleZerosReading)" "truthy (longitude sampleZerosReading)"
  by (simp_all add: sampleZerosReading_def truthy_def sample_coordinates)

lemma sample_repeated_basic:
  "validateGPSLocation 1700000180000 sampleStaleRepeatedReading sampleUser =
     Inr \<lparr>isValid = False, reasons = [LocationTooOld 3],
          location = None, distance = None, warnings = [], closestLocation = None\<rparr>"
  using basic_stale [OF sample_repeated_reading(1,2,3) sample_stale_age(1,2), of sampleUser]
  by (simp only: sample_stale_age(3))

lemma sample_repeated_evaluation:
  "fst (validateGPSLocationAdvanced sampleToString 1700000180000 sampleRepeatedState
         sampleStaleRepeatedReading sampleUser) =
     Inr \<lparr>isValid = False, reasons = [LocationTooOld 3, FraudRejected], location = None,
          distance = None, warnings = [SuspiciousSignals 3],
          suspiciousFlags = [\<lparr>ftype = PERFECT_COORDINATES, severity = HIGH\<rparr>,
                             \<lparr>ftype = IDENTICAL_LOCATIONS, severity = HIGH\<rparr>,
                             \<lparr>ftype = LOW_GPS_VARIATION, severity = MEDIUM\<rparr>],
          fraudRisk = RISK_HIGH\<rparr>"
  "userLocationHistory
     (snd (validateGPSLocationAdvanced sampleToString 1700000180000 sampleRepeatedState
            sampleStaleRepeatedReading sampleUser)) sampleUser =
     Some [sampleRepeatedEntry, sampleRepeatedEntry, sampleRepeatedEntry,
           \<lparr>h_lat = sampleLatZeros, h_lng = sampleLng, h_timestamp = 1700000000\<rparr>]"
  "log_warnings (userLogOf (suspiciousActivityLog
     (snd (validateGPSLocationAdvanced sampleToString 1700000180000 sampleRepeatedState
            sampleStaleRepeatedReading sampleUser))) sampleUser) = 2"
proof -
  note a = advanced_analysis [OF sample_not_blocked(2) sample_repeated_reading(1,2) refl refl
      sample_repeated_basic, of sampleToString]
  show "fst (validateGPSLocationAdvanced sampleToString 1700000180000 sampleRepeatedState
         sampleStaleRepeatedReading sampleUser) =
     Inr \<lparr>isValid = False, reasons = [LocationTooOld 3, FraudRejected], location = None,
          distance = None, warnings = [SuspiciousSignals 3],
          suspiciousFlags = [\<lparr>ftype = PERFECT_COORDINATES, severity = HIGH\<rparr>,
                             \<lparr>ftype = IDENTICAL_LOCATIONS, severity = HIGH\<rparr>,
                             \<lparr>ftype = LOW_GPS_VARIATION, severity = MEDIUM\<rparr>],
          fraudRisk = RISK_HIGH\<rparr>"
    by (simp add: a(3) sample_repeated_flags sample_counts sample_counted)
  show "userLocationHistory
     (snd (validateGPSLocationAdvanced sampleToString 1700000180000 sampleRepeatedState
            sampleStaleRepeatedReading sampleUser)) sampleUser =
     Some [sampleRepeatedEntry, sampleRepeatedEntry, sampleRepeatedEntry,
           \<lparr>h_lat = sampleLatZeros, h_lng = sampleLng, h_timestamp = 1700000000\<rparr>]"
    by (simp only: a(1) sample_repeated_reading)
       (simp add: sampleRepeatedState_def sample_repeated_analyze)
  from a(2) show "log_warnings (userLogOf (suspiciousActivityLog
     (snd (validateGPSLocationAdvanced sampleToString 1700000180000 sampleRepeatedState
            sampleStaleRepeatedReading sampleUser))) sampleUser) = 2"
    by (auto simp: userLogOf_def sample_repeated_flags sample_counts sample_counted)
qed

text \<open>
  Claim C10, as the code has it. A reading whose latitude or longitude is exactly 0 is
  rejected by the basic validation with the missing-coordinates reason, and by the
  advanced validation as well unless the user is under a running block, which is reported
  first, as BLOCKED.
\<close>

theorem zero_coordinate_rejected:
  assumes "latitude ld = Val 0 \<or> longitude ld = Val 0"
  shows "validateGPSLocation now ld phone =
           Inr \<lparr>isValid = False, reasons = [MissingCoordinates], location = None,
                distance = None, warnings = [], closestLocation = None\<rparr> \<and>
         (\<not> activelyBlocked now (suspiciousActivityLog st) phone \<longrightarrow>
            fst (validateGPSLocationAdvanced toStr now st ld phone) =
              Inr \<lparr>isValid = False, reasons = [MissingCoordinates], location = None,
                   distance = None, warnings = [], suspiciousFlags = [],
                   fraudRisk = RISK_LOW\<rparr>) \<and>
         (activelyBlocked now (suspiciousActivityLog st) phone \<longrightarrow>
            (\<exists>minutes. fst (validateGPSLocationAdvanced toStr now st ld phone) =
              Inr \<lparr>isValid = False, reasons = [UserBlockedRemaining minutes], location = None,
                   distance = None, warnings = [], suspiciousFlags = [],
                   fraudRisk = BLOCKED\<rparr>))"
proof (intro conjI impI)
  from assms have f: "\<not> truthy (latitude ld) \<or> \<not> truthy (longitude ld)"
    by (auto simp: truthy_def)
  then show "validateGPSLocation now ld phone =
           Inr \<lparr>isValid = False, reasons = [MissingCoordinates], location = None,
                distance = None, warnings = [], closestLocation = None\<rparr>"
    by (auto simp: validateGPSLocation_def Let_def)
  {
    assume "\<not> activelyBlocked now (suspiciousActivityLog st) phone"
    then obtain w where "fst (manageSuspiciousUser now (suspiciousActivityLog st) phone []) = NotBlocked w"
      using probe_not_blocked by blast
    then obtain logs1 where
      "manageSuspiciousUser now (suspiciousActivityLog st) phone [] = (NotBlocked w, logs1)"
      by (cases "manageSuspiciousUser now (suspiciousActivityLog st) phone []") auto
    from advanced_missing [OF this f]
    show "fst (validateGPSLocationAdvanced toStr now st ld phone) =
              Inr \<lparr>isValid = False, reasons = [MissingCoordinates], location = None,
                   distance = None, warnings = [], suspiciousFlags = [],
                   fraudRisk = RISK_LOW\<rparr>"
      by simp
  }
  {
    assume "activelyBlocked now (suspiciousActivityLog st) phone"
    from advanced_blocked [OF probe_blocked [OF this]]
    show "\<exists>minutes. fst (validateGPSLocationAdvanced toStr now st ld phone) =
              Inr \<lparr>isValid = False, reasons = [UserBlockedRemaining minutes], location = None,
                   distance = None, warnings = [], suspiciousFlags = [],
                   fraudRisk = BLOCKED\<rparr>"
      by simp
  }
qed

theorem zero_coordinate_rejected_witness:
  "validateGPSLocation 0 (sampleReadingNoAccuracy\<lparr>longitude := Val 0\<rparr>) sampleUser =
     Inr \<lparr>isValid = False, reasons = [MissingCoordinates], location = None,
          distance = None, warnings = [], closestLocation = None\<rparr> \<and>
   fst (validateGPSLocationAdvanced sampleToString 0
         \<lparr>userLocationHistory = Map.empty, suspiciousActivityLog = Map.empty\<rparr>
         (sampleReadingNoAccuracy\<lparr>longitude := Val 0\<rparr>) sampleUser) =
     Inr \<lparr>isValid = False, reasons = [MissingCoordinates], location = None,
          distance = None, warnings = [], suspiciousFlags = [], fraudRisk = RISK_LOW\<rparr> \<and>
   (\<exists>minutes. fst (validateGPSLocationAdvanced sampleToString 60000 sampleBlockedState
         (sampleReadingNoAccuracy\<lparr>longitude := Val 0\<rparr>) sampleUser) =
     Inr \<lparr>isValid = False, reasons = [UserBlockedRemaining minutes], location = None,
          distance = None, warnings = [], suspiciousFlags = [], fraudRisk = BLOCKED\<rparr>)"
proof -
  have z: "latitude (sampleReadingNoAccuracy\<lparr>longitude := Val 0\<rparr>) = Val 0 \<or>
           longitude (sampleReadingNoAccuracy\<lparr>longitude := Val 0\<rparr>) = Val 0"
    by simp
  have nb: "\<not> activelyBlocked 0 (suspiciousActivityLog
         \<lparr>userLocationHistory = Map.empty, suspiciousActivityLog = Map.empty\<rparr>) sampleUser"
    by (simp add: activelyBlocked_def)
  from zero_coordinate_rejected [OF z, of 0 sampleUser
      "\<lparr>userLocationHistory = Map.empty, suspiciousActivityLog = Map.empty\<rparr>" sampleToString] nb
    zero_coordinate_rejected [OF z, of 60000 sampleUser sampleBlockedState sampleToString]
    sampleBlocked_active
  show ?thesis by blast
qed

text \<open>
  The claim as worded fails for a blocked user: the advanced validation of a reading with
  latitude 0 answers with the block, not with the missing coordinates.
\<close>

theorem zero_coordinate_rejected_counterexample:
  "latitude (sampleReadingNoAccuracy\<lparr>latitude := Val 0\<rparr>) = Val 0 \<and>
   fst (validateGPSLocationAdvanced sampleToString 60000 sampleBlockedState
         (sampleReadingNoAccuracy\<lparr>latitude := Val 0\<rparr>) sampleUser) =
     Inr \<lparr>isValid = False, reasons = [UserBlockedRemaining 29], location = None,
          distance = None, warnings = [], suspiciousFlags = [], fraudRisk = BLOCKED\<rparr>"
  by (simp add: advanced_blocked [OF sampleBlocked_probe])

text \<open>
  Claim C7, as the code has it. For a reading that lacks latitude or longitude the advanced
  validation consults the user's block status first: the log afterwards is the one that
  call leaves, and a user under a running block is rejected as BLOCKED. Otherwise the
  reading is rejected with the missing-coordinates reason, before any fraud analyzer
  runs: no flag, no warning, and the location history as it was.
\<close>

theorem missing_coordinates_after_block_check:
  assumes "\<not> truthy (latitude ld) \<or> \<not> truthy (longitude ld)"
  shows "userLocationHistory (snd (validateGPSLocationAdvanced toStr now st ld phone)) =
           userLocationHistory st \<and>
         suspiciousActivityLog (snd (validateGPSLocationAdvanced toStr now st ld phone)) =
           snd (manageSuspiciousUser now (suspiciousActivityLog st) phone []) \<and>
         (\<exists>r. fst (validateGPSLocationAdvanced toStr now st ld phone) = Inr r \<and>
              \<not> isValid r \<and> suspiciousFlags r = [] \<and> warnings r = [] \<and>
              (if activelyBlocked now (suspiciousActivityLog st) phone
               then fraudRisk r = BLOCKED \<and> (\<exists>minutes. reasons r = [UserBlockedRemaining minutes])
               else fraudRisk r = RISK_LOW \<and> reasons r = [MissingCoordinates]))"
proof (cases "activelyBlocked now (suspiciousActivityLog st) phone")
  case True
  from advanced_blocked [OF probe_blocked [OF True]] True
  show ?thesis by (simp add: probe_blocked [OF True])
next
  case False
  then obtain w where "fst (manageSuspiciousUser now (suspiciousActivityLog st) phone []) = NotBlocked w"
    using probe_not_blocked by blast
  then obtain logs1 where
    p: "manageSuspiciousUser now (suspiciousActivityLog st) phone [] = (NotBlocked w, logs1)"
    by (cases "manageSuspiciousUser now (suspiciousActivityLog st) phone []") auto
  from advanced_missing [OF p assms] False p
  show ?thesis by simp
qed

theorem missing_coordinates_after_block_check_witness:
  "(\<exists>r. fst (validateGPSLocationAdvanced sampleToString 0 emptyFraudState
         (sampleReadingNoAccuracy\<lparr>latitude := Undefined\<rparr>) sampleUser) = Inr r \<and>
       \<not> isValid r \<and> suspiciousFlags r = [] \<and> fraudRisk r = RISK_LOW \<and>
       reasons r = [MissingCoordinates]) \<and>
   userLocationHistory (snd (validateGPSLocationAdvanced sampleToString 0 emptyFraudState
         (sampleReadingNoAccuracy\<lparr>latitude := Undefined\<rparr>) sampleUser)) = Map.empty \<and>
   (\<exists>r. fst (validateGPSLocationAdvanced sampleToString 60000 sampleBlockedState
         (sampleReadingNoAccuracy\<lparr>latitude := Undefined\<rparr>) sampleUser) = Inr r \<and>
       suspiciousFlags r = [] \<and> fraudRisk r = BLOCKED)"
proof -
  have f: "\<not> truthy (latitude (sampleReadingNoAccuracy\<lparr>latitude := Undefined\<rparr>)) \<or>
           \<not> truthy (longitude (sampleReadingNoAccuracy\<lparr>latitude := Undefined\<rparr>))"
    by (simp add: truthy_def)
  have nb: "\<not> activelyBlocked 0 (suspiciousActivityLog emptyFraudState) sampleUser"
    by (simp add: activelyBlocked_def emptyFraudState_def)
  from missing_coordinates_after_block_check [OF f, of sampleToString 0 emptyFraudState sampleUser] nb
  have 1: "(\<exists>r. fst (validateGPSLocationAdvanced sampleToString 0 emptyFraudState
         (sampleReadingNoAccuracy\<lparr>latitude := Undefined\<rparr>) sampleUser) = Inr r \<and>
       \<not> isValid r \<and> suspiciousFlags r = [] \<and> fraudRisk r = RISK_LOW \<and>
       reasons r = [MissingCoordinates]) \<and>
   userLocationHistory (snd (validateGPSLocationAdvanced sampleToString 0 emptyFraudState
         (sampleReadingNoAccuracy\<lparr>latitude := Undefined\<rparr>) sampleUser)) = Map.empty"
    by (auto simp: emptyFraudState_def)
  from missing_coordinates_after_block_check [OF f, of sampleToString 60000 sampleBlockedState
      sampleUser] sampleBlocked_active
  have 2: "\<exists>r. fst (validateGPSLocationAdvanced sampleToString 60000 sampleBlockedState
         (sampleReadingNoAccuracy\<lparr>latitude := Undefined\<rparr>) sampleUser) = Inr r \<and>
       suspiciousFlags r = [] \<and> fraudRisk r = BLOCKED"
    by auto
  from 1 2 show ?thesis by blast
qed

text \<open>
  The claim as worded fails: with the user blocked, the reading without latitude is not
  rejected for its missing coordinates.
\<close>

theorem missing_coordinates_after_block_check_counterexample:
  "latitude (sampleReadingNoAccuracy\<lparr>latitude := Undefined\<rparr>) = Undefined \<and>
   fst (validateGPSLocationAdvanced sampleToString 60000 sampleBlockedState
         (sampleReadingNoAccuracy\<lparr>latitude := Undefined\<rparr>) sampleUser) =
     Inr \<lparr>isValid = False, reasons = [UserBlockedRemaining 29], location = None,
          distance = None, warnings = [], suspiciousFlags = [], fraudRisk = BLOCKED\<rparr>"
  by (simp add: advanced_blocked [OF sampleBlocked_probe])

text \<open>
  Claim C1, as the code has it. A reading with coordinates whose GPS timestamp is more than
  2 minutes old, from a user who is not under a running block, is rejected, but the fraud
  analysis and the block manager run before the timestamp is looked at. The reading is
  appended to the user's location history; the flags of the three analyzers are produced
  and reported; and when at least 2 of them are of HIGH severity, their number is added to
  the user's warnings. If that brings the warnings to 5 or more, the user is blocked for
  30 minutes and the reading is rejected as BLOCKED, with the block as the only reason.
  Otherwise it is rejected with the staleness reason, followed by the fraud reason when
  the risk is HIGH, and a warning of the result counts the flags when there are any.
\<close>

theorem stale_reading_after_fraud_analysis:
  assumes "truthy (latitude ld)" and "truthy (longitude ld)"
    and "timestamp ld = Val t" and "t \<noteq> 0"
    and "real_of_int (now - t * 1000) / (1000 * 60) > 2"
    and "\<not> activelyBlocked now (suspiciousActivityLog st) phone"
  shows "let R = validateGPSLocationAdvanced toStr now st ld phone;
             flags = analyzerFlags toStr now st ld phone;
             counted = countedWarnings (suspiciousActivityLog st) phone;
             blocks = (2 \<le> highCount flags \<and> 5 \<le> counted + highCount flags)
         in
         userLocationHistory (snd R) =
           snd (analyzeLocationHistory now (userLocationHistory st) phone
                  (num (latitude ld)) (num (longitude ld)) (timestamp ld)) \<and>
         (\<exists>h. userLocationHistory (snd R) phone = Some h \<and> h \<noteq> [] \<and>
              last h = \<lparr>h_lat = num (latitude ld), h_lng = num (longitude ld), h_timestamp = t\<rparr>) \<and>
         (\<exists>l'. suspiciousActivityLog (snd R) = (suspiciousActivityLog st)(phone \<mapsto> l') \<and>
               log_warnings l' = counted + (if 2 \<le> highCount flags then highCount flags else 0) \<and>
               isBlocked l' = blocks \<and>
               (blocks \<longrightarrow> blockUntil l' = Some (now + 30 * 60 * 1000))) \<and>
         fst R =
           Inr (if blocks
                then \<lparr>isValid = False, reasons = [UserBlockedNow (counted + highCount flags) 30],
                      location = None, distance = None, warnings = [],
                      suspiciousFlags = flags, fraudRisk = BLOCKED\<rparr>
                else \<lparr>isValid = False,
                      reasons =
                        LocationTooOld (round (real_of_int (now - t * 1000) / (1000 * 60))) #
                        (if 2 \<le> highCount flags then [FraudRejected] else []),
                      location = None, distance = None,
                      warnings = (if flags = [] then [] else [SuspiciousSignals (length flags)]),
                      suspiciousFlags = flags,
                      fraudRisk = (if 2 \<le> highCount flags then RISK_HIGH
                                   else if 1 \<le> highCount flags \<or> 2 \<le> mediumCount flags
                                     then RISK_MEDIUM
                                   else RISK_LOW)\<rparr>)"
proof -
  note b = basic_stale [OF assms(1-5), of phone]
  note a = advanced_analysis [OF assms(6) assms(1,2) refl refl b, of toStr]
  from history_appended [of now "userLocationHistory st" phone "num (latitude ld)"
      "num (longitude ld)" "timestamp ld"] assms(3,4)
  have h: "\<exists>h. snd (analyzeLocationHistory now (userLocationHistory st) phone
                  (num (latitude ld)) (num (longitude ld)) (timestamp ld)) phone = Some h \<and>
              h \<noteq> [] \<and>
              last h = \<lparr>h_lat = num (latitude ld), h_lng = num (longitude ld), h_timestamp = t\<rparr>"
    by (simp add: truthy_def num_def)
  show ?thesis
    unfolding Let_def
  proof (intro conjI)
    show "userLocationHistory (snd (validateGPSLocationAdvanced toStr now st ld phone)) =
           snd (analyzeLocationHistory now (userLocationHistory st) phone
                  (num (latitude ld)) (num (longitude ld)) (timestamp ld))"
      by (rule a(1))
    show "\<exists>h. userLocationHistory (snd (validateGPSLocationAdvanced toStr now st ld phone)) phone
               = Some h \<and> h \<noteq> [] \<and>
              last h = \<lparr>h_lat = num (latitude ld), h_lng = num (longitude ld), h_timestamp = t\<rparr>"
      using h by (simp add: a(1))
    show "\<exists>l'. suspiciousActivityLog (snd (validateGPSLocationAdvanced toStr now st ld phone)) =
                (suspiciousActivityLog st)(phone \<mapsto> l') \<and>
               log_warnings l' =
                 countedWarnings (suspiciousActivityLog st) phone +
                 (if 2 \<le> highCount (analyzerFlags toStr now st ld phone)
                  then highCount (analyzerFlags toStr now st ld phone) else 0) \<and>
               isBlocked l' =
                 (2 \<le> highCount (analyzerFlags toStr now st ld phone) \<and>
                  5 \<le> countedWarnings (suspiciousActivityLog st) phone +
                       highCount (analyzerFlags toStr now st ld phone)) \<and>
               (2 \<le> highCount (analyzerFlags toStr now st ld phone) \<and>
                5 \<le> countedWarnings (suspiciousActivityLog st) phone +
                     highCount (analyzerFlags toStr now st ld phone) \<longrightarrow>
                blockUntil l' = Some (now + 30 * 60 * 1000))"
      using a(2) by auto
    show "fst (validateGPSLocationAdvanced toStr now st ld phone) =
           Inr (if 2 \<le> highCount (analyzerFlags toStr now st ld phone) \<and>
                   5 \<le> countedWarnings (suspiciousActivityLog st) phone +
                        highCount (analyzerFlags toStr now st ld phone)
                then \<lparr>isValid = False,
                      reasons = [UserBlockedNow (countedWarnings (suspiciousActivityLog st) phone +
                                   highCount (analyzerFlags toStr now st ld phone)) 30],
                      location = None, distance = None, warnings = [],
                      suspiciousFlags = analyzerFlags toStr now st ld phone, fraudRisk = BLOCKED\<rparr>
                else \<lparr>isValid = False,
                      reasons =
                        LocationTooOld (round (real_of_int (now - t * 1000) / (1000 * 60))) #
                        (if 2 \<le> highCount (analyzerFlags toStr now st ld phone)
                         then [FraudRejected] else []),
                      location = None, distance = None,
                      warnings = (if analyzerFlags toStr now st ld phone = [] then []
                                  else [SuspiciousSignals (length (analyzerFlags toStr now st ld phone))]),
                      suspiciousFlags = analyzerFlags toStr now st ld phone,
                      fraudRisk = (if 2 \<le> highCount (analyzerFlags toStr now st ld phone) then RISK_HIGH
                                   else if 1 \<le> highCount (analyzerFlags toStr now st ld phone) \<or>
                                           2 \<le> mediumCount (analyzerFlags toStr now st ld phone)
                                     then RISK_MEDIUM
                                   else RISK_LOW)\<rparr>)"
      by (simp add: a(3))
  qed
qed

theorem stale_reading_after_fraud_analysis_witness:
  "fst (validateGPSLocationAdvanced sampleToString 1700000180000 sampleWarnedRepeatedState
         sampleStaleRepeatedReading sampleUser) =
     Inr \<lparr>isValid = False, reasons = [UserBlockedNow 5 30], location = None,
          distance = None, warnings = [],
          suspiciousFlags = [\<lparr>ftype = PERFECT_COORDINATES, severity = HIGH\<rparr>,
                             \<lparr>ftype = IDENTICAL_LOCATIONS, severity = HIGH\<rparr>,
                             \<lparr>ftype = LOW_GPS_VARIATION, severity = MEDIUM\<rparr>],
          fraudRisk = BLOCKED\<rparr> \<and>
   (\<exists>l'. suspiciousActivityLog
           (snd (validateGPSLocationAdvanced sampleToString 1700000180000 sampleWarnedRepeatedState
                  sampleStaleRepeatedReading sampleUser)) =
           (suspiciousActivityLog sampleWarnedRepeatedState)(sampleUser \<mapsto> l') \<and>
         log_warnings l' = 5 \<and> isBlocked l' \<and> blockUntil l' = Some 1700001980000) \<and>
   fst (validateGPSLocationAdvanced sampleToString 1700000180000 emptyFraudState
         sampleStaleReading sampleUser) =
     Inr \<lparr>isValid = False, reasons = [LocationTooOld 3], location = None, distance = None,
          warnings = [SuspiciousSignals 2],
          suspiciousFlags = [\<lparr>ftype = SUSPICIOUS_ACCURACY, severity = MEDIUM\<rparr>,
                             \<lparr>ftype = ABNORMAL_ACCURACY, severity = LOW\<rparr>],
          fraudRisk = RISK_LOW\<rparr> \<and>
   (\<exists>l'. suspiciousActivityLog
           (snd (validateGPSLocationAdvanced sampleToString 1700000180000 emptyFraudState
                  sampleStaleReading sampleUser)) =
           (suspiciousActivityLog emptyFraudState)(sampleUser \<mapsto> l') \<and>
         log_warnings l' = 0 \<and> \<not> isBlocked l') \<and>
   (\<exists>h. userLocationHistory
          (snd (validateGPSLocationAdvanced sampleToString 1700000180000 emptyFraudState
                 sampleStaleReading sampleUser)) sampleUser = Some h \<and> h \<noteq> [] \<and>
        last h = \<lparr>h_lat = sampleLat, h_lng = sampleLng, h_timestamp = 1700000000\<rparr>)"
proof -
  note t1 = stale_reading_after_fraud_analysis [OF sample_repeated_reading(1,2,3)
      sample_stale_age(1,2) sample_not_blocked(4), of sampleToString, unfolded Let_def]
  note t2 = stale_reading_after_fraud_analysis [OF sample_stale_reading(1,2,3)
      sample_stale_age(1,2) sample_not_blocked(1), of sampleToString, unfolded Let_def]
  from t1 have 1: "fst (validateGPSLocationAdvanced sampleToString 1700000180000 sampleWarnedRepeatedState
         sampleStaleRepeatedReading sampleUser) =
     Inr \<lparr>isValid = False, reasons = [UserBlockedNow 5 30], location = None,
          distance = None, warnings = [],
          suspiciousFlags = [\<lparr>ftype = PERFECT_COORDINATES, severity = HIGH\<rparr>,
                             \<lparr>ftype = IDENTICAL_LOCATIONS, severity = HIGH\<rparr>,
                             \<lparr>ftype = LOW_GPS_VARIATION, severity = MEDIUM\<rparr>],
          fraudRisk = BLOCKED\<rparr>"
    by (simp add: sample_repeated_flags sample_counts sample_counted)
  from t1 have 2: "\<exists>l'. suspiciousActivityLog
           (snd (validateGPSLocationAdvanced sampleToString 1700000180000 sampleWarnedRepeatedState
                  sampleStaleRepeatedReading sampleUser)) =
           (suspiciousActivityLog sampleWarnedRepeatedState)(sampleUser \<mapsto> l') \<and>
         log_warnings l' = 5 \<and> isBlocked l' \<and> blockUntil l' = Some 1700001980000"
    by (simp add: sample_repeated_flags sample_counts sample_counted)
  from t2 have 3: "fst (validateGPSLocationAdvanced sampleToString 1700000180000 emptyFraudState
         sampleStaleReading sampleUser) =
     Inr \<lparr>isValid = False, reasons = [LocationTooOld 3], location = None, distance = None,
          warnings = [SuspiciousSignals 2],
          suspiciousFlags = [\<lparr>ftype = SUSPICIOUS_ACCURACY, severity = MEDIUM\<rparr>,
                             \<lparr>ftype = ABNORMAL_ACCURACY, severity = LOW\<rparr>],
          fraudRisk = RISK_LOW\<rparr>"
    by (simp add: sample_stale_flags sample_counts sample_counted)
  from t2 have 4: "\<exists>l'. suspiciousActivityLog
           (snd (validateGPSLocationAdvanced sampleToString 1700000180000 emptyFraudState
                  sampleStaleReading sampleUser)) =
           (suspiciousActivityLog emptyFraudState)(sampleUser \<mapsto> l') \<and>
         log_warnings l' = 0 \<and> \<not> isBlocked l'"
    by (simp add: sample_stale_flags sample_counts sample_counted)
  from t2 [THEN conjunct2, THEN conjunct1] have 5: "\<exists>h. userLocationHistory
          (snd (validateGPSLocationAdvanced sampleToString 1700000180000 emptyFraudState
                 sampleStaleReading sampleUser)) sampleUser = Some h \<and> h \<noteq> [] \<and>
        last h = \<lparr>h_lat = sampleLat, h_lng = sampleLng, h_timestamp = 1700000000\<rparr>"
    by (simp add: sample_stale_reading)
  from 1 2 3 4 5 show ?thesis by (intro conjI)
qed

text \<open>
  The claim as worded fails on a reading three minutes old, taken at the point of the
  user's last three readings: three flags are produced, the history grows by the reading,
  and the user's warnings go from 0 to 2.
\<close>

theorem stale_reading_after_fraud_analysis_counterexample:
  "fst (validateGPSLocationAdvanced sampleToString 1700000180000 sampleRepeatedState
         sampleStaleRepeatedReading sampleUser) =
     Inr \<lparr>isValid = False, reasons = [LocationTooOld 3, FraudRejected], location = None,
          distance = None, warnings = [SuspiciousSignals 3],
          suspiciousFlags = [\<lparr>ftype = PERFECT_COORDINATES, severity = HIGH\<rparr>,
                             \<lparr>ftype = IDENTICAL_LOCATIONS, severity = HIGH\<rparr>,
                             \<lparr>ftype = LOW_GPS_VARIATION, severity = MEDIUM\<rparr>],
          fraudRisk = RISK_HIGH\<rparr> \<and>
   userLocationHistory sampleRepeatedState sampleUser =
     Some [sampleRepeatedEntry, sampleRepeatedEntry, sampleRepeatedEntry] \<and>
   userLocationHistory
     (snd (validateGPSLocationAdvanced sampleToString 1700000180000 sampleRepeatedState
            sampleStaleRepeatedReading sampleUser)) sampleUser =
     Some [sampleRepeatedEntry, sampleRepeatedEntry, sampleRepeatedEntry,
           \<lparr>h_lat = sampleLatZeros, h_lng = sampleLng, h_timestamp = 1700000000\<rparr>] \<and>
   log_warnings (userLogOf (suspiciousActivityLog sampleRepeatedState) sampleUser) = 0 \<and>
   log_warnings (userLogOf (suspiciousActivityLog
     (snd (validateGPSLocationAdvanced sampleToString 1700000180000 sampleRepeatedState
            sampleStaleRepeatedReading sampleUser))) sampleUser) = 2"
  by (simp add: sample_repeated_evaluation)
     (simp add: sampleRepeatedState_def userLogOf_def newUserLog_def)

text \<open>
  Claim C5, as the code has it. The advanced validation always returns a result. For a user
  under a running block it ends BLOCKED, with no flag. Otherwise its flags are those of
  the three analyzers (none when a coordinate is missing), and it ends BLOCKED exactly
  when at least 2 of them are of HIGH severity and their number brings the user's
  warnings to the limit of 5. Whenever it does not end BLOCKED, its fraud risk is HIGH
  when its flags hold at least 2 of HIGH severity, otherwise MEDIUM when they hold at
  least 1 of HIGH or at least 2 of MEDIUM severity, otherwise LOW.
\<close>

theorem fraudRisk_from_flags:
  "\<exists>r. fst (validateGPSLocationAdvanced toStr now st ld phone) = Inr r \<and>
     (activelyBlocked now (suspiciousActivityLog st) phone \<longrightarrow>
        fraudRisk r = BLOCKED \<and> suspiciousFlags r = []) \<and>
     (\<not> activelyBlocked now (suspiciousActivityLog st) phone \<longrightarrow>
        suspiciousFlags r =
          (if truthy (latitude ld) \<and> truthy (longitude ld)
           then analyzerFlags toStr now st ld phone else []) \<and>
        (fraudRisk r = BLOCKED \<longleftrightarrow>
           2 \<le> highCount (suspiciousFlags r) \<and>
           5 \<le> countedWarnings (suspiciousActivityLog st) phone + highCount (suspiciousFlags r))) \<and>
     (fraudRisk r \<noteq> BLOCKED \<longrightarrow>
        fraudRisk r =
          (if 2 \<le> highCount (suspiciousFlags r) then RISK_HIGH
           else if 1 \<le> highCount (suspiciousFlags r) \<or> 2 \<le> mediumCount (suspiciousFlags r)
             then RISK_MEDIUM
           else RISK_LOW))"
proof (cases "activelyBlocked now (suspiciousActivityLog st) phone")
  case True
  from advanced_blocked [OF probe_blocked [OF True]] True
  show ?thesis by simp
next
  case False
  show ?thesis
  proof (cases "\<not> truthy (latitude ld) \<or> \<not> truthy (longitude ld)")
    case True
    from probe_log [OF False] obtain logs1 where
      p: "manageSuspiciousUser now (suspiciousActivityLog st) phone [] =
            (NotBlocked (countedWarnings (suspiciousActivityLog st) phone), logs1)"
      by blast
    from advanced_missing [OF p True] False True
    show ?thesis by (auto simp: highCount_def mediumCount_def)
  next
    case coords: False
    obtain b where b: "validateGPSLocation now ld phone = Inr b"
      using validateGPSLocation_total by blast
    from coords have c: "truthy (latitude ld)" "truthy (longitude ld)" by simp_all
    note a = advanced_analysis(3) [OF False c refl refl b, of toStr]
    show ?thesis
      using False c by (simp add: a)
  qed
qed

theorem fraudRisk_from_flags_witness:
  "(\<exists>r. fst (validateGPSLocationAdvanced sampleToString 60000 sampleWarnedState sampleZerosReading
              sampleUser) = Inr r \<and> fraudRisk r = BLOCKED \<and>
        suspiciousFlags r = [\<lparr>ftype = PERFECT_COORDINATES, severity = HIGH\<rparr>,
                             \<lparr>ftype = MISSING_TIMESTAMP, severity = HIGH\<rparr>]) \<and>
   (\<exists>r. fst (validateGPSLocationAdvanced sampleToString 60000 sampleBlockedState sampleZerosReading
              sampleUser) = Inr r \<and> fraudRisk r = BLOCKED \<and> suspiciousFlags r = []) \<and>
   (\<exists>r. fst (validateGPSLocationAdvanced sampleToString 1700000180000 sampleRepeatedState
              sampleStaleRepeatedReading sampleUser) = Inr r \<and> fraudRisk r = RISK_HIGH \<and>
        suspiciousFlags r = [\<lparr>ftype = PERFECT_COORDINATES, severity = HIGH\<rparr>,
                             \<lparr>ftype = IDENTICAL_LOCATIONS, severity = HIGH\<rparr>,
                             \<lparr>ftype = LOW_GPS_VARIATION, severity = MEDIUM\<rparr>]) \<and>
   (\<exists>r. fst (validateGPSLocationAdvanced sampleToString 1700000180000 emptyFraudState
              sampleStaleRepeatedReading sampleUser) = Inr r \<and> fraudRisk r = RISK_MEDIUM \<and>
        suspiciousFlags r = [\<lparr>ftype = PERFECT_COORDINATES, severity = HIGH\<rparr>]) \<and>
   (\<exists>r. fst (validateGPSLocationAdvanced sampleToString 1700000180000 emptyFraudState
              sampleStaleReading sampleUser) = Inr r \<and> fraudRisk r = RISK_LOW \<and>
        suspiciousFlags r = [\<lparr>ftype = SUSPICIOUS_ACCURACY, severity = MEDIUM\<rparr>,
                             \<lparr>ftype = ABNORMAL_ACCURACY, severity = LOW\<rparr>])"
proof -
  from fraudRisk_from_flags [of sampleToString 60000 sampleWarnedState sampleZerosReading sampleUser]
  have 1: "\<exists>r. fst (validateGPSLocationAdvanced sampleToString 60000 sampleWarnedState sampleZerosReading
              sampleUser) = Inr r \<and> fraudRisk r = BLOCKED \<and>
        suspiciousFlags r = [\<lparr>ftype = PERFECT_COORDINATES, severity = HIGH\<rparr>,
                             \<lparr>ftype = MISSING_TIMESTAMP, severity = HIGH\<rparr>]"
    by (auto simp: sample_not_blocked sample_zeros_reading sample_zeros_flags sample_counts
          sample_counted)
  from fraudRisk_from_flags [of sampleToString 60000 sampleBlockedState sampleZerosReading sampleUser]
    sampleBlocked_active
  have 2: "\<exists>r. fst (validateGPSLocationAdvanced sampleToString 60000 sampleBlockedState sampleZerosReading
              sampleUser) = Inr r \<and> fraudRisk r = BLOCKED \<and> suspiciousFlags r = []"
    by auto
  from fraudRisk_from_flags [of sampleToString 1700000180000 sampleRepeatedState
      sampleStaleRepeatedReading sampleUser]
  have 3: "\<exists>r. fst (validateGPSLocationAdvanced sampleToString 1700000180000 sampleRepeatedState
              sampleStaleRepeatedReading sampleUser) = Inr r \<and> fraudRisk r = RISK_HIGH \<and>
        suspiciousFlags r = [\<lparr>ftype = PERFECT_COORDINATES, severity = HIGH\<rparr>,
                             \<lparr>ftype = IDENTICAL_LOCATIONS, severity = HIGH\<rparr>,
                             \<lparr>ftype = LOW_GPS_VARIATION, severity = MEDIUM\<rparr>]"
    by (auto simp: sample_not_blocked sample_repeated_reading sample_repeated_flags sample_counts
          sample_counted)
  from fraudRisk_from_flags [of sampleToString 1700000180000 emptyFraudState
      sampleStaleRepeatedReading sampleUser]
  have 4: "\<exists>r. fst (validateGPSLocationAdvanced sampleToString 1700000180000 emptyFraudState
              sampleStaleRepeatedReading sampleUser) = Inr r \<and> fraudRisk r = RISK_MEDIUM \<and>
        suspiciousFlags r = [\<lparr>ftype = PERFECT_COORDINATES, severity = HIGH\<rparr>]"
    by (auto simp: sample_not_blocked sample_repeated_reading sample_single_flags
          sample_single_counts sample_counted)
  from fraudRisk_from_flags [of sampleToString 1700000180000 emptyFraudState
      sampleStaleReading sampleUser]
  have 5: "\<exists>r. fst (validateGPSLocationAdvanced sampleToString 1700000180000 emptyFraudState
              sampleStaleReading sampleUser) = Inr r \<and> fraudRisk r = RISK_LOW \<and>
        suspiciousFlags r = [\<lparr>ftype = SUSPICIOUS_ACCURACY, severity = MEDIUM\<rparr>,
                             \<lparr>ftype = ABNORMAL_ACCURACY, severity = LOW\<rparr>]"
    by (auto simp: sample_not_blocked sample_stale_reading sample_stale_flags sample_counts
          sample_counted)
  from 1 2 3 4 5 show ?thesis by (intro conjI)
qed

text \<open>
  The claim as worded fails for a user with three warnings: two HIGH flags, and the risk
  reported is BLOCKED.
\<close>

theorem fraudRisk_from_flags_counterexample:
  "fst (validateGPSLocationAdvanced sampleToString 60000 sampleWarnedState sampleZerosReading
         sampleUser) =
     Inr \<lparr>isValid = False, reasons = [UserBlockedNow 5 30], location = None, distance = None,
          warnings = [],
          suspiciousFlags = [\<lparr>ftype = PERFECT_COORDINATES, severity = HIGH\<rparr>,
                             \<lparr>ftype = MISSING_TIMESTAMP, severity = HIGH\<rparr>],
          fraudRisk = BLOCKED\<rparr>"
  by (rule sample_warned_evaluation)

section \<open>The state control and the message handler\<close>

lemma extract_sampleUser: "extractPhoneNumber sampleUser = ''5491123456789''"
  by (simp add: extractPhoneNumber_def sampleUser_def)

lemma store_never_read:
  "getLastAttendanceRecord db phone date = None"
  "getTodayAttendanceRecords now db phone = []"
  by (simp_all add: getLastAttendanceRecord_def getTodayAttendanceRecords_def
        connectToDatabase_def)

lemma getOrCreate_no_pending:
  assumes "noSessionPending sessions"
  shows "pendingAction (fst (getOrCreateEmployeeSession now sessions wid)) = None"
    and "noSessionPending (snd (getOrCreateEmployeeSession now sessions wid))"
  using assms
  by (auto simp: getOrCreateEmployeeSession_def noSessionPending_def Let_def split: option.splits)

lemma getEmployeeCurrentState_no_pending:
  assumes "noSessionPending sessions"
  shows "st_pendingAction (fst (getEmployeeCurrentState now db sessions states wid True)) = None"
    and "noSessionPending (fst (snd (getEmployeeCurrentState now db sessions states wid True)))"
proof -
  obtain s ss where g: "getOrCreateEmployeeSession now sessions wid = (s, ss)"
    by (cases "getOrCreateEmployeeSession now sessions wid") auto
  from getOrCreate_no_pending [OF assms, of now wid] g
  have p: "pendingAction s = None" "noSessionPending ss" by simp_all
  show "st_pendingAction (fst (getEmployeeCurrentState now db sessions states wid True)) = None"
    using g p(1)
    by (auto simp: getEmployeeCurrentState_def Let_def split: option.splits action.splits)
  show "noSessionPending (fst (snd (getEmployeeCurrentState now db sessions states wid True)))"
    using g p
    by (auto simp: getEmployeeCurrentState_def Let_def noSessionPending_def
          split: option.splits action.splits)
qed

lemma decideAction_no_conflict:
  "decideAction st act = Inr (allowed, why) \<Longrightarrow> why \<noteq> PendingConflict p"
  by (auto simp: decideAction_def split: action.splits if_splits option.splits)

lemma validateAttendanceAction_no_pending:
  assumes "noSessionPending sessions"
  shows "noSessionPending (fst (snd (validateAttendanceAction now db sessions states wid act)))"
    and "fst (validateAttendanceAction now db sessions states wid act) = Inr v \<Longrightarrow>
           reason v \<noteq> PendingConflict p \<and>
           employeeState v = fst (getEmployeeCurrentState now db sessions states wid True)"
proof -
  obtain st ss cs where g: "getEmployeeCurrentState now db sessions states wid True = (st, ss, cs)"
    by (cases "getEmployeeCurrentState now db sessions states wid True") auto
  from getEmployeeCurrentState_no_pending [OF assms, of now db states wid] g
  have p: "st_pendingAction st = None" "noSessionPending ss" by simp_all
  show "noSessionPending (fst (snd (validateAttendanceAction now db sessions states wid act)))"
    using g p
    by (auto simp: validateAttendanceAction_def Let_def split: sum.splits prod.splits)
  show "fst (validateAttendanceAction now db sessions states wid act) = Inr v \<Longrightarrow>
           reason v \<noteq> PendingConflict p \<and>
           employeeState v = fst (getEmployeeCurrentState now db sessions states wid True)"
    using g p decideAction_no_conflict [of st act]
    by (auto simp: validateAttendanceAction_def Let_def split: sum.splits prod.splits)
qed

lemma handleAction_no_pending:
  assumes "noSessionPending (employeeSessions st)"
  shows "noSessionPending (employeeSessions (snd (handleAction now dbUp st sender act)))"
proof -
  let ?db = "if dbUp then Some (attendance_records st) else None"
  obtain av ss cs where v: "validateAttendanceAction now ?db (employeeSessions st)
      (employeeStates st) sender act = (av, ss, cs)"
    by (cases "validateAttendanceAction now ?db (employeeSessions st)
      (employeeStates st) sender act") auto
  from validateAttendanceAction_no_pending(1) [OF assms, of now ?db "employeeStates st" sender act] v
  have "noSessionPending ss" by simp
  with v show ?thesis
    by (auto simp: handleAction_def Let_def split: sum.splits)
qed

lemma handleAction_pending_request:
  assumes "handleAction now dbUp st sender act = (Inr (StateValidationMessage act' v), st')"
    and "isAllowed v"
  shows "pendingAttendanceRequests st' sender = Some act"
  using assms
  by (auto simp: handleAction_def Let_def split: sum.splits prod.splits if_splits)

lemma handleMessage_no_pending:
  assumes "noSessionPending (employeeSessions st)"
  shows "noSessionPending (employeeSessions (snd (handleMessage toStr now dbUp st message)))"
proof (cases "msg_location message")
  case (Some loc)
  then show ?thesis
    using assms
    by (auto simp: handleMessage_def Let_def split: option.splits sum.splits prod.splits)
next
  case None
  let ?db = "if dbUp then Some (attendance_records st) else None"
  have r: "noSessionPending (fst (snd (generateEmployeeStatusReport now ?db (employeeSessions st)
                      (employeeStates st) (msg_from message))))"
    using getEmployeeCurrentState_no_pending(2) [OF assms, of now ?db "employeeStates st" "msg_from message"]
    by (auto simp: generateEmployeeStatusReport_def Let_def split: prod.splits)
  show ?thesis
    using None assms r handleAction_no_pending [OF assms, of now dbUp "msg_from message"]
    by (auto simp: handleMessage_def Let_def split: option.splits prod.splits)
qed

lemma step_no_pending:
  "noSessionPending (employeeSessions st) \<Longrightarrow> noSessionPending (employeeSessions (step toStr st ev))"
  by (cases ev) (simp_all add: handleMessage_no_pending)

lemma run_no_pending:
  "noSessionPending (employeeSessions st) \<Longrightarrow>
   noSessionPending (employeeSessions (run toStr st events))"
  unfolding run_def
  by (induction events arbitrary: st) (simp_all add: step_no_pending)

lemma initial_no_pending: "noSessionPending (employeeSessions initialState)"
  by (simp add: initialState_def noSessionPending_def)

lemma canEnter_canExit_fresh:
  "canEnter (fst (getEmployeeCurrentState now db sessions states wid True)) =
     (currentStatus (fst (getEmployeeCurrentState now db sessions states wid True)) = OUT \<and>
      todayEntries (fst (getEmployeeCurrentState now db sessions states wid True)) < MAX_ENTRIES_PER_DAY \<and>
      isWorkingHours (fst (getEmployeeCurrentState now db sessions states wid True)) \<and>
      st_pendingAction (fst (getEmployeeCurrentState now db sessions states wid True)) = None)"
  "canExit (fst (getEmployeeCurrentState now db sessions states wid True)) =
     (currentStatus (fst (getEmployeeCurrentState now db sessions states wid True)) = IN \<and>
      st_pendingAction (fst (getEmployeeCurrentState now db sessions states wid True)) = None)"
  by (auto simp: getEmployeeCurrentState_def Let_def
        split: prod.splits option.splits if_splits action.splits)

lemma handleMessage_validation_reply:
  assumes "handleMessage toStr now dbUp st message = (Inr (StateValidationMessage act v), st')"
  shows "handleAction now dbUp st (msg_from message) act = (Inr (StateValidationMessage act v), st')"
proof -
  have a: "\<And>a w s. handleAction now dbUp st (msg_from message) a = (Inr (StateValidationMessage act w), s)
      \<Longrightarrow> a = act"
    by (auto simp: handleAction_def Let_def split: sum.splits prod.splits if_splits)
  from assms show ?thesis
    by (auto simp: handleMessage_def Let_def split: option.splits sum.splits prod.splits if_splits
          dest: a)
qed

lemma sample_entrada_allowed:
  "\<exists>v S'. handleMessage toStr 32400000 True initialState sampleEntradaMessage =
            (Inr (StateValidationMessage Entrada v), S') \<and> isAllowed v \<and>
          (\<exists>s. employeeSessions S' ''5491123456789'' = Some s)"
  by (simp add: handleMessage_def handleAction_def validateAttendanceAction_def
        getEmployeeCurrentState_def getOrCreateEmployeeSession_def decideAction_def
        initialState_def sampleEntradaMessage_def extract_sampleUser store_never_read
        getHours_def WORK_DAY_START_def WORK_DAY_END_def
        MAX_ENTRIES_PER_DAY_def Let_def)

lemma no_rows_salida:
  assumes "noSessionPending sessions"
  shows "\<exists>v. fst (validateAttendanceAction now None sessions states wid Salida) = Inr v \<and>
             reason v = NoEntryYet"
proof -
  obtain s ss where g: "getOrCreateEmployeeSession now sessions wid = (s, ss)"
    by (cases "getOrCreateEmployeeSession now sessions wid") auto
  from getOrCreate_no_pending [OF assms, of now wid] g
  have "pendingAction s = None" by simp
  with g show ?thesis
    by (auto simp: validateAttendanceAction_def getEmployeeCurrentState_def decideAction_def
          store_never_read Let_def
          split: option.splits)
qed

lemma decideAction_cong:
  assumes "isWorkingHours a = isWorkingHours b" "currentStatus a = currentStatus b"
    "lastActionTime a = lastActionTime b" "todayEntries a = todayEntries b"
    "todayExits a = todayExits b"
    "list_ex mentionsMinTime (st_warnings a) = list_ex mentionsMinTime (st_warnings b)"
    "workingHours a = workingHours b"
  shows "decideAction a act = decideAction b act"
  unfolding decideAction_def by (simp only: assms)

lemma validate_fst:
  "fst (validateAttendanceAction now db sessions states wid act) =
     (let st = fst (getEmployeeCurrentState now db sessions states wid True);
          decided = (case decideAction st act of
                       Inl e \<Rightarrow> Inl e
                     | Inr (allowed, why) \<Rightarrow>
                         Inr \<lparr>isAllowed = allowed, reason = why, employeeState = st\<rparr>)
      in case st_pendingAction st of
           Some pending \<Rightarrow>
             if pending \<noteq> act
             then Inr \<lparr>isAllowed = False, reason = PendingConflict pending, employeeState = st\<rparr>
             else decided
         | None \<Rightarrow> decided)"
  by (auto simp: validateAttendanceAction_def Let_def split: prod.splits option.splits sum.splits)

lemma pending_state:
  assumes "sessions (extractPhoneNumber wid) = Some s" "pendingAction s = Some pending"
    "pendingActionTime s = Some t" "t \<noteq> 0" "real_of_int (now - t) / (1000 * 60) < 10"
  shows "st_pendingAction (fst (getEmployeeCurrentState now db sessions states wid True)) = Some pending"
  using assms
  by (auto simp: getEmployeeCurrentState_def getOrCreateEmployeeSession_def Let_def
        split: option.splits action.splits)

lemma pending_projections:
  assumes "sessions (extractPhoneNumber wid) = Some s" "pendingAction s = Some pending"
    "pendingActionTime s = Some t" "t \<noteq> 0" "real_of_int (now - t) / (1000 * 60) < 10"
    and "A = fst (getEmployeeCurrentState now db sessions states wid True)"
    and "B = fst (getEmployeeCurrentState now db
                   (sessions(extractPhoneNumber wid \<mapsto>
                      s\<lparr>pendingAction := None, pendingActionTime := None\<rparr>)) states wid True)"
  shows "isWorkingHours A = isWorkingHours B" "currentStatus A = currentStatus B"
    "lastActionTime A = lastActionTime B" "todayEntries A = todayEntries B"
    "todayExits A = todayExits B"
    "list_ex mentionsMinTime (st_warnings A) = list_ex mentionsMinTime (st_warnings B)"
    "workingHours A = workingHours B"
    "st_pendingAction B = None"
proof -
  have "isWorkingHours A = isWorkingHours B \<and> currentStatus A = currentStatus B \<and>
    lastActionTime A = lastActionTime B \<and> todayEntries A = todayEntries B \<and>
    todayExits A = todayExits B \<and>
    list_ex mentionsMinTime (st_warnings A) = list_ex mentionsMinTime (st_warnings B) \<and>
    workingHours A = workingHours B \<and>
    st_pendingAction B = None"
    using assms
    by (simp add: getEmployeeCurrentState_def getOrCreateEmployeeSession_def Let_def
        split: option.splits action.splits)
  then show "isWorkingHours A = isWorkingHours B" "currentStatus A = currentStatus B"
    "lastActionTime A = lastActionTime B" "todayEntries A = todayEntries B"
    "todayExits A = todayExits B"
    "list_ex mentionsMinTime (st_warnings A) = list_ex mentionsMinTime (st_warnings B)"
    "workingHours A = workingHours B"
    "st_pendingAction B = None"
    by simp_all
qed

lemma samplePendingSessions_eq:
  "samplePendingSessions = [''5491123456789'' \<mapsto> samplePendingSession]"
  by (simp add: samplePendingSessions_def setPendingAction_def getOrCreateEmployeeSession_def
        extract_sampleUser samplePendingSession_def Let_def)

lemma pending_state_origin:
  assumes "st_pendingAction (fst (getEmployeeCurrentState now db sessions states wid True)) =
             Some pending"
  shows "\<exists>s t. sessions (extractPhoneNumber wid) = Some s \<and> pendingAction s = Some pending \<and>
           pendingActionTime s = Some t \<and> t \<noteq> 0 \<and> real_of_int (now - t) / (1000 * 60) < 10"
proof (cases "sessions (extractPhoneNumber wid)")
  case None
  with assms show ?thesis
    by (simp add: getEmployeeCurrentState_def getOrCreateEmployeeSession_def Let_def
          split: option.splits action.splits if_splits)
next
  case (Some s)
  with assms show ?thesis
    by (cases "pendingAction s"; cases "pendingActionTime s")
       (simp_all add: getEmployeeCurrentState_def getOrCreateEmployeeSession_def Let_def
          split: option.splits action.splits if_splits)
qed

lemma state_without_store:
  "currentStatus (fst (getEmployeeCurrentState now db sessions states wid True)) = OUT"
  "lastAction (fst (getEmployeeCurrentState now db sessions states wid True)) = None"
  "lastActionTime (fst (getEmployeeCurrentState now db sessions states wid True)) = None"
  "todayEntries (fst (getEmployeeCurrentState now db sessions states wid True)) = 0"
  "todayExits (fst (getEmployeeCurrentState now db sessions states wid True)) = 0"
  "\<not> canExit (fst (getEmployeeCurrentState now db sessions states wid True))"
proof -
  have "currentStatus (fst (getEmployeeCurrentState now db sessions states wid True)) = OUT \<and>
    lastAction (fst (getEmployeeCurrentState now db sessions states wid True)) = None \<and>
    lastActionTime (fst (getEmployeeCurrentState now db sessions states wid True)) = None \<and>
    todayEntries (fst (getEmployeeCurrentState now db sessions states wid True)) = 0 \<and>
    todayExits (fst (getEmployeeCurrentState now db sessions states wid True)) = 0 \<and>
    \<not> canExit (fst (getEmployeeCurrentState now db sessions states wid True))"
    by (simp add: getEmployeeCurrentState_def store_never_read Let_def
          split: prod.splits option.splits)
  then show
    "currentStatus (fst (getEmployeeCurrentState now db sessions states wid True)) = OUT"
    "lastAction (fst (getEmployeeCurrentState now db sessions states wid True)) = None"
    "lastActionTime (fst (getEmployeeCurrentState now db sessions states wid True)) = None"
    "todayEntries (fst (getEmployeeCurrentState now db sessions states wid True)) = 0"
    "todayExits (fst (getEmployeeCurrentState now db sessions states wid True)) = 0"
    "\<not> canExit (fst (getEmployeeCurrentState now db sessions states wid True))"
    by simp_all
qed

lemma salida_without_store:
  assumes "noSessionPending sessions"
  shows "\<exists>v. fst (validateAttendanceAction now db sessions states wid Salida) = Inr v \<and>
             \<not> isAllowed v \<and> reason v = NoEntryYet \<and>
             employeeState v = fst (getEmployeeCurrentState now db sessions states wid True)"
  using getEmployeeCurrentState_no_pending(1) [OF assms, of now db states wid]
  by (simp add: validate_fst decideAction_def state_without_store Let_def)

lemma handleAction_reply:
  "fst (handleAction now dbUp st sender act) =
     map_sum id (StateValidationMessage act)
       (fst (validateAttendanceAction now (if dbUp then Some (attendance_records st) else None)
              (employeeSessions st) (employeeStates st) sender act))"
  by (simp add: handleAction_def Let_def split: prod.splits sum.splits)

lemma handleAction_keeps:
  "fraud (snd (handleAction now dbUp st sender act)) = fraud st"
  "attendance_records (snd (handleAction now dbUp st sender act)) = attendance_records st"
  by (simp_all add: handleAction_def Let_def split: prod.splits sum.splits)

lemma first_zone_distinct: "loc_lng (hd AUTHORIZED_LOCATIONS) \<noteq> loc_lat (hd AUTHORIZED_LOCATIONS)"
  by (simp add: AUTHORIZED_LOCATIONS_def)

lemma sample_centre_reading:
  "truthy (latitude sampleCentreReading)" "truthy (longitude sampleCentreReading)"
  "num (latitude sampleCentreReading) = loc_lat (hd AUTHORIZED_LOCATIONS)"
  "num (longitude sampleCentreReading) = loc_lng (hd AUTHORIZED_LOCATIONS)"
  "truthy (timestamp sampleCentreReading)" "num (timestamp sampleCentreReading) = 32460"
  "truthy (accuracy sampleCentreReading)" "num (accuracy sampleCentreReading) = 10"
  "latitude sampleCentreReading \<noteq> Undefined" "longitude sampleCentreReading \<noteq> Undefined"
  "accuracy sampleCentreReading \<noteq> Undefined"
  by (simp_all add: sampleCentreReading_def truthy_def num_def first_zone_nonzero)

lemma sample_centre_detect:
  "detectPerfectCoordinates sampleCentreToString
     (loc_lat (hd AUTHORIZED_LOCATIONS)) (loc_lng (hd AUTHORIZED_LOCATIONS)) =
     [\<lparr>ftype = EXCESSIVE_PRECISION, severity = MEDIUM\<rparr>]"
  by (simp add: detectPerfectCoordinates_def sampleCentreToString_def decimals_def endsWith_def
        SUSPICIOUS_PRECISION_DIGITS_def first_zone_distinct)

lemma sample_centre_flags:
  "analyzerFlags sampleCentreToString now (fraud initialState) sampleCentreReading sampleUser =
     [\<lparr>ftype = EXCESSIVE_PRECISION, severity = MEDIUM\<rparr>]"
  by (simp add: analyzerFlags_def sample_centre_reading sample_centre_detect initialState_def
        validateGPSMetadata_def analyzeLocationHistory_def
        SUSPICIOUS_ACCURACY_VALUES_def EXPECTED_ACCURACY_RANGE_def)

lemma sample_centre_basic:
  "validateGPSLocation 32460000 sampleCentreReading sampleUser =
     Inr \<lparr>isValid = True, reasons = [LocationAuthorized (hd AUTHORIZED_LOCATIONS) 0],
          location = Some (hd AUTHORIZED_LOCATIONS), distance = Some 0,
          warnings = [LocationRecent 0, AccuracyAdequate 10], closestLocation = None\<rparr>"
  by (simp add: validateGPSLocation_def sample_centre_reading isLocationAuthorized_first_zone
        isLocationTimestampValid_def MAX_AGE_MINUTES_def Let_def)
     (simp add: isLocationAccuracyValid_def sampleCentreReading_def truthy_def num_def
        MIN_ACCURACY_def isLocationAuthorized_first_zone)

lemma sample_centre_evaluation:
  "fst (validateGPSLocationAdvanced sampleCentreToString 32460000 (fraud initialState)
         sampleCentreReading sampleUser) =
     Inr \<lparr>isValid = True, reasons = [LocationAuthorized (hd AUTHORIZED_LOCATIONS) 0],
          location = Some (hd AUTHORIZED_LOCATIONS), distance = Some 0,
          warnings = [LocationRecent 0, AccuracyAdequate 10, SuspiciousSignals 1],
          suspiciousFlags = [\<lparr>ftype = EXCESSIVE_PRECISION, severity = MEDIUM\<rparr>],
          fraudRisk = RISK_LOW\<rparr>"
proof -
  have nb: "\<not> activelyBlocked 32460000 (suspiciousActivityLog (fraud initialState)) sampleUser"
    by (simp add: activelyBlocked_def initialState_def)
  note a = advanced_analysis(3) [OF nb sample_centre_reading(1,2) refl refl sample_centre_basic,
      of sampleCentreToString]
  show ?thesis
    by (simp add: a sample_centre_flags highCount_def mediumCount_def)
qed

lemma sample_centre_saved:
  "saveAttendanceRecord 32460000 True [] sampleUser Entrada sampleCentreReading
     \<lparr>isValid = True, reasons = [LocationAuthorized (hd AUTHORIZED_LOCATIONS) 0],
      location = Some (hd AUTHORIZED_LOCATIONS), distance = Some 0,
      warnings = [LocationRecent 0, AccuracyAdequate 10, SuspiciousSignals 1],
      suspiciousFlags = [\<lparr>ftype = EXCESSIVE_PRECISION, severity = MEDIUM\<rparr>],
      fraudRisk = RISK_LOW\<rparr> = [sampleValidEntrada]"
  by (simp add: saveAttendanceRecord_def sample_centre_reading sampleValidEntrada_def Let_def)
     (simp add: sampleCentreReading_def)

lemma sample_day_entrada:
  "pendingAttendanceRequests
     (snd (handleMessage toStr 32400000 True initialState sampleEntradaMessage)) sampleUser =
     Some Entrada"
  "fraud (snd (handleMessage toStr 32400000 True initialState sampleEntradaMessage)) =
     fraud initialState"
  "attendance_records (snd (handleMessage toStr 32400000 True initialState sampleEntradaMessage)) = []"
proof -
  have e: "handleMessage toStr 32400000 True initialState sampleEntradaMessage =
      handleAction 32400000 True initialState sampleUser Entrada"
    by (simp add: handleMessage_def sampleEntradaMessage_def)
  from sample_entrada_allowed [of toStr] obtain v S' where
    h: "handleMessage toStr 32400000 True initialState sampleEntradaMessage =
            (Inr (StateValidationMessage Entrada v), S')" "isAllowed v"
    by blast
  from handleAction_pending_request [OF h(1) [unfolded e] h(2)] h(1)
  show "pendingAttendanceRequests
     (snd (handleMessage toStr 32400000 True initialState sampleEntradaMessage)) sampleUser =
     Some Entrada"
    by simp
  show "fraud (snd (handleMessage toStr 32400000 True initialState sampleEntradaMessage)) =
     fraud initialState"
    by (simp add: e handleAction_keeps)
  show "attendance_records (snd (handleMessage toStr 32400000 True initialState sampleEntradaMessage)) = []"
    by (simp add: e handleAction_keeps) (simp add: initialState_def)
qed

lemma location_saved:
  assumes "pendingAttendanceRequests A sender = Some act"
    and "fst (validateGPSLocationAdvanced toStr now (fraud A) loc sender) = Inr r"
  shows "attendance_records
           (snd (handleMessage toStr now dbUp A
                  \<lparr>msg_from = sender, messageBody = body, msg_location = Some loc\<rparr>)) =
         saveAttendanceRecord now dbUp (attendance_records A) sender act loc r"
  using assms
  by (cases "validateGPSLocationAdvanced toStr now (fraud A) loc sender")
     (simp add: handleMessage_def Let_def)

lemma sample_day_location:
  "attendance_records
     (run sampleCentreToString initialState
        [Incoming 32400000 True sampleEntradaMessage,
         Incoming 32460000 True sampleLocationMessage]) = [sampleValidEntrada]"
proof -
  let ?A = "snd (handleMessage sampleCentreToString 32400000 True initialState sampleEntradaMessage)"
  have "attendance_records (snd (handleMessage sampleCentreToString 32460000 True ?A
          sampleLocationMessage)) =
        saveAttendanceRecord 32460000 True (attendance_records ?A) sampleUser Entrada
          sampleCentreReading
          \<lparr>isValid = True, reasons = [LocationAuthorized (hd AUTHORIZED_LOCATIONS) 0],
           location = Some (hd AUTHORIZED_LOCATIONS), distance = Some 0,
           warnings = [LocationRecent 0, AccuracyAdequate 10, SuspiciousSignals 1],
           suspiciousFlags = [\<lparr>ftype = EXCESSIVE_PRECISION, severity = MEDIUM\<rparr>],
           fraudRisk = RISK_LOW\<rparr>"
    unfolding sampleLocationMessage_def
    by (rule location_saved) (simp_all add: sample_day_entrada sample_centre_evaluation)
  with sample_centre_saved show ?thesis
    by (simp add: run_def sample_day_entrada)
qed

lemma sample_row_fields:
  "phone_number sampleValidEntrada = sampleUser" "action_type sampleValidEntrada = Entrada"
  "validation_status sampleValidEntrada = VALID" "rec_timestamp sampleValidEntrada = 32460000"
  by (simp_all add: sampleValidEntrada_def)

text \<open>
  Claim C2, on an input where the code departs from it. The state control never reads the
  record store: its module calls a function that it neither defines nor imports, each of
  its two queries catches the error, and \<open>getLastAttendanceRecord\<close> answers \<open>null\<close> and
  \<open>getTodayAttendanceRecords\<close> answers \<open>[]\<close>, whatever the store holds. So the state
  derived for any user is \<open>OUT\<close>, with no last action and no entry today. On the sample
  day the user's \<open>entrada\<close> is validated and stored as a VALID row, the only row of the
  store; the \<open>salida\<close> the user sends at 17:00 is denied: the user, who is in, is told that
  there is no entry to leave from.
\<close>

theorem currentStatus_without_store:
  "getLastAttendanceRecord db phone date = None \<and>
   getTodayAttendanceRecords now db phone = [] \<and>
   currentStatus (fst (getEmployeeCurrentState now db sessions states wid True)) = OUT \<and>
   lastAction (fst (getEmployeeCurrentState now db sessions states wid True)) = None \<and>
   todayEntries (fst (getEmployeeCurrentState now db sessions states wid True)) = 0 \<and>
   attendance_records
     (run sampleCentreToString initialState
        [Incoming 32400000 True sampleEntradaMessage,
         Incoming 32460000 True sampleLocationMessage]) = [sampleValidEntrada] \<and>
   phone_number sampleValidEntrada = sampleUser \<and>
   action_type sampleValidEntrada = Entrada \<and>
   validation_status sampleValidEntrada = VALID \<and>
   (\<exists>v. fst (handleMessage sampleCentreToString 61200000 True
                (run sampleCentreToString initialState
                   [Incoming 32400000 True sampleEntradaMessage,
                    Incoming 32460000 True sampleLocationMessage])
                sampleSalidaMessage) = Inr (StateValidationMessage Salida v) \<and>
        \<not> isAllowed v \<and> reason v = NoEntryYet \<and>
        currentStatus (employeeState v) = OUT \<and> lastAction (employeeState v) = None)"
proof -
  let ?S = "run sampleCentreToString initialState
              [Incoming 32400000 True sampleEntradaMessage,
               Incoming 32460000 True sampleLocationMessage]"
  have inv: "noSessionPending (employeeSessions ?S)"
    by (rule run_no_pending [OF initial_no_pending])
  have e: "handleMessage sampleCentreToString 61200000 True ?S sampleSalidaMessage =
      handleAction 61200000 True ?S sampleUser Salida"
    by (simp add: handleMessage_def sampleSalidaMessage_def)
  from salida_without_store [OF inv, of 61200000 "Some (attendance_records ?S)"
      "employeeStates ?S" sampleUser]
  obtain v where v: "fst (validateAttendanceAction 61200000 (Some (attendance_records ?S))
      (employeeSessions ?S) (employeeStates ?S) sampleUser Salida) = Inr v"
    "\<not> isAllowed v" "reason v = NoEntryYet"
    "employeeState v = fst (getEmployeeCurrentState 61200000 (Some (attendance_records ?S))
      (employeeSessions ?S) (employeeStates ?S) sampleUser True)"
    by blast
  have "fst (handleMessage sampleCentreToString 61200000 True ?S sampleSalidaMessage) =
      Inr (StateValidationMessage Salida v)"
    by (simp add: e handleAction_reply v(1))
  moreover have "currentStatus (employeeState v) = OUT" "lastAction (employeeState v) = None"
    by (simp_all only: v(4) state_without_store)
  ultimately have last: "\<exists>v. fst (handleMessage sampleCentreToString 61200000 True ?S
      sampleSalidaMessage) = Inr (StateValidationMessage Salida v) \<and>
        \<not> isAllowed v \<and> reason v = NoEntryYet \<and>
        currentStatus (employeeState v) = OUT \<and> lastAction (employeeState v) = None"
    using v(2,3) by blast
  show ?thesis
    using last
    by (simp only: store_never_read state_without_store sample_day_location sample_row_fields
          simp_thms)
qed

text \<open>
  Claim C8. For a user whose current state has a pending action, a request for the other
  action is denied with the pending-conflict reason; a request for the same action is
  not denied for conflict: it is allowed or denied, with the same reason, exactly as it
  would be with the pending action removed from the user's session.
\<close>

theorem pending_conflict_and_retry:
  assumes "st_pendingAction (fst (getEmployeeCurrentState now db sessions states wid True)) =
             Some pending"
  shows "(requested \<noteq> pending \<longrightarrow>
           (\<exists>v. fst (validateAttendanceAction now db sessions states wid requested) = Inr v \<and>
                \<not> isAllowed v \<and> reason v = PendingConflict pending)) \<and>
         (requested = pending \<longrightarrow>
           (\<exists>s. sessions (extractPhoneNumber wid) = Some s \<and> pendingAction s = Some pending \<and>
             map_sum id (\<lambda>v. (isAllowed v, reason v))
               (fst (validateAttendanceAction now db sessions states wid requested)) =
             map_sum id (\<lambda>v. (isAllowed v, reason v))
               (fst (validateAttendanceAction now db
                      (sessions(extractPhoneNumber wid \<mapsto>
                         s\<lparr>pendingAction := None, pendingActionTime := None\<rparr>))
                      states wid requested))) \<and>
           (\<forall>v p. fst (validateAttendanceAction now db sessions states wid requested) = Inr v \<longrightarrow>
                  reason v \<noteq> PendingConflict p))"
proof -
  from pending_state_origin [OF assms] obtain s t where
    s: "sessions (extractPhoneNumber wid) = Some s" "pendingAction s = Some pending"
       "pendingActionTime s = Some t" "t \<noteq> 0" "real_of_int (now - t) / (1000 * 60) < 10"
    by blast
  let ?A = "fst (getEmployeeCurrentState now db sessions states wid True)"
  let ?B = "fst (getEmployeeCurrentState now db
                   (sessions(extractPhoneNumber wid \<mapsto>
                      s\<lparr>pendingAction := None, pendingActionTime := None\<rparr>)) states wid True)"
  have pr: "isWorkingHours ?A = isWorkingHours ?B" "currentStatus ?A = currentStatus ?B"
    "lastActionTime ?A = lastActionTime ?B" "todayEntries ?A = todayEntries ?B"
    "todayExits ?A = todayExits ?B"
    "list_ex mentionsMinTime (st_warnings ?A) = list_ex mentionsMinTime (st_warnings ?B)"
    "workingHours ?A = workingHours ?B"
    "st_pendingAction ?B = None"
    using s refl refl by (rule pending_projections)+
  have d: "decideAction ?A requested = decideAction ?B requested"
    using pr(1-7) by (rule decideAction_cong)
  show ?thesis
  proof (intro conjI impI allI)
    assume "requested \<noteq> pending"
    then show "\<exists>v. fst (validateAttendanceAction now db sessions states wid requested) = Inr v \<and>
                \<not> isAllowed v \<and> reason v = PendingConflict pending"
      using assms by (simp add: validate_fst)
  next
    assume "requested = pending"
    then have "map_sum id (\<lambda>v. (isAllowed v, reason v))
             (fst (validateAttendanceAction now db sessions states wid requested)) =
           map_sum id (\<lambda>v. (isAllowed v, reason v))
             (fst (validateAttendanceAction now db
                    (sessions(extractPhoneNumber wid \<mapsto>
                       s\<lparr>pendingAction := None, pendingActionTime := None\<rparr>))
                    states wid requested))"
      using assms pr(8) d
      by (auto simp: validate_fst Let_def split: sum.splits)
    with s(1,2) show "\<exists>s. sessions (extractPhoneNumber wid) = Some s \<and>
             pendingAction s = Some pending \<and>
             map_sum id (\<lambda>v. (isAllowed v, reason v))
               (fst (validateAttendanceAction now db sessions states wid requested)) =
             map_sum id (\<lambda>v. (isAllowed v, reason v))
               (fst (validateAttendanceAction now db
                      (sessions(extractPhoneNumber wid \<mapsto>
                         s\<lparr>pendingAction := None, pendingActionTime := None\<rparr>))
                      states wid requested))"
      by blast
  next
    fix v p
    assume "requested = pending"
      and "fst (validateAttendanceAction now db sessions states wid requested) = Inr v"
    then show "reason v \<noteq> PendingConflict p"
      using assms decideAction_no_conflict [of ?A requested]
      by (auto simp: validate_fst Let_def split: sum.splits)
  qed
qed

theorem pending_conflict_and_retry_witness:
  "(\<exists>v. fst (validateAttendanceAction 32460000 None samplePendingSessions Map.empty sampleUser
              Entrada) = Inr v \<and> \<not> isAllowed v \<and> reason v = PendingConflict Salida) \<and>
   (\<exists>v. fst (validateAttendanceAction 32460000 None samplePendingSessions Map.empty sampleUser
              Salida) = Inr v \<and> \<not> isAllowed v \<and> reason v = NoEntryYet)"
proof -
  have k: "samplePendingSessions (extractPhoneNumber sampleUser) = Some samplePendingSession"
    by (simp add: samplePendingSessions_eq extract_sampleUser)
  have "pendingAction samplePendingSession = Some Salida"
    "pendingActionTime samplePendingSession = Some 32400000" "(32400000::int) \<noteq> 0"
    "real_of_int (32460000 - 32400000) / (1000 * 60) < 10"
    by (simp_all add: samplePendingSession_def)
  with k have h: "st_pendingAction (fst (getEmployeeCurrentState 32460000 None samplePendingSessions
      Map.empty sampleUser True)) = Some Salida"
    by (rule pending_state)
  note t = pending_conflict_and_retry [OF h]
  from t [of Entrada]
  have 1: "\<exists>v. fst (validateAttendanceAction 32460000 None samplePendingSessions Map.empty sampleUser
              Entrada) = Inr v \<and> \<not> isAllowed v \<and> reason v = PendingConflict Salida"
    by simp
  let ?cleared = "samplePendingSessions(extractPhoneNumber sampleUser \<mapsto>
                       samplePendingSession\<lparr>pendingAction := None, pendingActionTime := None\<rparr>)"
  have "noSessionPending ?cleared"
    by (simp add: noSessionPending_def samplePendingSessions_eq extract_sampleUser)
  from no_rows_salida [OF this, of 32460000 Map.empty sampleUser]
  obtain w where w: "fst (validateAttendanceAction 32460000 None ?cleared Map.empty sampleUser Salida)
      = Inr w" "reason w = NoEntryYet"
    by blast
  then have "\<not> isAllowed w"
    by (auto simp: validate_fst decideAction_def Let_def split: option.splits sum.splits if_splits)
  with t [of Salida] k w
  have 2: "\<exists>v. fst (validateAttendanceAction 32460000 None samplePendingSessions Map.empty sampleUser
              Salida) = Inr v \<and> \<not> isAllowed v \<and> reason v = NoEntryYet"
    by (cases "fst (validateAttendanceAction 32460000 None samplePendingSessions Map.empty
              sampleUser Salida)") auto
  from 1 2 show ?thesis by blast
qed

text \<open>
  Claim C9. In every state the message handler reaches from the initial one, no session
  holds a pending action. So no validation of an action there is denied for a pending
  conflict, the state it computes has no pending action, and \<open>canEnter\<close> and \<open>canExit\<close>
  are decided without one; and when the handler allows \<open>entrada\<close> or \<open>salida\<close>, the
  pending action is in the server's map \<open>pendingAttendanceRequests\<close> and still in no
  session.
\<close>

theorem handler_never_sets_session_pending:
  assumes "S = run toStr initialState events"
  shows "noSessionPending (employeeSessions S) \<and>
         (\<forall>now db wid act v.
            fst (validateAttendanceAction now db (employeeSessions S) (employeeStates S) wid act)
              = Inr v \<longrightarrow>
            (\<forall>p. reason v \<noteq> PendingConflict p) \<and>
            st_pendingAction (employeeState v) = None \<and>
            canEnter (employeeState v) =
              (currentStatus (employeeState v) = OUT \<and>
               todayEntries (employeeState v) < MAX_ENTRIES_PER_DAY \<and>
               isWorkingHours (employeeState v)) \<and>
            canExit (employeeState v) = (currentStatus (employeeState v) = IN)) \<and>
         (\<forall>now dbUp message act v S'.
            handleMessage toStr now dbUp S message = (Inr (StateValidationMessage act v), S') \<and>
            isAllowed v \<longrightarrow>
            pendingAttendanceRequests S' (msg_from message) = Some act \<and>
            noSessionPending (employeeSessions S'))"
proof (intro conjI allI impI)
  show inv: "noSessionPending (employeeSessions S)"
    unfolding assms by (rule run_no_pending [OF initial_no_pending])
  {
    fix now db wid act v
    assume v: "fst (validateAttendanceAction now db (employeeSessions S) (employeeStates S) wid act)
              = Inr v"
    from validateAttendanceAction_no_pending(2) [OF inv v]
    have e: "employeeState v =
        fst (getEmployeeCurrentState now db (employeeSessions S) (employeeStates S) wid True)"
      and r: "\<And>p. reason v \<noteq> PendingConflict p"
      by simp_all
    from e getEmployeeCurrentState_no_pending(1) [OF inv, of now db "employeeStates S" wid]
    have n: "st_pendingAction (employeeState v) = None" by simp
    fix p
    show "reason v \<noteq> PendingConflict p" by (rule r)
    show "st_pendingAction (employeeState v) = None" by (rule n)
    show "canEnter (employeeState v) =
              (currentStatus (employeeState v) = OUT \<and>
               todayEntries (employeeState v) < MAX_ENTRIES_PER_DAY \<and>
               isWorkingHours (employeeState v))"
      using canEnter_canExit_fresh(1) [of now db "employeeSessions S" "employeeStates S" wid] e n
      by simp
    show "canExit (employeeState v) = (currentStatus (employeeState v) = IN)"
      using canEnter_canExit_fresh(2) [of now db "employeeSessions S" "employeeStates S" wid] e n
      by simp
  }
  {
    fix now dbUp message act v S'
    assume h: "handleMessage toStr now dbUp S message = (Inr (StateValidationMessage act v), S') \<and>
            isAllowed v"
    from handleAction_pending_request [OF handleMessage_validation_reply] h
    show "pendingAttendanceRequests S' (msg_from message) = Some act" by blast
    from handleMessage_no_pending [OF inv, of toStr now dbUp message] h
    show "noSessionPending (employeeSessions S')" by simp
  }
qed

theorem handler_never_sets_session_pending_witness:
  "(\<exists>v S'. handleMessage sampleToString 32400000 True (run sampleToString initialState [])
              sampleEntradaMessage = (Inr (StateValidationMessage Entrada v), S') \<and>
           isAllowed v \<and> pendingAttendanceRequests S' sampleUser = Some Entrada \<and>
           (\<exists>s. employeeSessions S' ''5491123456789'' = Some s \<and> pendingAction s = None)) \<and>
   (\<exists>v. fst (validateAttendanceAction 32460000 None
              (employeeSessions (run sampleToString initialState
                 [Incoming 32400000 True sampleEntradaMessage]))
              (employeeStates (run sampleToString initialState
                 [Incoming 32400000 True sampleEntradaMessage]))
              sampleUser Salida) = Inr v \<and>
        reason v = NoEntryYet \<and> st_pendingAction (employeeState v) = None)"
proof -
  let ?S1 = "run sampleToString initialState [Incoming 32400000 True sampleEntradaMessage]"
  note t0 = handler_never_sets_session_pending [OF refl, of sampleToString "[]"]
  note t1 = handler_never_sets_session_pending [OF refl, of sampleToString
      "[Incoming 32400000 True sampleEntradaMessage]"]
  have r0: "run sampleToString initialState [] = initialState" by (simp add: run_def)
  from sample_entrada_allowed obtain v S' where
    h: "handleMessage sampleToString 32400000 True initialState sampleEntradaMessage =
            (Inr (StateValidationMessage Entrada v), S')" "isAllowed v"
      "\<exists>s. employeeSessions S' ''5491123456789'' = Some s"
    by blast
  from t0 h(1,2) have "pendingAttendanceRequests S' (msg_from sampleEntradaMessage) = Some Entrada"
    and n: "noSessionPending (employeeSessions S')"
    unfolding r0 by blast+
  then have p: "pendingAttendanceRequests S' sampleUser = Some Entrada"
    by (simp add: sampleEntradaMessage_def)
  from n h(3) have s: "\<exists>s. employeeSessions S' ''5491123456789'' = Some s \<and> pendingAction s = None"
    by (auto simp: noSessionPending_def)
  from t1 have inv1: "noSessionPending (employeeSessions ?S1)" by blast
  from no_rows_salida [OF inv1, of 32460000 "employeeStates ?S1" sampleUser]
  obtain w where w: "fst (validateAttendanceAction 32460000 None (employeeSessions ?S1)
      (employeeStates ?S1) sampleUser Salida) = Inr w" "reason w = NoEntryYet"
    by blast
  from t1 w(1) have "st_pendingAction (employeeState w) = None" by blast
  with h p s w show ?thesis unfolding r0 by blast
qed

end
